(* ===== verification/Prelude.thy ===== *)
theory Prelude
  imports Main
begin

text \<open>
  Shared vocabulary of the development: the names of the model's basic types, the
  error values that stand for the HTTP error responses and the uncaught exceptions of
  the Django views, Python's truthiness tests on request parameters, Python's
  \<open>str.join\<close> and \<open>str.split\<close> on one separator character, and the row update
  \<open>UPDATE \<dots> WHERE\<close> that Django's \<open>save(update_fields=\<dots>)\<close> and
  \<open>QuerySet.update\<close> perform. The lemmas about them are collected in
  \<open>model_simps\<close> so that the component proofs can use them by name.
\<close>

named_theorems model_simps "equations of the shared helper functions"
named_theorems wf_intros "an operation keeps a well-formedness invariant"

type_synonym user_id = nat
type_synonym timestamp = nat
type_synonym ident = string

section \<open>Errors\<close>

text \<open>
  Every early \<open>return Response({"status": "error", ...})\<close> of a view and every
  exception the view does not catch is a constructor here; \<open>http_status\<close> gives the
  status code the client receives (an uncaught exception is Django's 500).
\<close>

datatype error =
    Missing_Param string
  | Invalid_Status "string option"
  | Rating_Out_Of_Range
  | Route_Not_Found
  | Object_Not_Found string
  | Field_Error string
  | Integrity_Error
  | Provider_Failure
  | Negative_Indexing
  | Validation_Error "string list"
  | Key_Error string
  | Value_Error string
  | Multiple_Objects string
  | Invalid_Token
  | Not_Authenticated
  | Authentication_Failed string
  | Permission_Denied

fun http_status :: "error \<Rightarrow> nat" where
  "http_status (Missing_Param _) = 400"
| "http_status (Invalid_Status _) = 400"
| "http_status Rating_Out_Of_Range = 400"
| "http_status Route_Not_Found = 404"
| "http_status (Object_Not_Found _) = 404"
| "http_status (Field_Error _) = 500"
| "http_status Integrity_Error = 500"
| "http_status Provider_Failure = 500"
| "http_status Negative_Indexing = 500"
| "http_status (Validation_Error _) = 400"
| "http_status (Key_Error _) = 500"
| "http_status (Value_Error _) = 500"
| "http_status (Multiple_Objects _) = 500"
| "http_status Invalid_Token = 400"
| "http_status Not_Authenticated = 401"
| "http_status (Authentication_Failed _) = 401"
| "http_status Permission_Denied = 403"

section \<open>Python truthiness of request parameters\<close>

text \<open>
  \<open>request.data.get(k)\<close> is \<open>None\<close> when the key is absent; \<open>if not x\<close> rejects
  \<open>None\<close>, the empty string and the number 0.
\<close>

definition py_truthy_str :: "string option \<Rightarrow> bool" where
  "py_truthy_str x = (case x of None \<Rightarrow> False | Some s \<Rightarrow> s \<noteq> [])"

definition py_truthy_int :: "int option \<Rightarrow> bool" where
  "py_truthy_int x = (case x of None \<Rightarrow> False | Some n \<Rightarrow> n \<noteq> 0)"

lemma py_truthy_str_simps [simp, model_simps]:
  "py_truthy_str None = False" "py_truthy_str (Some s) = (s \<noteq> [])"
  by (simp_all add: py_truthy_str_def)

lemma py_truthy_int_simps [simp, model_simps]:
  "py_truthy_int None = False" "py_truthy_int (Some n) = (n \<noteq> 0)"
  by (simp_all add: py_truthy_int_def)

section \<open>Character counts of UTF-8 strings\<close>

text \<open>
  Strings are UTF-8 byte lists; Python's \<open>len\<close> and Django's \<open>max_length\<close> count
  characters, i.e. the bytes that are not continuation bytes (\<open>0x80\<close> to \<open>0xBF\<close>).
\<close>

definition utf8_length :: "string \<Rightarrow> nat" where
  "utf8_length s = length (filter (\<lambda>c. \<not> (128 \<le> (of_char c :: nat) \<and> (of_char c :: nat) < 192)) s)"

lemma utf8_length_le [simp]: "utf8_length xs \<le> length xs"
  by (simp add: utf8_length_def)

section \<open>Python's str.join and str.split\<close>

fun join_str :: "string \<Rightarrow> string list \<Rightarrow> string" where
  "join_str sep [] = []"
| "join_str sep [x] = x"
| "join_str sep (x # y # ys) = x @ sep @ join_str sep (y # ys)"

fun split_on :: "char \<Rightarrow> string \<Rightarrow> string list" where
  "split_on c [] = [[]]"
| "split_on c (x # xs) =
     (if x = c then [] # split_on c xs
      else (case split_on c xs of [] \<Rightarrow> [[x]] | y # ys \<Rightarrow> (x # y) # ys))"

lemma split_on_not_Nil [simp, model_simps]: "split_on c xs \<noteq> []"
  by (induction xs) (auto split: list.splits)

lemma split_on_no_sep [model_simps]: "c \<notin> set xs \<Longrightarrow> split_on c xs = [xs]"
  by (induction xs) auto

lemma split_on_append_sep [model_simps]:
  "c \<notin> set xs \<Longrightarrow> split_on c (xs @ c # ys) = xs # split_on c ys"
  by (induction xs) auto

text \<open>\<open>str.split\<close> undoes \<open>str.join\<close> when no part contains the separator.\<close>

lemma split_join_str [model_simps]:
  assumes "parts \<noteq> []" and "\<forall>p \<in> set parts. c \<notin> set p"
  shows "split_on c (join_str [c] parts) = parts"
  using assms
proof (induction "[c]" parts rule: join_str.induct)
  case (2 x)
  then show ?case by (simp add: split_on_no_sep)
next
  case (3 x y ys)
  then show ?case by (simp add: split_on_append_sep)
qed simp

lemma join_str_Cons_Cons [model_simps]:
  "join_str sep (x # y # ys) = x @ sep @ join_str sep (y # ys)"
  by simp

lemma set_join_str [model_simps]:
  "set (join_str sep xs) \<subseteq> \<Union> (set ` set xs) \<union> set sep"
  by (induction sep xs rule: join_str.induct) auto

section \<open>Row updates\<close>

text \<open>
  \<open>UPDATE table SET \<dots> WHERE P\<close>: every row that satisfies the condition is
  changed by \<open>f\<close>, the others are kept, and the order of the table is unchanged.
\<close>

definition update_where :: "('a \<Rightarrow> bool) \<Rightarrow> ('a \<Rightarrow> 'a) \<Rightarrow> 'a list \<Rightarrow> 'a list" where
  "update_where P f xs = map (\<lambda>x. if P x then f x else x) xs"

lemma update_where_simps [simp, model_simps]:
  "update_where P f [] = []"
  "update_where P f (x # xs) = (if P x then f x else x) # update_where P f xs"
  by (simp_all add: update_where_def)

lemma length_update_where [simp, model_simps]: "length (update_where P f xs) = length xs"
  by (simp add: update_where_def)

lemma map_update_where_keep [model_simps]:
  "(\<And>x. P x \<Longrightarrow> g (f x) = g x) \<Longrightarrow> map g (update_where P f xs) = map g xs"
  by (induction xs) auto

lemma update_where_id [model_simps]:
  "(\<And>x. x \<in> set xs \<Longrightarrow> \<not> P x) \<Longrightarrow> update_where P f xs = xs"
  by (induction xs) auto

lemma set_update_where [model_simps]:
  "set (update_where P f xs) = {if P x then f x else x | x. x \<in> set xs}"
  by (auto simp: update_where_def)

lemma filter_update_where_keep [model_simps]:
  "(\<And>x. P x \<Longrightarrow> Q (f x) = Q x) \<Longrightarrow>
     filter Q (update_where P f xs) = update_where P f (filter Q xs)"
  by (induction xs) auto

text \<open>A lookup after an update that keeps the looked-up key finds the updated row.\<close>

lemma find_update_where [model_simps]:
  "(\<And>x. P (f x) = P x) \<Longrightarrow>
     find P (update_where Q f xs) = map_option (\<lambda>x. if Q x then f x else x) (find P xs)"
  by (induction xs) auto

text \<open>
  Updating the one row of a key-unique table that has a given key moves it from one
  class of a filter count to another.
\<close>

lemma length_filter_update_where_unique:
  assumes "distinct (map key xs)" and "x \<in> set xs"
  shows "length (filter Q (update_where (\<lambda>y. key y = key x) f xs)) + (if Q x then 1 else 0) =
         length (filter Q xs) + (if Q (f x) then 1 else 0)"
  using assms
proof (induction xs)
  case Nil
  then show ?case by simp
next
  case (Cons y ys)
  show ?case
  proof (cases "y = x")
    case True
    with Cons.prems have "\<forall>z \<in> set ys. key z \<noteq> key x" by (auto simp: image_iff)
    then have "update_where (\<lambda>y. key y = key x) f ys = ys" by (auto intro: update_where_id)
    with True show ?thesis by simp
  next
    case False
    with Cons.prems have "key y \<noteq> key x" and "x \<in> set ys" by (auto simp: image_iff)
    with Cons.IH Cons.prems show ?thesis by simp
  qed
qed

lemma find_append_None [model_simps]:
  "find P xs = None \<Longrightarrow> find P (xs @ ys) = find P ys"
  by (induction xs) (auto split: if_splits)

lemma find_filter_conj [model_simps]:
  "find (\<lambda>x. P x \<and> Q x) xs = find P (filter Q xs)"
  by (induction xs) auto

end
