(* ===== verification/Models.thy ===== *)
theory Models
  imports Prelude
begin

text \<open>
  The Django models of \<open>src/apps/routes/models.py\<close> as records, one per model class,
  and the database as a record of tables (\<open>'v db\<close>, with \<open>'v\<close> the type of an
  embedding vector). A table is a list of rows in the order \<open>objects.all()\<close> returns
  them; a many-to-many relation is the list of related primary keys kept on the row
  that declares it. Decimal fields are integers scaled by their decimal places
  (\<open>DecimalField(9, 6)\<close> is micro-degrees, \<open>DecimalField(3, 2)\<close> hundredths), float
  fields of cities and areas likewise, JSON fields are lists of their items (or the raw
  JSON text where the structure is never read), timestamps are natural numbers.
  \<open>db_wf\<close> collects what the database schema guarantees: primary keys are unique,
  foreign keys point at existing rows, a point has at most one embedding.
\<close>

section \<open>Reference entities\<close>

record city =
  city_id :: ident
  city_name :: string
  city_image_url :: "string option"
  city_description :: string
  city_latitude :: "int option"
  city_longitude :: "int option"
  city_bbox :: "string option"

record city_area =
  area_id :: nat
  area_city :: ident
  area_name :: string
  area_bbox :: "string option"
  area_latitude :: "int option"
  area_longitude :: "int option"
  area_description :: "string option"
  area_image_url :: "string option"

record interest =
  interest_id :: ident
  interest_label :: string
  interest_description :: string

record mood =
  mood_id :: ident
  mood_label :: string
  mood_description :: string

section \<open>Points and their embeddings\<close>

record point =
  point_id :: ident
  point_name :: string
  point_description :: string
  point_tags :: "string list"
  point_image_url :: "string option"
  point_city :: ident
  point_area :: "nat option"
  point_interests :: "ident list"
  point_moods :: "ident list"
  coordinates_lat :: int
  coordinates_lng :: int
  point_address :: "string option"
  average_visit_duration :: int
  average_cost :: "int option"
  is_partner :: bool
  partner_tier :: "string option"
  point_partner :: "ident option"
  working_hours_json :: "string option"
  best_visit_time :: "string list"
  is_seasonal :: bool
  seasonal_months :: "int list"
  view_count :: int
  success_rate :: int
  last_viewed_at :: "timestamp option"

text \<open>
  \<open>PointEmbedding\<close>: the point is the primary key (\<open>OneToOneField(primary_key=True)\<close>),
  \<open>updated_at\<close> is set on every save (\<open>auto_now=True\<close>).
\<close>

record 'v point_embedding =
  pe_point :: ident
  embedding :: 'v
  pe_updated_at :: timestamp

section \<open>Routes and feedback\<close>

datatype walk_status = Going | Done | Cancelled

text \<open>The stored string of each choice of \<open>Route.WalkStatus\<close>.\<close>

fun walk_status_value :: "walk_status \<Rightarrow> string" where
  "walk_status_value Going = ''going''"
| "walk_status_value Done = ''done''"
| "walk_status_value Cancelled = ''cancelled''"

definition walk_status_values :: "string list" where
  "walk_status_values = map walk_status_value [Going, Done, Cancelled]"

text \<open>\<open>new_status in Route.WalkStatus.values\<close>, read back as the choice it names.\<close>

definition parse_walk_status :: "string option \<Rightarrow> walk_status option" where
  "parse_walk_status x =
     (case x of None \<Rightarrow> None
      | Some s \<Rightarrow> find (\<lambda>st. walk_status_value st = s) [Going, Done, Cancelled])"

record route =
  route_id :: ident
  route_created_at :: timestamp
  total_duration :: int
  total_cost :: "int option"
  route_city :: "ident option"
  route_description :: "string option"
  route_user :: "user_id option"
  point_sequence :: "ident list"
  route_points :: "ident list"
  route_status :: walk_status

record feedback =
  feedback_id :: ident
  feedback_route :: ident
  feedback_user :: "user_id option"
  rating :: "int option"
  comment :: "string option"
  going :: bool
  feedback_created_at :: timestamp

section \<open>The database\<close>

record 'v db =
  db_cities :: "city list"
  db_areas :: "city_area list"
  db_interests :: "interest list"
  db_moods :: "mood list"
  db_points :: "point list"
  db_embeddings :: "'v point_embedding list"
  db_routes :: "route list"
  db_feedbacks :: "feedback list"

text \<open>\<open>Route.objects.filter(user=request.user)\<close>: the routes a user owns.\<close>

definition user_routes :: "user_id \<Rightarrow> route list \<Rightarrow> route list" where
  "user_routes u rs = filter (\<lambda>r. route_user r = Some u) rs"

section \<open>Rows created with the model defaults\<close>

text \<open>
  \<open>Point(...)\<close> with the required fields given and every other field at its declared
  default (\<open>default=list\<close>, \<open>default=False\<close>, \<open>default=0\<close>, or null).
\<close>

definition mk_point :: "ident \<Rightarrow> string \<Rightarrow> string \<Rightarrow> ident \<Rightarrow> int \<Rightarrow> int \<Rightarrow> int \<Rightarrow> point" where
  "mk_point pid nm desc cid lat lng dur =
     \<lparr>point_id = pid, point_name = nm, point_description = desc, point_tags = [],
      point_image_url = None, point_city = cid, point_area = None, point_interests = [],
      point_moods = [], coordinates_lat = lat, coordinates_lng = lng, point_address = None,
      average_visit_duration = dur, average_cost = None, is_partner = False,
      partner_tier = None, point_partner = None, working_hours_json = None,
      best_visit_time = [], is_seasonal = False, seasonal_months = [], view_count = 0,
      success_rate = 0, last_viewed_at = None\<rparr>"

text \<open>\<open>Route(...)\<close>: \<open>status\<close> defaults to \<open>going\<close>, cost and description to null.\<close>

definition mk_route ::
  "ident \<Rightarrow> timestamp \<Rightarrow> int \<Rightarrow> user_id option \<Rightarrow> ident option \<Rightarrow> ident list \<Rightarrow> ident list \<Rightarrow> route" where
  "mk_route rid now dur u cid seq pts =
     \<lparr>route_id = rid, route_created_at = now, total_duration = dur, total_cost = None,
      route_city = cid, route_description = None, route_user = u, point_sequence = seq,
      route_points = pts, route_status = Going\<rparr>"

definition empty_db :: "'v db" where
  "empty_db = \<lparr>db_cities = [], db_areas = [], db_interests = [], db_moods = [], db_points = [],
     db_embeddings = [], db_routes = [], db_feedbacks = []\<rparr>"

section \<open>Well-formedness\<close>

text \<open>
  The embedding table is well formed against a point table when its primary keys are
  unique (at most one embedding per point) and each names a point (the cascade on
  delete removes the others).
\<close>

definition emb_wf :: "point list \<Rightarrow> 'v point_embedding list \<Rightarrow> bool" where
  "emb_wf ps t \<longleftrightarrow> distinct (map pe_point t) \<and> set (map pe_point t) \<subseteq> set (map point_id ps)"

text \<open>
  The route invariant of the data model: the ordered \<open>point_sequence\<close> and the
  many-to-many \<open>points\<close> agree, every identifier of the sequence is a member of the set.
\<close>

definition route_consistent :: "route \<Rightarrow> bool" where
  "route_consistent r \<longleftrightarrow> set (point_sequence r) \<subseteq> set (route_points r)"

text \<open>\<open>Feedback.rating\<close> is documented as a value from 1 to 5, when given.\<close>

definition rating_ok :: "int option \<Rightarrow> bool" where
  "rating_ok x = (case x of None \<Rightarrow> True | Some n \<Rightarrow> 1 \<le> n \<and> n \<le> 5)"

definition feedback_wf :: "route list \<Rightarrow> feedback \<Rightarrow> bool" where
  "feedback_wf rs f \<longleftrightarrow> rating_ok (rating f) \<and> feedback_route f \<in> set (map route_id rs)"

definition db_wf :: "'v db \<Rightarrow> bool" where
  "db_wf d \<longleftrightarrow>
     distinct (map point_id (db_points d)) \<and>
     distinct (map route_id (db_routes d)) \<and>
     emb_wf (db_points d) (db_embeddings d) \<and>
     (\<forall>r \<in> set (db_routes d). route_consistent r) \<and>
     (\<forall>f \<in> set (db_feedbacks d). feedback_wf (db_routes d) f)"

lemma db_wf_empty: "db_wf empty_db"
  by (simp add: db_wf_def empty_db_def emb_wf_def)

lemma rating_ok_simps [simp]:
  "rating_ok None" "rating_ok (Some n) = (1 \<le> n \<and> n \<le> 5)"
  by (simp_all add: rating_ok_def)

lemma parse_walk_status_value [simp]: "parse_walk_status (Some (walk_status_value st)) = Some st"
  by (cases st) (simp_all add: parse_walk_status_def)

lemma parse_walk_status_Some:
  "parse_walk_status x = Some st \<longleftrightarrow> x = Some (walk_status_value st)"
  by (cases st) (auto simp: parse_walk_status_def split: option.splits)

lemma parse_walk_status_None:
  "parse_walk_status x = None \<longleftrightarrow> x \<notin> Some ` set walk_status_values"
  by (auto simp: parse_walk_status_def walk_status_values_def split: option.splits)

end
