(* ===== verification/TextComposer.thy ===== *)
theory TextComposer
  imports Models
begin

text \<open>
  \<open>build_point_text\<close> of \<open>src/apps/core/services.py\<close>: the text sent to the
  embedding client for a point. The interests and moods of a point are read with
  \<open>values_list("name", flat=True)\<close>; Django resolves the field name against the
  related model before any row is read, and \<open>Interest\<close> and \<open>Mood\<close> have no field
  \<open>name\<close> (their fields are \<open>id\<close>, \<open>label\<close>, \<open>description\<close>), so the call
  raises \<open>FieldError\<close>. The model keeps the field name as a parameter of
  \<open>build_point_text_using\<close>; \<open>build_point_text\<close> is the source's instance at
  \<open>''name''\<close>. The section prefixes are the UTF-8 bytes of the source's Russian
  literals.
\<close>

abbreviation LF :: char where "LF \<equiv> CHR 0x0A"

section \<open>The ORM reads the composer performs\<close>

text \<open>The concrete fields of \<open>Interest\<close> and \<open>Mood\<close>, and the value of a field of a row.\<close>

definition interest_fields :: "string list" where
  "interest_fields = [''id'', ''label'', ''description'']"

definition interest_value :: "string \<Rightarrow> interest \<Rightarrow> string" where
  "interest_value f i =
     (if f = ''id'' then interest_id i else if f = ''label'' then interest_label i
      else interest_description i)"

definition mood_fields :: "string list" where
  "mood_fields = [''id'', ''label'', ''description'']"

definition mood_value :: "string \<Rightarrow> mood \<Rightarrow> string" where
  "mood_value f m =
     (if f = ''id'' then mood_id m else if f = ''label'' then mood_label m
      else mood_description m)"

text \<open>\<open>qs.values_list(f, flat=True)\<close>: a field the model lacks is a \<open>FieldError\<close>.\<close>

definition values_list_flat ::
  "string list \<Rightarrow> (string \<Rightarrow> 'a \<Rightarrow> string) \<Rightarrow> string \<Rightarrow> 'a list \<Rightarrow> error + string list" where
  "values_list_flat fs get f rows =
     (if f \<in> set fs then Inr (map (get f) rows) else Inl (Field_Error f))"

text \<open>\<open>point.interests\<close> and \<open>point.moods\<close>: the related rows, in table order.\<close>

definition related_interests :: "interest list \<Rightarrow> point \<Rightarrow> interest list" where
  "related_interests tbl p = filter (\<lambda>i. interest_id i \<in> set (point_interests p)) tbl"

definition related_moods :: "mood list \<Rightarrow> point \<Rightarrow> mood list" where
  "related_moods tbl p = filter (\<lambda>m. mood_id m \<in> set (point_moods p)) tbl"

section \<open>The composer\<close>

definition tags_prefix :: string where
  "tags_prefix = [CHR 0xD0, CHR 0xA2, CHR 0xD0, CHR 0xB5, CHR 0xD0, CHR 0xB3,
     CHR 0xD0, CHR 0xB8] @ '': ''"

definition interests_prefix :: string where
  "interests_prefix = [CHR 0xD0, CHR 0x98, CHR 0xD0, CHR 0xBD, CHR 0xD1, CHR 0x82,
     CHR 0xD0, CHR 0xB5, CHR 0xD1, CHR 0x80, CHR 0xD0, CHR 0xB5, CHR 0xD1, CHR 0x81,
     CHR 0xD1, CHR 0x8B] @ '': ''"

definition moods_prefix :: string where
  "moods_prefix = [CHR 0xD0, CHR 0x9D, CHR 0xD0, CHR 0xB0, CHR 0xD1, CHR 0x81,
     CHR 0xD1, CHR 0x82, CHR 0xD1, CHR 0x80, CHR 0xD0, CHR 0xBE, CHR 0xD0, CHR 0xB5,
     CHR 0xD0, CHR 0xBD, CHR 0xD0, CHR 0xB8, CHR 0xD1, CHR 0x8F] @ '': ''"

text \<open>
  \<open>parts.append(prefix + ", ".join(xs))\<close> under \<open>if xs:\<close>. The description is
  always the first part (\<open>point.description or ""\<close>, a non-null text field).
\<close>

definition add_section :: "string \<Rightarrow> string list \<Rightarrow> string list \<Rightarrow> string list" where
  "add_section pre xs parts = (if xs \<noteq> [] then parts @ [pre @ join_str '', '' xs] else parts)"

definition build_point_text_using ::
  "string \<Rightarrow> interest list \<Rightarrow> mood list \<Rightarrow> point \<Rightarrow> error + string" where
  "build_point_text_using f itbl mtbl p =
     (let parts = add_section tags_prefix (point_tags p) [point_description p] in
      case values_list_flat interest_fields interest_value f (related_interests itbl p) of
        Inl e \<Rightarrow> Inl e
      | Inr ils \<Rightarrow>
          (let parts = add_section interests_prefix ils parts in
           case values_list_flat mood_fields mood_value f (related_moods mtbl p) of
             Inl e \<Rightarrow> Inl e
           | Inr ms \<Rightarrow> Inr (join_str [LF] (add_section moods_prefix ms parts))))"

definition build_point_text :: "interest list \<Rightarrow> mood list \<Rightarrow> point \<Rightarrow> error + string" where
  "build_point_text = build_point_text_using ''name''"

text \<open>The composer the embedding views call, reading the vocabularies of a database.\<close>

definition db_point_text :: "'v db \<Rightarrow> point \<Rightarrow> error + string" where
  "db_point_text d = build_point_text (db_interests d) (db_moods d)"

section \<open>Lemmas\<close>

lemma values_list_flat_bad_field [simp]:
  "f \<notin> set fs \<Longrightarrow> values_list_flat fs get f rows = Inl (Field_Error f)"
  by (simp add: values_list_flat_def)

lemma name_not_field [simp]:
  "''name'' \<notin> set interest_fields" "''name'' \<notin> set mood_fields"
  by (simp_all add: interest_fields_def mood_fields_def)

section \<open>Properties of the composer\<close>

text \<open>
  The composer as written always fails: \<open>values_list("name")\<close> names a field that
  \<open>Interest\<close> does not have, so \<open>build_point_text\<close> raises \<open>FieldError\<close> for every
  point, whatever its tags, interests and moods.
\<close>

lemma build_point_text_field_error:
  "build_point_text itbl mtbl p = Inl (Field_Error ''name'')"
  by (simp add: build_point_text_def build_point_text_using_def Let_def)

end
