(* ===== verification/EmbeddingStore.thy ===== *)
theory EmbeddingStore
  imports TextComposer
begin

text \<open>
  The embedding subsystem of \<open>src/apps/core\<close>: the \<open>PointEmbedding\<close> table with
  \<open>objects.create\<close> and \<open>objects.update_or_create\<close>, the client
  \<open>generate_embedding\<close> (an external call, a parameter \<open>E\<close> of the model that
  answers \<open>None\<close> when the provider raises), and the three admin views
  \<open>EmbedMissingPointsView\<close>, \<open>EmbedRefreshPointsView\<close>, \<open>EmbedUpdatePointView\<close>.
  The loops of the views are stated over any composer \<open>C\<close> (the interface
  \<open>point \<Rightarrow> error + string\<close>); the views instantiate it with the source's
  \<open>build_point_text\<close>. \<open>EmbedMissing\<close> commits each row as it is created (no
  transaction), so a failure keeps the rows made before it; \<open>EmbedRefresh\<close> runs
  inside \<open>transaction.atomic()\<close>, so a failure rolls the table back.
\<close>

type_synonym 'v emb_table = "'v point_embedding list"
type_synonym 'v embed_client = "string \<Rightarrow> 'v option"
type_synonym composer = "point \<Rightarrow> error + string"

section \<open>The table and the client\<close>

definition has_embedding :: "'v emb_table \<Rightarrow> ident \<Rightarrow> bool" where
  "has_embedding t pid \<longleftrightarrow> pid \<in> set (map pe_point t)"

definition emb_lookup :: "'v emb_table \<Rightarrow> ident \<Rightarrow> 'v option" where
  "emb_lookup t pid = map_option embedding (find (\<lambda>r. pe_point r = pid) t)"

text \<open>\<open>PointEmbedding.objects.create\<close>: an existing primary key is an \<open>IntegrityError\<close>.\<close>

definition emb_create :: "ident \<Rightarrow> 'v \<Rightarrow> timestamp \<Rightarrow> 'v emb_table \<Rightarrow> error + 'v emb_table" where
  "emb_create pid v now t =
     (if has_embedding t pid then Inl Integrity_Error
      else Inr (t @ [\<lparr>pe_point = pid, embedding = v, pe_updated_at = now\<rparr>]))"

text \<open>\<open>update_or_create(point=p, defaults={"embedding": v})\<close>: the row of the point is
  updated in place (and its \<open>updated_at\<close> refreshed), or a new row is inserted.\<close>

fun emb_upsert :: "ident \<Rightarrow> 'v \<Rightarrow> timestamp \<Rightarrow> 'v emb_table \<Rightarrow> 'v emb_table" where
  "emb_upsert pid v now [] = [\<lparr>pe_point = pid, embedding = v, pe_updated_at = now\<rparr>]"
| "emb_upsert pid v now (r # rs) =
     (if pe_point r = pid then r\<lparr>embedding := v, pe_updated_at := now\<rparr> # rs
      else r # emb_upsert pid v now rs)"

definition generate_embedding :: "'v embed_client \<Rightarrow> string \<Rightarrow> error + 'v" where
  "generate_embedding E txt = (case E txt of None \<Rightarrow> Inl Provider_Failure | Some v \<Rightarrow> Inr v)"

text \<open>\<open>text = build_point_text(point); embedding = generate_embedding(text)\<close>.\<close>

definition embed_point :: "composer \<Rightarrow> 'v embed_client \<Rightarrow> point \<Rightarrow> error + 'v" where
  "embed_point C E p = (case C p of Inl e \<Rightarrow> Inl e | Inr txt \<Rightarrow> generate_embedding E txt)"

section \<open>EmbedMissingPointsView\<close>

text \<open>
  The loop \<open>for point in Point.objects.all(): if not hasattr(point, "pointembedding"):
  \<dots>; created += 1\<close>. Without a transaction every \<open>create\<close> is committed at once:
  on an exception the table keeps the rows created so far, and the response is the error.
\<close>

fun embed_missing_loop ::
  "composer \<Rightarrow> 'v embed_client \<Rightarrow> timestamp \<Rightarrow> point list \<Rightarrow> 'v emb_table \<Rightarrow> nat
     \<Rightarrow> 'v emb_table \<times> (error + nat)" where
  "embed_missing_loop C E now [] t n = (t, Inr n)"
| "embed_missing_loop C E now (p # ps) t n =
     (if has_embedding t (point_id p) then embed_missing_loop C E now ps t n
      else (case embed_point C E p of
              Inl e \<Rightarrow> (t, Inl e)
            | Inr v \<Rightarrow> (case emb_create (point_id p) v now t of
                         Inl e \<Rightarrow> (t, Inl e)
                       | Inr t' \<Rightarrow> embed_missing_loop C E now ps t' (Suc n))))"

definition embed_missing_view ::
  "'v embed_client \<Rightarrow> timestamp \<Rightarrow> 'v db \<Rightarrow> 'v db \<times> (error + nat)" where
  "embed_missing_view E now d =
     (case embed_missing_loop (db_point_text d) E now (db_points d) (db_embeddings d) 0 of
        (t, r) \<Rightarrow> (d\<lparr>db_embeddings := t\<rparr>, r))"

section \<open>EmbedRefreshPointsView\<close>

text \<open>
  The loop inside \<open>transaction.atomic()\<close>: every point, unconditionally, is upserted.
  The loop itself either raises or returns the new table and the count; the view rolls
  the table back on an exception.
\<close>

fun embed_refresh_loop ::
  "composer \<Rightarrow> 'v embed_client \<Rightarrow> timestamp \<Rightarrow> point list \<Rightarrow> 'v emb_table \<Rightarrow> nat
     \<Rightarrow> error + ('v emb_table \<times> nat)" where
  "embed_refresh_loop C E now [] t n = Inr (t, n)"
| "embed_refresh_loop C E now (p # ps) t n =
     (case embed_point C E p of
        Inl e \<Rightarrow> Inl e
      | Inr v \<Rightarrow> embed_refresh_loop C E now ps (emb_upsert (point_id p) v now t) (Suc n))"

definition embed_refresh_with ::
  "composer \<Rightarrow> 'v embed_client \<Rightarrow> timestamp \<Rightarrow> point list \<Rightarrow> 'v emb_table
     \<Rightarrow> 'v emb_table \<times> (error + nat)" where
  "embed_refresh_with C E now ps t =
     (case embed_refresh_loop C E now ps t 0 of
        Inl e \<Rightarrow> (t, Inl e)
      | Inr (t', n) \<Rightarrow> (t', Inr n))"

definition embed_refresh_view ::
  "'v embed_client \<Rightarrow> timestamp \<Rightarrow> 'v db \<Rightarrow> 'v db \<times> (error + nat)" where
  "embed_refresh_view E now d =
     (case embed_refresh_with (db_point_text d) E now (db_points d) (db_embeddings d) of
        (t, r) \<Rightarrow> (d\<lparr>db_embeddings := t\<rparr>, r))"

section \<open>EmbedUpdatePointView\<close>

text \<open>
  \<open>get_object_or_404(Point, id=point_id)\<close>, then the text and the vector (outside
  the transaction), then one \<open>update_or_create\<close> in \<open>transaction.atomic()\<close>.
\<close>

definition embed_update_with ::
  "composer \<Rightarrow> 'v embed_client \<Rightarrow> timestamp \<Rightarrow> point list \<Rightarrow> ident \<Rightarrow> 'v emb_table
     \<Rightarrow> 'v emb_table \<times> (error + ident)" where
  "embed_update_with C E now ps pid t =
     (case find (\<lambda>p. point_id p = pid) ps of
        None \<Rightarrow> (t, Inl (Object_Not_Found ''Point''))
      | Some p \<Rightarrow> (case embed_point C E p of
                   Inl e \<Rightarrow> (t, Inl e)
                 | Inr v \<Rightarrow> (emb_upsert (point_id p) v now t, Inr (point_id p))))"

definition embed_update_view ::
  "'v embed_client \<Rightarrow> timestamp \<Rightarrow> ident \<Rightarrow> 'v db \<Rightarrow> 'v db \<times> (error + ident)" where
  "embed_update_view E now pid d =
     (case embed_update_with (db_point_text d) E now (db_points d) pid (db_embeddings d) of
        (t, r) \<Rightarrow> (d\<lparr>db_embeddings := t\<rparr>, r))"

section \<open>Lemmas on the table\<close>

lemma has_embedding_simps [simp]:
  "\<not> has_embedding [] pid"
  "has_embedding (r # t) pid \<longleftrightarrow> pe_point r = pid \<or> has_embedding t pid"
  "has_embedding (t @ u) pid \<longleftrightarrow> has_embedding t pid \<or> has_embedding u pid"
  by (auto simp: has_embedding_def)

lemma map_pe_point_upsert:
  "map pe_point (emb_upsert pid v now t) =
     (if has_embedding t pid then map pe_point t else map pe_point t @ [pid])"
  by (induction t) auto

lemma emb_lookup_upsert:
  "emb_lookup (emb_upsert pid v now t) q = (if q = pid then Some v else emb_lookup t q)"
  by (induction t) (auto simp: emb_lookup_def)

lemma has_embedding_upsert [simp]:
  "has_embedding (emb_upsert pid v now t) q \<longleftrightarrow> q = pid \<or> has_embedding t q"
  by (induction t) auto

lemma emb_wf_upsert [wf_intros]:
  "emb_wf ps t \<Longrightarrow> pid \<in> set (map point_id ps) \<Longrightarrow> emb_wf ps (emb_upsert pid v now t)"
  using map_pe_point_upsert [of pid v now t]
  by (auto simp: emb_wf_def has_embedding_def)

lemma emb_create_Inr:
  "emb_create pid v now t = Inr t' \<longleftrightarrow>
     \<not> has_embedding t pid \<and> t' = t @ [\<lparr>pe_point = pid, embedding = v, pe_updated_at = now\<rparr>]"
  by (auto simp: emb_create_def)

lemma emb_wf_create [wf_intros]:
  "emb_wf ps t \<Longrightarrow> pid \<in> set (map point_id ps) \<Longrightarrow> emb_create pid v now t = Inr t' \<Longrightarrow> emb_wf ps t'"
  by (auto simp: emb_create_Inr emb_wf_def has_embedding_def)

lemma embed_missing_loop_append:
  "embed_missing_loop C E now qs t n = (t', r) \<Longrightarrow>
   \<exists>new. t' = t @ new \<and> set (map pe_point new) \<subseteq> set (map point_id qs) \<and>
     (\<forall>x \<in> set new. \<not> has_embedding t (pe_point x))"
proof (induction qs arbitrary: t n)
  case Nil
  then show ?case by simp
next
  case (Cons p qs)
  show ?case
  proof (cases "has_embedding t (point_id p)")
    case True
    with Cons.prems have "embed_missing_loop C E now qs t n = (t', r)" by simp
    from Cons.IH [OF this] show ?thesis by auto
  next
    case False
    show ?thesis
    proof (cases "\<exists>v t1. embed_point C E p = Inr v \<and> emb_create (point_id p) v now t = Inr t1")
      case True
      then obtain v t1 where v: "embed_point C E p = Inr v" and c: "emb_create (point_id p) v now t = Inr t1"
        by blast
      from c have t1: "t1 = t @ [\<lparr>pe_point = point_id p, embedding = v, pe_updated_at = now\<rparr>]"
        by (simp add: emb_create_Inr)
      from Cons.prems False v c have "\<exists>n'. embed_missing_loop C E now qs t1 n' = (t', r)"
        by (simp, blast)
      then obtain n' where "embed_missing_loop C E now qs t1 n' = (t', r)" ..
      from Cons.IH [OF this] obtain new where
        "t' = t1 @ new" "set (map pe_point new) \<subseteq> set (map point_id qs)"
        "\<forall>x \<in> set new. \<not> has_embedding t1 (pe_point x)" by blast
      with t1 False show ?thesis
        by (intro exI [of _ "\<lparr>pe_point = point_id p, embedding = v, pe_updated_at = now\<rparr> # new"]) auto
    next
      case False
      with \<open>\<not> has_embedding t (point_id p)\<close> Cons.prems have "t' = t"
        by (auto split: sum.splits)
      then show ?thesis by simp
    qed
  qed
qed

lemma embed_missing_loop_failure:
  "embed_missing_loop C E now qs t n = (t', Inl e) \<Longrightarrow>
   \<exists>pre p post new. qs = pre @ p # post \<and> t' = t @ new \<and> distinct (map pe_point new) \<and>
     set (map pe_point new) = {i \<in> set (map point_id pre). \<not> has_embedding t i} \<and>
     (\<forall>x \<in> set new. pe_updated_at x = now \<and>
        (\<exists>q \<in> set pre. point_id q = pe_point x \<and> embed_point C E q = Inr (embedding x))) \<and>
     \<not> has_embedding t' (point_id p) \<and> embed_point C E p = Inl e"
proof (induction qs arbitrary: t n)
  case Nil
  then show ?case by simp
next
  case (Cons p0 qs)
  show ?case
  proof (cases "has_embedding t (point_id p0)")
    case True
    with Cons.prems have "embed_missing_loop C E now qs t n = (t', Inl e)" by simp
    from Cons.IH [OF this] obtain pre p post new where
      h: "qs = pre @ p # post" "t' = t @ new" "distinct (map pe_point new)"
         "set (map pe_point new) = {i \<in> set (map point_id pre). \<not> has_embedding t i}"
         "\<forall>x \<in> set new. pe_updated_at x = now \<and>
            (\<exists>q \<in> set pre. point_id q = pe_point x \<and> embed_point C E q = Inr (embedding x))"
         "\<not> has_embedding t' (point_id p)" "embed_point C E p = Inl e"
      by blast
    show ?thesis
    proof (intro exI conjI)
      show "p0 # qs = (p0 # pre) @ p # post" using h(1) by simp
      show "set (map pe_point new) = {i \<in> set (map point_id (p0 # pre)). \<not> has_embedding t i}"
        using h(4) True by auto
      show "\<forall>x \<in> set new. pe_updated_at x = now \<and>
          (\<exists>q \<in> set (p0 # pre). point_id q = pe_point x \<and> embed_point C E q = Inr (embedding x))"
        using h(5) by auto
    qed (use h in auto)
  next
    case False
    show ?thesis
    proof (cases "embed_point C E p0")
      case (Inl e0)
      with False Cons.prems have "t' = t" "e = e0" by auto
      with False Inl show ?thesis
        by (intro exI [of _ "[]"] exI [of _ p0] exI [of _ qs] exI [of _ "[]"]) simp
    next
      case (Inr v)
      let ?row = "\<lparr>pe_point = point_id p0, embedding = v, pe_updated_at = now\<rparr>"
      from False have c: "emb_create (point_id p0) v now t = Inr (t @ [?row])"
        by (simp add: emb_create_Inr)
      with False Inr Cons.prems have "embed_missing_loop C E now qs (t @ [?row]) (Suc n) = (t', Inl e)"
        by simp
      from Cons.IH [OF this] obtain pre p post new where
        h: "qs = pre @ p # post" "t' = (t @ [?row]) @ new" "distinct (map pe_point new)"
           "set (map pe_point new) = {i \<in> set (map point_id pre). \<not> has_embedding (t @ [?row]) i}"
           "\<forall>x \<in> set new. pe_updated_at x = now \<and>
              (\<exists>q \<in> set pre. point_id q = pe_point x \<and> embed_point C E q = Inr (embedding x))"
           "\<not> has_embedding t' (point_id p)" "embed_point C E p = Inl e"
        by blast
      show ?thesis
      proof (intro exI conjI)
        show "p0 # qs = (p0 # pre) @ p # post" using h(1) by simp
        show "t' = t @ ?row # new" using h(2) by simp
        show "distinct (map pe_point (?row # new))" using h(3,4) by auto
        show "set (map pe_point (?row # new)) = {i \<in> set (map point_id (p0 # pre)). \<not> has_embedding t i}"
          using h(4) False by auto
        show "\<forall>x \<in> set (?row # new). pe_updated_at x = now \<and>
            (\<exists>q \<in> set (p0 # pre). point_id q = pe_point x \<and> embed_point C E q = Inr (embedding x))"
          using h(5) Inr by auto
      qed (use h in auto)
    qed
  qed
qed

lemma embed_missing_loop_wf:
  "emb_wf ps t \<Longrightarrow> set (map point_id qs) \<subseteq> set (map point_id ps) \<Longrightarrow>
   embed_missing_loop C E now qs t n = (t', r) \<Longrightarrow> emb_wf ps t'"
proof (induction qs arbitrary: t n)
  case Nil
  then show ?case by simp
next
  case (Cons p qs)
  have p: "point_id p \<in> set (map point_id ps)" and qs: "set (map point_id qs) \<subseteq> set (map point_id ps)"
    using Cons.prems(2) by auto
  show ?case
  proof (cases "has_embedding t (point_id p)")
    case True
    with Cons.prems Cons.IH [OF _ qs] show ?thesis by simp
  next
    case False
    show ?thesis
    proof (cases "embed_point C E p")
      case (Inl e)
      with False Cons.prems show ?thesis by simp
    next
      case (Inr v)
      show ?thesis
      proof (cases "emb_create (point_id p) v now t")
        case (Inl e)
        with False Inr Cons.prems show ?thesis by simp
      next
        case (Inr t1)
        with \<open>embed_point C E p = Inr v\<close> False Cons.prems
        have "\<exists>n'. embed_missing_loop C E now qs t1 n' = (t', r)" by (simp, blast)
        then obtain n' where "embed_missing_loop C E now qs t1 n' = (t', r)" ..
        moreover from Inr Cons.prems(1) p have "emb_wf ps t1" by (rule emb_wf_create [rotated 2])
        ultimately show ?thesis using Cons.IH [OF _ qs] by blast
      qed
    qed
  qed
qed

lemma embed_missing_loop_covers:
  "embed_missing_loop C E now qs t n = (t', Inr m) \<Longrightarrow> \<forall>p \<in> set qs. has_embedding t' (point_id p)"
proof (induction qs arbitrary: t n)
  case Nil
  then show ?case by simp
next
  case (Cons p qs)
  then show ?case
    by (fastforce simp: emb_create_Inr dest: embed_missing_loop_append split: if_splits sum.splits)
qed

lemma embed_missing_loop_count:
  "distinct (map point_id qs) \<Longrightarrow> embed_missing_loop C E now qs t n = (t', Inr m) \<Longrightarrow>
   m = n + length (filter (\<lambda>p. \<not> has_embedding t (point_id p)) qs)"
proof (induction qs arbitrary: t n)
  case Nil
  then show ?case by simp
next
  case (Cons p qs)
  show ?case
  proof (cases "has_embedding t (point_id p)")
    case True
    with Cons show ?thesis by simp
  next
    case False
    with Cons.prems obtain v t1 where v: "embed_point C E p = Inr v"
      and t1: "t1 = t @ [\<lparr>pe_point = point_id p, embedding = v, pe_updated_at = now\<rparr>]"
      and run: "embed_missing_loop C E now qs t1 (Suc n) = (t', Inr m)"
      by (auto simp: emb_create_Inr split: sum.splits)
    from Cons.prems(1) have "point_id p \<notin> set (map point_id qs)" by simp
    then have "filter (\<lambda>q. \<not> has_embedding t1 (point_id q)) qs =
               filter (\<lambda>q. \<not> has_embedding t (point_id q)) qs"
      by (auto simp: t1 intro: filter_cong)
    with Cons.IH [OF _ run] Cons.prems(1) False show ?thesis by simp
  qed
qed

lemma embed_missing_loop_noop:
  "\<forall>p \<in> set qs. has_embedding t (point_id p) \<Longrightarrow> embed_missing_loop C E now qs t n = (t, Inr n)"
  by (induction qs) auto

lemma embed_missing_loop_failing:
  "(\<And>p. C p = Inl e) \<Longrightarrow> embed_missing_loop C E now qs t n =
     (if \<exists>p \<in> set qs. \<not> has_embedding t (point_id p) then (t, Inl e) else (t, Inr n))"
  by (induction qs) (auto simp: embed_point_def)

lemma embed_refresh_loop_count:
  "embed_refresh_loop C E now qs t n = Inr (t', m) \<Longrightarrow> m = n + length qs"
proof (induction qs arbitrary: t n)
  case Nil
  then show ?case by simp
next
  case (Cons p qs)
  then obtain v where "embed_refresh_loop C E now qs (emb_upsert (point_id p) v now t) (Suc n) = Inr (t', m)"
    by (auto split: sum.splits)
  from Cons.IH [OF this] show ?case by simp
qed

lemma embed_refresh_loop_lookup:
  "distinct (map point_id qs) \<Longrightarrow> embed_refresh_loop C E now qs t n = Inr (t', m) \<Longrightarrow>
   (\<forall>p \<in> set qs. \<exists>v. embed_point C E p = Inr v \<and> emb_lookup t' (point_id p) = Some v) \<and>
   (\<forall>q. q \<notin> set (map point_id qs) \<longrightarrow> emb_lookup t' q = emb_lookup t q)"
proof (induction qs arbitrary: t n)
  case Nil
  then show ?case by simp
next
  case (Cons p qs)
  from Cons.prems obtain v where v: "embed_point C E p = Inr v"
    and run: "embed_refresh_loop C E now qs (emb_upsert (point_id p) v now t) (Suc n) = Inr (t', m)"
    by (auto split: sum.splits)
  from Cons.prems(1) have d: "distinct (map point_id qs)" "point_id p \<notin> set (map point_id qs)"
    by auto
  from Cons.IH [OF d(1) run] d(2) v show ?case
    by (auto simp: emb_lookup_upsert)
qed

lemma embed_refresh_loop_wf:
  "emb_wf ps t \<Longrightarrow> set (map point_id qs) \<subseteq> set (map point_id ps) \<Longrightarrow>
   embed_refresh_loop C E now qs t n = Inr (t', m) \<Longrightarrow> emb_wf ps t'"
proof (induction qs arbitrary: t n)
  case Nil
  then show ?case by simp
next
  case (Cons p qs)
  from Cons.prems(3) obtain v where
    run: "embed_refresh_loop C E now qs (emb_upsert (point_id p) v now t) (Suc n) = Inr (t', m)"
    by (auto split: sum.splits)
  from Cons.prems(2) have p: "point_id p \<in> set (map point_id ps)" and qs: "set (map point_id qs) \<subseteq> set (map point_id ps)"
    by auto
  from Cons.prems(1) p have "emb_wf ps (emb_upsert (point_id p) v now t)" by (rule emb_wf_upsert)
  from Cons.IH [OF this qs run] show ?case .
qed

lemma db_point_text_fails: "db_point_text d p = Inl (Field_Error ''name'')"
  by (simp add: db_point_text_def build_point_text_def build_point_text_using_def Let_def)

section \<open>Properties of the views\<close>

text \<open>
  C5. EmbedMissing, when it succeeds, leaves every point with an embedding, reports as
  created exactly the points that had none, and only appends rows: no existing embedding
  is touched. It is then idempotent: running it again, with any composer and client,
  creates nothing, reports 0, and calls neither.
\<close>

theorem embed_missing_complete:
  assumes "distinct (map point_id ps)"
    and "embed_missing_loop C E now ps t 0 = (t', Inr m)"
  shows "(\<forall>p \<in> set ps. has_embedding t' (point_id p)) \<and>
         m = length (filter (\<lambda>p. \<not> has_embedding t (point_id p)) ps) \<and>
         (\<exists>new. t' = t @ new) \<and>
         (\<forall>C' E' now'. embed_missing_loop C' E' now' ps t' 0 = (t', Inr 0))"
proof -
  have cov: "\<forall>p \<in> set ps. has_embedding t' (point_id p)" by (rule embed_missing_loop_covers [OF assms(2)])
  have "\<forall>C' E' now'. embed_missing_loop C' E' now' ps t' 0 = (t', Inr 0)"
    using embed_missing_loop_noop [OF cov] by blast
  with cov show ?thesis
    using embed_missing_loop_count [OF assms] embed_missing_loop_append [OF assms(2)] by auto
qed

theorem embed_missing_complete_witness:
  "distinct (map point_id [mk_point ''a'' ''A'' ''x'' ''msk'' 0 0 30, mk_point ''b'' ''B'' ''yz'' ''msk'' 0 0 30]) \<and>
   embed_missing_loop (\<lambda>p. Inr (point_description p)) (\<lambda>s. Some (length s)) 5
     [mk_point ''a'' ''A'' ''x'' ''msk'' 0 0 30, mk_point ''b'' ''B'' ''yz'' ''msk'' 0 0 30]
     [\<lparr>pe_point = ''a'', embedding = 1, pe_updated_at = 0\<rparr>] 0 =
     ([\<lparr>pe_point = ''a'', embedding = 1, pe_updated_at = 0\<rparr>,
       \<lparr>pe_point = ''b'', embedding = 2, pe_updated_at = 5\<rparr>], Inr 1) \<and>
   has_embedding [\<lparr>pe_point = ''a'', embedding = 1::nat, pe_updated_at = 0\<rparr>,
        \<lparr>pe_point = ''b'', embedding = 2, pe_updated_at = 5\<rparr>] ''b''"
  using embed_missing_complete [of "[mk_point ''a'' ''A'' ''x'' ''msk'' 0 0 30, mk_point ''b'' ''B'' ''yz'' ''msk'' 0 0 30]"
      "\<lambda>p. Inr (point_description p)" "\<lambda>s. Some (length s)" 5
      "[\<lparr>pe_point = ''a'', embedding = 1::nat, pe_updated_at = 0\<rparr>]"]
  by (simp add: mk_point_def embed_point_def generate_embedding_def emb_create_def)

text \<open>
  C7. EmbedRefresh is all or nothing: on failure the table is exactly as before (the
  transaction is rolled back); on success every point's embedding is the client's vector
  for its text, the count is the number of points, and rows of other keys are unchanged.
\<close>

theorem embed_refresh_all_or_nothing:
  assumes "distinct (map point_id ps)"
    and "embed_refresh_with C E now ps t = (t', r)"
  shows "(case r of
            Inl e \<Rightarrow> t' = t
          | Inr m \<Rightarrow> m = length ps \<and>
              (\<forall>p \<in> set ps. \<exists>v. embed_point C E p = Inr v \<and> emb_lookup t' (point_id p) = Some v) \<and>
              (\<forall>q. q \<notin> set (map point_id ps) \<longrightarrow> emb_lookup t' q = emb_lookup t q))"
proof (cases "embed_refresh_loop C E now ps t 0")
  case (Inl e)
  with assms(2) show ?thesis by (auto simp: embed_refresh_with_def)
next
  case (Inr res)
  obtain t1 m where res: "res = (t1, m)" by (cases res)
  with Inr assms(2) have "t' = t1" "r = Inr m" by (auto simp: embed_refresh_with_def)
  with Inr res embed_refresh_loop_count embed_refresh_loop_lookup [OF assms(1)] show ?thesis
    by fastforce
qed

theorem embed_refresh_all_or_nothing_witness:
  "distinct (map point_id [mk_point ''a'' ''A'' ''x'' ''msk'' 0 0 30, mk_point ''b'' ''B'' ''yz'' ''msk'' 0 0 30]) \<and>
   embed_refresh_with (\<lambda>p. Inr (point_description p)) (\<lambda>s. if length s < 2 then Some (length s) else None) 5
     [mk_point ''a'' ''A'' ''x'' ''msk'' 0 0 30, mk_point ''b'' ''B'' ''yz'' ''msk'' 0 0 30]
     [\<lparr>pe_point = ''a'', embedding = 7, pe_updated_at = 0\<rparr>] =
     ([\<lparr>pe_point = ''a'', embedding = 7::nat, pe_updated_at = 0\<rparr>], Inl Provider_Failure)"
  using embed_refresh_all_or_nothing [of "[mk_point ''a'' ''A'' ''x'' ''msk'' 0 0 30, mk_point ''b'' ''B'' ''yz'' ''msk'' 0 0 30]"
      "\<lambda>p. Inr (point_description p)" "\<lambda>s. if length s < 2 then Some (length s) else None" 5
      "[\<lparr>pe_point = ''a'', embedding = 7::nat, pe_updated_at = 0\<rparr>]"]
  by (simp add: mk_point_def embed_point_def generate_embedding_def embed_refresh_with_def)

text \<open>
  C8. EmbedMissing has no transaction: when it fails, the rows it created before the
  failure stay committed, and only those. A failed run stops at a point \<open>p\<close> that has
  no embedding and whose text or vector could not be computed; the table is then the
  old table followed by exactly one new row for each point before \<open>p\<close> that had no
  embedding, each holding the client's vector of that point's text, stamped now.
\<close>

theorem embed_missing_partial_commit:
  assumes "embed_missing_loop C E now ps t 0 = (t', Inl e)"
  shows "\<exists>pre p post new. ps = pre @ p # post \<and> t' = t @ new \<and> distinct (map pe_point new) \<and>
           set (map pe_point new) = {i \<in> set (map point_id pre). \<not> has_embedding t i} \<and>
           (\<forall>x \<in> set new. pe_updated_at x = now \<and>
              (\<exists>q \<in> set pre. point_id q = pe_point x \<and> embed_point C E q = Inr (embedding x))) \<and>
           \<not> has_embedding t' (point_id p) \<and> embed_point C E p = Inl e"
  using assms by (rule embed_missing_loop_failure)

theorem embed_missing_partial_commit_witness:
  "embed_missing_loop (\<lambda>p. Inr (point_description p)) (\<lambda>s. if length s < 2 then Some (length s) else None) 5
     [mk_point ''a'' ''A'' ''x'' ''msk'' 0 0 30, mk_point ''b'' ''B'' ''yz'' ''msk'' 0 0 30] [] 0 =
     ([\<lparr>pe_point = ''a'', embedding = 1::nat, pe_updated_at = 5\<rparr>], Inl Provider_Failure) \<and>
   (\<exists>pre p post new. [mk_point ''a'' ''A'' ''x'' ''msk'' 0 0 30, mk_point ''b'' ''B'' ''yz'' ''msk'' 0 0 30] = pre @ p # post \<and>
      [\<lparr>pe_point = ''a'', embedding = 1::nat, pe_updated_at = 5\<rparr>] = [] @ new \<and>
      set (map pe_point new) = {i \<in> set (map point_id pre). \<not> has_embedding ([] :: nat emb_table) i} \<and>
      embed_point (\<lambda>p. Inr (point_description p)) (\<lambda>s. if length s < 2 then Some (length s) else None) p = Inl Provider_Failure)"
proof -
  have run: "embed_missing_loop (\<lambda>p. Inr (point_description p)) (\<lambda>s. if length s < 2 then Some (length s) else None) 5
     [mk_point ''a'' ''A'' ''x'' ''msk'' 0 0 30, mk_point ''b'' ''B'' ''yz'' ''msk'' 0 0 30] [] 0 =
     ([\<lparr>pe_point = ''a'', embedding = 1::nat, pe_updated_at = 5\<rparr>], Inl Provider_Failure)"
    by (simp add: mk_point_def embed_point_def generate_embedding_def emb_create_def)
  from embed_missing_partial_commit [OF run] run show ?thesis by blast
qed

text \<open>
  C9. The composer as written always fails: \<open>values_list("name")\<close> names a field
  that \<open>Interest\<close> does not have, so \<open>build_point_text\<close> raises \<open>FieldError\<close>
  for every point. Hence no view can embed anything: EmbedMissing fails as soon as one point lacks an embedding, EmbedRefresh fails
  whenever there is a point, EmbedUpdate fails on every existing point, and none of them
  changes the database.
\<close>

theorem embed_views_field_error:
  "build_point_text itbl mtbl p = Inl (Field_Error ''name'') \<and>
   embed_missing_view E now d =
     (if filter (\<lambda>p. \<not> has_embedding (db_embeddings d) (point_id p)) (db_points d) = []
      then (d, Inr 0) else (d, Inl (Field_Error ''name''))) \<and>
   embed_refresh_view E now d =
     (if db_points d = [] then (d, Inr 0) else (d, Inl (Field_Error ''name''))) \<and>
   embed_update_view E now pid d =
     (d, Inl (if pid \<in> set (map point_id (db_points d)) then Field_Error ''name''
              else Object_Not_Found ''Point''))"
proof -
  have C: "\<And>p. db_point_text d p = Inl (Field_Error ''name'')" by (rule db_point_text_fails)
  have miss: "embed_missing_loop (db_point_text d) E now (db_points d) (db_embeddings d) 0 =
      (if \<exists>p \<in> set (db_points d). \<not> has_embedding (db_embeddings d) (point_id p)
       then (db_embeddings d, Inl (Field_Error ''name'')) else (db_embeddings d, Inr 0))"
    using C by (rule embed_missing_loop_failing)
  have refr: "embed_refresh_loop (db_point_text d) E now (db_points d) (db_embeddings d) 0 =
      (if db_points d = [] then Inr (db_embeddings d, 0) else Inl (Field_Error ''name''))"
    by (cases "db_points d") (simp_all add: embed_point_def C)
  have upd: "find (\<lambda>p. point_id p = pid) (db_points d) = None \<longleftrightarrow> pid \<notin> set (map point_id (db_points d))"
    by (auto simp: find_None_iff)
  show ?thesis
    using miss refr upd build_point_text_field_error
    by (auto simp: embed_missing_view_def embed_refresh_view_def embed_refresh_with_def
        embed_update_view_def embed_update_with_def embed_point_def C filter_empty_conv
        split: option.splits)
qed

section \<open>Invariant and frame of the views\<close>

text \<open>
  C6. EmbedUpdateOne, whatever the composer and the client. \<open>get_object_or_404\<close> answers
  404 for an unknown point before anything is composed. A failure to compose the text
  or to obtain the vector leaves the table as it was. Otherwise the view answers the
  point's id, and \<open>update_or_create\<close> makes the point's embedding the client's vector
  of its text. It changes no other point's embedding and adds no second row for the
  point.
\<close>

theorem embed_update_upsert:
  "(pid \<notin> set (map point_id ps) \<longrightarrow>
      embed_update_with C E now ps pid t = (t, Inl (Object_Not_Found ''Point''))) \<and>
   (find (\<lambda>p. point_id p = pid) ps = Some p \<and> embed_point C E p = Inr v \<longrightarrow>
      snd (embed_update_with C E now ps pid t) = Inr pid) \<and>
   (embed_update_with C E now ps pid t = (t', Inl e) \<longrightarrow> t' = t) \<and>
   (embed_update_with C E now ps pid t = (t', Inr r) \<longrightarrow>
      r = pid \<and>
      (\<exists>p v. find (\<lambda>p. point_id p = pid) ps = Some p \<and> embed_point C E p = Inr v \<and>
             emb_lookup t' pid = Some v) \<and>
      (\<forall>q. q \<noteq> pid \<longrightarrow> emb_lookup t' q = emb_lookup t q) \<and>
      (emb_wf ps t \<longrightarrow> emb_wf ps t'))"
proof -
  have c1: "embed_update_with C E now ps pid t = (t, Inl (Object_Not_Found ''Point''))"
    if "pid \<notin> set (map point_id ps)"
  proof -
    from that have "find (\<lambda>p. point_id p = pid) ps = None" by (auto simp: find_None_iff)
    then show ?thesis by (simp add: embed_update_with_def)
  qed
  have c2: "snd (embed_update_with C E now ps pid t) = Inr pid"
    if "find (\<lambda>p. point_id p = pid) ps = Some p \<and> embed_point C E p = Inr v"
  proof -
    from that have "point_id p = pid" by (auto simp: find_Some_iff)
    with that show ?thesis by (simp add: embed_update_with_def)
  qed
  have c3: "t' = t" if "embed_update_with C E now ps pid t = (t', Inl e)"
    using that by (auto simp: embed_update_with_def split: option.splits sum.splits)
  have c4: "r = pid \<and>
      (\<exists>p v. find (\<lambda>p. point_id p = pid) ps = Some p \<and> embed_point C E p = Inr v \<and>
             emb_lookup t' pid = Some v) \<and>
      (\<forall>q. q \<noteq> pid \<longrightarrow> emb_lookup t' q = emb_lookup t q) \<and>
      (emb_wf ps t \<longrightarrow> emb_wf ps t')"
    if a: "embed_update_with C E now ps pid t = (t', Inr r)"
  proof -
    from a obtain p v where f: "find (\<lambda>p. point_id p = pid) ps = Some p" and ev: "embed_point C E p = Inr v"
      by (auto simp: embed_update_with_def split: option.splits sum.splits)
    from f have pp: "point_id p = pid" "pid \<in> set (map point_id ps)"
      by (auto simp: find_Some_iff nth_mem)
    from a f ev pp have t': "t' = emb_upsert pid v now t" and r: "r = pid"
      by (auto simp: embed_update_with_def)
    from t' pp have "emb_wf ps t \<longrightarrow> emb_wf ps t'" by (auto intro: emb_wf_upsert)
    with f ev t' r show ?thesis by (auto simp: emb_lookup_upsert)
  qed
  from c1 c2 c3 c4 show ?thesis by blast
qed

theorem embed_update_upsert_witness:
  "embed_update_with (\<lambda>p. Inr (point_description p)) (\<lambda>s. Some (length s)) 9
     [mk_point ''a'' ''A'' ''xyz'' ''msk'' 0 0 30] ''a'' [\<lparr>pe_point = ''a'', embedding = 1::nat, pe_updated_at = 5\<rparr>] =
     ([\<lparr>pe_point = ''a'', embedding = 3, pe_updated_at = 9\<rparr>], Inr ''a'') \<and>
   emb_lookup [\<lparr>pe_point = ''a'', embedding = 3::nat, pe_updated_at = 9\<rparr>] ''a'' = Some 3 \<and>
   embed_update_with (\<lambda>p. Inr (point_description p)) (\<lambda>s. Some (length s)) 9
     [mk_point ''a'' ''A'' ''xyz'' ''msk'' 0 0 30] ''z'' [\<lparr>pe_point = ''a'', embedding = 1::nat, pe_updated_at = 5\<rparr>] =
     ([\<lparr>pe_point = ''a'', embedding = 1, pe_updated_at = 5\<rparr>], Inl (Object_Not_Found ''Point''))"
proof -
  have run: "embed_update_with (\<lambda>p. Inr (point_description p)) (\<lambda>s. Some (length s)) 9
     [mk_point ''a'' ''A'' ''xyz'' ''msk'' 0 0 30] ''a'' [\<lparr>pe_point = ''a'', embedding = 1::nat, pe_updated_at = 5\<rparr>] =
     ([\<lparr>pe_point = ''a'', embedding = 3, pe_updated_at = 9\<rparr>], Inr ''a'')"
    by (simp add: embed_update_with_def mk_point_def embed_point_def generate_embedding_def)
  note u = embed_update_upsert [where C = "\<lambda>p. Inr (point_description p)" and E = "\<lambda>s. Some (length s)"
      and now = 9 and ps = "[mk_point ''a'' ''A'' ''xyz'' ''msk'' 0 0 30]"
      and t = "[\<lparr>pe_point = ''a'', embedding = 1::nat, pe_updated_at = 5\<rparr>]"]
  from conjunct2 [OF conjunct2 [OF conjunct2 [OF u [where pid = "''a''" and t' = "[\<lparr>pe_point = ''a'', embedding = 3, pe_updated_at = 9\<rparr>]" and r = "''a''"]]]] run
  have l: "emb_lookup [\<lparr>pe_point = ''a'', embedding = 3::nat, pe_updated_at = 9\<rparr>] ''a'' = Some 3"
    by (auto simp: mk_point_def embed_point_def generate_embedding_def)
  from conjunct1 [OF u [where pid = "''z''"]] have
    "embed_update_with (\<lambda>p. Inr (point_description p)) (\<lambda>s. Some (length s)) 9
     [mk_point ''a'' ''A'' ''xyz'' ''msk'' 0 0 30] ''z'' [\<lparr>pe_point = ''a'', embedding = 1::nat, pe_updated_at = 5\<rparr>] =
     ([\<lparr>pe_point = ''a'', embedding = 1, pe_updated_at = 5\<rparr>], Inl (Object_Not_Found ''Point''))"
    by (simp add: mk_point_def)
  with run l show ?thesis by blast
qed

lemma db_wf_emb_update:
  "db_wf d \<Longrightarrow> emb_wf (db_points d) t \<Longrightarrow> db_wf (d\<lparr>db_embeddings := t\<rparr>)"
  by (simp add: db_wf_def)

lemma db_wf_embed_missing_view [wf_intros]:
  assumes "db_wf d" shows "db_wf (fst (embed_missing_view E now d))"
proof -
  obtain t r where l: "embed_missing_loop (db_point_text d) E now (db_points d) (db_embeddings d) 0 = (t, r)"
    by (cases "embed_missing_loop (db_point_text d) E now (db_points d) (db_embeddings d) 0")
  from assms have "emb_wf (db_points d) (db_embeddings d)" by (simp add: db_wf_def)
  then have "emb_wf (db_points d) t" using l by (rule embed_missing_loop_wf [OF _ order_refl])
  with assms l show ?thesis by (simp add: embed_missing_view_def db_wf_emb_update)
qed

lemma db_wf_embed_refresh_view [wf_intros]:
  assumes "db_wf d" shows "db_wf (fst (embed_refresh_view E now d))"
proof (cases "embed_refresh_loop (db_point_text d) E now (db_points d) (db_embeddings d) 0")
  case (Inl e)
  then have "fst (embed_refresh_view E now d) = d"
    by (simp add: embed_refresh_view_def embed_refresh_with_def)
  with assms show ?thesis by simp
next
  case (Inr res)
  obtain t m where l: "embed_refresh_loop (db_point_text d) E now (db_points d) (db_embeddings d) 0 = Inr (t, m)"
    using Inr by (cases res) simp
  from assms have e: "emb_wf (db_points d) (db_embeddings d)" by (simp add: db_wf_def)
  have "emb_wf (db_points d) t" by (rule embed_refresh_loop_wf [OF e order_refl l])
  moreover have "fst (embed_refresh_view E now d) = d\<lparr>db_embeddings := t\<rparr>"
    by (simp add: embed_refresh_view_def embed_refresh_with_def l)
  ultimately show ?thesis using assms by (simp add: db_wf_emb_update)
qed

lemma db_wf_embed_update_view [wf_intros]:
  assumes "db_wf d" shows "db_wf (fst (embed_update_view E now pid d))"
proof (cases "find (\<lambda>p. point_id p = pid) (db_points d)")
  case None
  with assms show ?thesis by (simp add: embed_update_view_def embed_update_with_def)
next
  case (Some p)
  then have "point_id p \<in> set (map point_id (db_points d))"
    by (auto simp: find_Some_iff nth_mem)
  moreover from assms have "emb_wf (db_points d) (db_embeddings d)" by (simp add: db_wf_def)
  ultimately have "\<And>v. emb_wf (db_points d) (emb_upsert (point_id p) v now (db_embeddings d))"
    by (simp add: emb_wf_upsert)
  with assms Some show ?thesis
    by (simp add: embed_update_view_def embed_update_with_def db_wf_emb_update split: sum.splits)
qed

text \<open>The embedding views write the embedding table and nothing else.\<close>

lemma embed_views_frame:
  "\<exists>t. fst (embed_missing_view E now d) = d\<lparr>db_embeddings := t\<rparr>"
  "\<exists>t. fst (embed_refresh_view E now d) = d\<lparr>db_embeddings := t\<rparr>"
  "\<exists>t. fst (embed_update_view E now pid d) = d\<lparr>db_embeddings := t\<rparr>"
  by (auto simp: embed_missing_view_def embed_refresh_view_def embed_update_view_def split: prod.splits)

end
