(* ===== verification/PyText.thy ===== *)
theory PyText
  imports Prelude
begin

text \<open>
  The Python builtins on strings and integers that the views call, written out:
  \<open>str.strip\<close> (used by DRF's \<open>CharField\<close> and by \<open>normalize_email\<close>),
  \<open>str(i)\<close> of an int (used by the models' \<open>__str__\<close>), and \<open>int(s)\<close> of a
  string in base 10 (used on the \<open>limit\<close> and \<open>offset\<close> query parameters of
  \<open>UserRoutesListView\<close>). \<open>int\<close> strips whitespace, takes an optional sign, and
  accepts decimal digits with single underscores between them; anything else raises
  \<open>ValueError\<close>. Whitespace and digits are the ASCII ones: Python also accepts
  Unicode spaces and Unicode decimal digits. The error message leaves out the
  \<open>repr\<close> of the argument that Python appends to it.
\<close>

section \<open>\<open>str.strip\<close>\<close>

definition py_whitespace :: "char list" where
  "py_whitespace = [CHR 0x20, CHR 0x09, CHR 0x0A, CHR 0x0B, CHR 0x0C, CHR 0x0D, CHR 0x1C, CHR 0x1D, CHR 0x1E, CHR 0x1F]"

definition py_strip :: "string \<Rightarrow> string" where
  "py_strip s = rev (dropWhile (\<lambda>c. c \<in> set py_whitespace) (rev (dropWhile (\<lambda>c. c \<in> set py_whitespace) s)))"

section \<open>\<open>str(i)\<close>\<close>

fun py_digits :: "nat \<Rightarrow> string" where
  "py_digits n = (if n < 10 then [''0123456789'' ! n] else py_digits (n div 10) @ [''0123456789'' ! (n mod 10)])"

declare py_digits.simps [simp del]

text \<open>\<open>str(i)\<close> of a Python int.\<close>

definition py_str_int :: "int \<Rightarrow> string" where
  "py_str_int i = (if i < 0 then ''-'' @ py_digits (nat (- i)) else py_digits (nat i))"

section \<open>\<open>int(s)\<close>\<close>

definition py_is_digit :: "char \<Rightarrow> bool" where
  "py_is_digit c \<longleftrightarrow> c \<in> set ''0123456789''"

definition digits_value :: "string \<Rightarrow> nat" where
  "digits_value ds = foldl (\<lambda>n c. 10 * n + (of_char c - 48)) 0 ds"

definition py_int :: "string \<Rightarrow> error + int" where
  "py_int s =
     (let t = py_strip s;
          (sg, ds) = (case t of [] \<Rightarrow> (1, t)
                      | c # r \<Rightarrow> if c = CHR ''-'' then (-1, r) else if c = CHR ''+'' then (1, r) else (1, t))
      in if list_all (\<lambda>g. g \<noteq> [] \<and> list_all py_is_digit g) (split_on CHR ''_'' ds)
         then Inr (sg * int (digits_value (filter (\<lambda>c. c \<noteq> CHR ''_'') ds)))
         else Inl (Value_Error ''invalid literal for int() with base 10''))"

section \<open>\<open>int(x)\<close> of a decoded JSON value\<close>

text \<open>
  \<open>request.data\<close> decoded from JSON: the scalar a client sends for a field. A
  JSON \<open>null\<close> and an absent key both read as \<open>None\<close>, so they are not values
  here. \<open>int()\<close> keeps an integer, maps a boolean to 0 or 1, and parses a string.
  Floats (which \<open>int()\<close> truncates) and arrays or objects (a \<open>TypeError\<close>) are
  not modelled.
\<close>

datatype json_value = J_Int int | J_Str string | J_Bool bool

definition py_int_json :: "json_value \<Rightarrow> error + int" where
  "py_int_json j = (case j of J_Int n \<Rightarrow> Inr n | J_Bool b \<Rightarrow> Inr (if b then 1 else 0) | J_Str s \<Rightarrow> py_int s)"

section \<open>Lemmas\<close>

lemma dropWhile_rev_hd:
  "dropWhile P (rev (dropWhile P (rev (dropWhile P s)))) = rev (dropWhile P (rev (dropWhile P s)))"
proof -
  let ?u = "dropWhile P s"
  have "\<exists>w. ?u = rev (dropWhile P (rev ?u)) @ w"
    by (metis append.right_neutral rev_append rev_rev_ident takeWhile_dropWhile_id)
  then obtain w where uw: "?u = rev (dropWhile P (rev ?u)) @ w" by blast
  show ?thesis
  proof (cases "rev (dropWhile P (rev ?u))")
    case Nil
    show ?thesis by (simp only: Nil dropWhile.simps(1))
  next
    case (Cons x xs)
    with uw have "hd ?u = x" by simp
    moreover have "?u \<noteq> []" using uw Cons by auto
    ultimately have "\<not> P x" by (metis hd_dropWhile)
    with Cons show ?thesis by simp
  qed
qed

lemma py_strip_idem: "py_strip (py_strip s) = py_strip s"
  unfolding py_strip_def by (simp add: dropWhile_rev_hd)

lemma digit_char_value:
  "n < 10 \<Longrightarrow> (of_char (''0123456789'' ! n) :: nat) = 48 + n"
  by (auto simp: less_Suc_eq numeral_eq_Suc)

lemma digit_char_is_digit:
  "n < 10 \<Longrightarrow> py_is_digit (''0123456789'' ! n)"
  by (auto simp: less_Suc_eq numeral_eq_Suc py_is_digit_def)

lemma py_digits_digits: "list_all py_is_digit (py_digits n)"
  by (induction n rule: py_digits.induct) (subst py_digits.simps, simp add: digit_char_is_digit)

lemma py_digits_not_Nil [simp]: "py_digits n \<noteq> []"
  by (subst py_digits.simps) simp

lemma digits_value_snoc: "digits_value (xs @ [c]) = 10 * digits_value xs + (of_char c - 48)"
  by (simp add: digits_value_def)

lemma digits_value_py_digits: "digits_value (py_digits n) = n"
proof (induction n rule: py_digits.induct)
  case (1 n)
  show ?case
  proof (cases "n < 10")
    case True
    then show ?thesis by (subst py_digits.simps) (simp add: digits_value_def digit_char_value)
  next
    case False
    with 1 show ?thesis by (subst py_digits.simps) (simp add: digits_value_snoc digit_char_value)
  qed
qed

lemma dropWhile_none: "list_all (\<lambda>x. \<not> P x) xs \<Longrightarrow> dropWhile P xs = xs"
  by (induction xs) auto

lemma py_strip_no_space:
  "list_all (\<lambda>c. c \<notin> set py_whitespace) s \<Longrightarrow> py_strip s = s"
  by (simp add: py_strip_def dropWhile_none)

lemma py_is_digit_not_space: "py_is_digit c \<Longrightarrow> c \<notin> set py_whitespace"
  by (auto simp: py_is_digit_def py_whitespace_def)

lemma py_is_digit_not_special: "py_is_digit c \<Longrightarrow> c \<noteq> CHR ''_'' \<and> c \<noteq> CHR ''-'' \<and> c \<noteq> CHR ''+''"
  by (auto simp: py_is_digit_def)

lemma py_digits_shape:
  "py_strip (py_digits n) = py_digits n \<and> CHR ''_'' \<notin> set (py_digits n) \<and>
   (\<exists>c r. py_digits n = c # r \<and> c \<noteq> CHR ''-'' \<and> c \<noteq> CHR ''+'')"
proof -
  have d: "list_all py_is_digit (py_digits n)" by (rule py_digits_digits)
  then have "py_strip (py_digits n) = py_digits n"
    by (intro py_strip_no_space) (simp add: list_all_iff py_is_digit_not_space)
  moreover have "CHR ''_'' \<notin> set (py_digits n)"
    using d py_is_digit_not_special by (auto simp: list_all_iff)
  moreover obtain c r where "py_digits n = c # r" by (cases "py_digits n") simp_all
  moreover have "c \<noteq> CHR ''-'' \<and> c \<noteq> CHR ''+''"
    using d calculation(3) py_is_digit_not_special by simp
  ultimately show ?thesis by blast
qed

lemma py_digits_sign:
  "(case py_digits n of [] \<Rightarrow> (1::int, py_digits n)
    | c # r \<Rightarrow> if c = CHR ''-'' then (- 1, r) else if c = CHR ''+'' then (1, r) else (1, py_digits n)) =
   (1, py_digits n)"
  using py_digits_shape [of n] by auto

lemma py_digits_no_underscore:
  "filter (\<lambda>c. c \<noteq> CHR ''_'') (py_digits n) = py_digits n \<and> split_on CHR ''_'' (py_digits n) = [py_digits n]"
proof -
  have u: "CHR ''_'' \<notin> set (py_digits n)" using py_digits_shape [of n] by blast
  then have "filter (\<lambda>c. c \<noteq> CHR ''_'') (py_digits n) = py_digits n" by (simp add: filter_id_conv) blast
  with u show ?thesis by (simp add: split_on_no_sep)
qed

lemma py_int_py_digits: "py_int (py_digits n) = Inr (int n)"
  using py_digits_shape [of n] py_digits_digits [of n]
  by (simp add: py_int_def py_digits_sign py_digits_no_underscore digits_value_py_digits)

lemma py_int_neg_py_digits: "py_int (CHR ''-'' # py_digits n) = Inr (- int n)"
proof -
  have "list_all (\<lambda>c. c \<notin> set py_whitespace) (py_digits n)"
    using py_digits_digits [of n] by (simp add: list_all_iff py_is_digit_not_space)
  moreover have "CHR ''-'' \<notin> set py_whitespace" by (simp add: py_whitespace_def)
  ultimately have "py_strip (CHR ''-'' # py_digits n) = CHR ''-'' # py_digits n"
    by (intro py_strip_no_space) simp
  then show ?thesis using py_digits_digits [of n]
    by (simp add: py_int_def py_digits_no_underscore digits_value_py_digits)
qed

lemma py_int_py_str_int: "py_int (py_str_int i) = Inr i"
  by (simp add: py_str_int_def py_int_py_digits py_int_neg_py_digits)

text \<open>The definitions that evaluate \<open>int()\<close> on a literal string.\<close>

lemmas py_int_eval = py_int_def py_strip_def py_whitespace_def digits_value_def py_is_digit_def

end
