(* ===== verification/RouteLifecycle.thy ===== *)
theory RouteLifecycle
  imports Models PyText
begin

text \<open>
  The route views of \<open>src/apps/routes/views.py\<close> and the generator stub of
  \<open>src/apps/routes/generator/generator.py\<close>. Each view is a function of the
  authenticated user (\<open>request.user\<close>; \<open>IsAuthenticated\<close> rejects anonymous
  requests before the view runs), the request parameters (\<open>None\<close> for an absent key),
  the server clock \<open>now\<close>, a fresh identifier where the view inserts a row (the
  \<open>uuid4\<close> default), and the database; it returns the new database and either an
  error or the payload of the success response. The shared lookup
  \<open>Route.objects.get(id=route_id, user=request.user)\<close> is \<open>get_owned_route\<close>.
\<close>

section \<open>Ownership lookup\<close>

definition get_owned_route :: "route list \<Rightarrow> user_id \<Rightarrow> ident \<Rightarrow> route option" where
  "get_owned_route rs u rid = find (\<lambda>r. route_id r = rid \<and> route_user r = Some u) rs"

text \<open>\<open>route.save(update_fields=[\<dots>])\<close>: an \<open>UPDATE \<dots> WHERE id = route.id\<close>.\<close>

definition save_route_status :: "ident \<Rightarrow> walk_status \<Rightarrow> route list \<Rightarrow> route list" where
  "save_route_status rid st rs = update_where (\<lambda>r. route_id r = rid) (\<lambda>r. r\<lparr>route_status := st\<rparr>) rs"

section \<open>EditRouteStatusView\<close>

record status_change =
  sc_route_id :: ident
  sc_new_status :: walk_status
  sc_updated_at :: timestamp

definition edit_route_status ::
  "user_id \<Rightarrow> string option \<Rightarrow> string option \<Rightarrow> timestamp \<Rightarrow> 'v db
     \<Rightarrow> 'v db \<times> (error + status_change)" where
  "edit_route_status u rid_in status_in now d =
     (if \<not> py_truthy_str rid_in then (d, Inl (Missing_Param ''route_id''))
      else case parse_walk_status status_in of
        None \<Rightarrow> (d, Inl (Invalid_Status status_in))
      | Some st \<Rightarrow>
          (case get_owned_route (db_routes d) u (the rid_in) of
             None \<Rightarrow> (d, Inl Route_Not_Found)
           | Some r \<Rightarrow>
               (d\<lparr>db_routes := save_route_status (route_id r) st (db_routes d)\<rparr>,
                Inr \<lparr>sc_route_id = route_id r, sc_new_status = st, sc_updated_at = now\<rparr>)))"

section \<open>CancelRouteView\<close>

text \<open>
  The view assigns \<open>route.status = CANCELLED\<close> on the fetched object but never calls
  \<open>route.save()\<close>: the stored route keeps its status. It inserts one \<open>Feedback\<close>
  row (\<open>rating\<close> null, \<open>going\<close> at its default \<open>False\<close>) and answers with the
  in-memory status.
\<close>

record cancel_response =
  cr_route_id :: ident
  cr_status :: walk_status
  cr_cancel_reason :: "string option"
  cr_updated_at :: timestamp

definition new_feedback ::
  "ident \<Rightarrow> ident \<Rightarrow> user_id \<Rightarrow> int option \<Rightarrow> string option \<Rightarrow> timestamp \<Rightarrow> feedback" where
  "new_feedback fid rid u rt c now =
     \<lparr>feedback_id = fid, feedback_route = rid, feedback_user = Some u, rating = rt,
      comment = c, going = False, feedback_created_at = now\<rparr>"

definition cancel_route ::
  "user_id \<Rightarrow> string option \<Rightarrow> string option \<Rightarrow> ident \<Rightarrow> timestamp \<Rightarrow> 'v db
     \<Rightarrow> 'v db \<times> (error + cancel_response)" where
  "cancel_route u rid_in reason fid now d =
     (if \<not> py_truthy_str rid_in then (d, Inl (Missing_Param ''route_id''))
      else case get_owned_route (db_routes d) u (the rid_in) of
        None \<Rightarrow> (d, Inl Route_Not_Found)
      | Some r \<Rightarrow>
          (let r' = r\<lparr>route_status := Cancelled\<rparr> in
           (d\<lparr>db_feedbacks := db_feedbacks d @ [new_feedback fid (route_id r') u None reason now]\<rparr>,
            Inr \<lparr>cr_route_id = route_id r', cr_status = route_status r',
                 cr_cancel_reason = reason, cr_updated_at = now\<rparr>)))"

section \<open>RouteDetailView\<close>

record point_view =
  pv_id :: ident
  pv_name :: string
  pv_description :: string
  pv_image_url :: "string option"
  pv_lat :: int
  pv_lng :: int

record route_detail =
  rd_route_id :: ident
  rd_user_id :: "user_id option"
  rd_description :: "string option"
  rd_total_duration :: int
  rd_total_cost :: "int option"
  rd_status :: walk_status
  rd_point_sequence :: "ident list"
  rd_points :: "point_view list"
  rd_created_at :: timestamp
  rd_updated_at :: "timestamp option"

definition point_view_of :: "point \<Rightarrow> point_view" where
  "point_view_of p =
     \<lparr>pv_id = point_id p, pv_name = point_name p, pv_description = point_description p,
      pv_image_url = point_image_url p, pv_lat = coordinates_lat p, pv_lng = coordinates_lng p\<rparr>"

text \<open>\<open>route.points.all()\<close>: the related points, in table order.\<close>

definition route_point_rows :: "point list \<Rightarrow> route \<Rightarrow> point list" where
  "route_point_rows ps r = filter (\<lambda>p. point_id p \<in> set (route_points r)) ps"

text \<open>
  \<open>Route\<close> has no \<open>updated_at\<close> field, so \<open>hasattr(route, "updated_at")\<close> is false
  and the field of the answer is always \<open>None\<close>.
\<close>

definition route_detail_view :: "user_id \<Rightarrow> ident \<Rightarrow> 'v db \<Rightarrow> error + route_detail" where
  "route_detail_view u rid d =
     (case get_owned_route (db_routes d) u rid of
        None \<Rightarrow> Inl Route_Not_Found
      | Some r \<Rightarrow> Inr
          \<lparr>rd_route_id = route_id r, rd_user_id = route_user r,
           rd_description = route_description r, rd_total_duration = total_duration r,
           rd_total_cost = total_cost r, rd_status = route_status r,
           rd_point_sequence = point_sequence r,
           rd_points = map point_view_of (route_point_rows (db_points d) r),
           rd_created_at = route_created_at r, rd_updated_at = None\<rparr>)"

section \<open>FeedbackView\<close>

record feedback_response =
  fr_route_id :: ident
  fr_user_id :: user_id
  fr_rating :: "json_value option"
  fr_comment :: "string option"
  fr_created_at :: timestamp

text \<open>
  \<open>int(rating)\<close> on the value the client sent, when there is one; a string that is
  not an integer literal raises \<open>ValueError\<close>.
\<close>

definition parse_rating :: "json_value option \<Rightarrow> error + int option" where
  "parse_rating rt = (case rt of None \<Rightarrow> Inr None | Some j \<Rightarrow> map_sum id Some (py_int_json j))"

text \<open>
  The ownership lookup comes before the rating check, as in the source.
  \<open>Feedback.objects.create(rating=rating)\<close> stores \<open>int(rating)\<close> (the
  \<open>IntegerField\<close> converts on save), while the answer reads \<open>feedback.rating\<close>
  from the unsaved instance: the value exactly as the client sent it.
\<close>

definition feedback_view ::
  "user_id \<Rightarrow> string option \<Rightarrow> json_value option \<Rightarrow> string option \<Rightarrow> ident \<Rightarrow> timestamp \<Rightarrow> 'v db
     \<Rightarrow> 'v db \<times> (error + feedback_response)" where
  "feedback_view u rid_in rt c fid now d =
     (if \<not> py_truthy_str rid_in then (d, Inl (Missing_Param ''route_id''))
      else case get_owned_route (db_routes d) u (the rid_in) of
        None \<Rightarrow> (d, Inl Route_Not_Found)
      | Some r \<Rightarrow>
          (case parse_rating rt of
             Inl e \<Rightarrow> (d, Inl e)
           | Inr n \<Rightarrow>
              (if (case n of None \<Rightarrow> False | Some k \<Rightarrow> k < 1 \<or> k > 5)
               then (d, Inl Rating_Out_Of_Range)
               else (let f = new_feedback fid (route_id r) u n c now in
                     (d\<lparr>db_feedbacks := db_feedbacks d @ [f]\<rparr>,
                      Inr \<lparr>fr_route_id = route_id r, fr_user_id = u, fr_rating = rt,
                           fr_comment = comment f, fr_created_at = feedback_created_at f\<rparr>)))))"

section \<open>GenerateRouteView and the generator stub\<close>

record generate_request =
  req_city_id :: "string option"
  req_time_of_day :: "string option"
  req_interests :: "string list"
  req_mood :: "string list"
  req_budget :: "int option"
  req_transport :: "string option"
  req_duration_minutes :: "int option"
  req_description :: "string option"

record stub_point =
  sp_id :: ident
  sp_name :: string
  sp_description :: string
  sp_image_url :: string
  sp_visit_time :: string
  sp_tags :: "string list"
  sp_lat :: int
  sp_lng :: int

record generated_route =
  gr_route_id :: ident
  gr_user_id :: user_id
  gr_map_url :: string
  gr_points :: "stub_point list"

text \<open>The two fixed points of \<open>generate_route_stub\<close>; strings are their UTF-8 bytes.\<close>

definition stub_points :: "stub_point list" where
  "stub_points =
    [\<lparr>sp_id = ''1'',
      sp_name = [CHR 0xD0, CHR 0x9F, CHR 0xD0, CHR 0xB0, CHR 0xD1, CHR 0x80, CHR 0xD0, CHR 0xBA] @
        '' '' @ [CHR 0xD0, CHR 0x93, CHR 0xD0, CHR 0xBE, CHR 0xD1, CHR 0x80, CHR 0xD1, CHR 0x8C,
        CHR 0xD0, CHR 0xBA, CHR 0xD0, CHR 0xBE, CHR 0xD0, CHR 0xB3, CHR 0xD0, CHR 0xBE],
      sp_description = [CHR 0xD0, CHR 0x9E, CHR 0xD0, CHR 0xB4, CHR 0xD0, CHR 0xB8, CHR 0xD0, CHR 0xBD] @
        '' '' @ [CHR 0xD0, CHR 0xB8, CHR 0xD0, CHR 0xB7] @ '' '' @ [CHR 0xD1, CHR 0x81, CHR 0xD0,
        CHR 0xB0, CHR 0xD0, CHR 0xBC, CHR 0xD1, CHR 0x8B, CHR 0xD1, CHR 0x85] @ '' '' @ [CHR 0xD0,
        CHR 0xBF, CHR 0xD0, CHR 0xBE, CHR 0xD0, CHR 0xBF, CHR 0xD1, CHR 0x83, CHR 0xD0, CHR 0xBB,
        CHR 0xD1, CHR 0x8F, CHR 0xD1, CHR 0x80, CHR 0xD0, CHR 0xBD, CHR 0xD1, CHR 0x8B, CHR 0xD1,
        CHR 0x85] @ '' '' @ [CHR 0xD0, CHR 0xBF, CHR 0xD0, CHR 0xB0, CHR 0xD1, CHR 0x80, CHR 0xD0,
        CHR 0xBA, CHR 0xD0, CHR 0xBE, CHR 0xD0, CHR 0xB2] @ '' '' @ [CHR 0xD0, CHR 0xB3, CHR 0xD0,
        CHR 0xBE, CHR 0xD1, CHR 0x80, CHR 0xD0, CHR 0xBE, CHR 0xD0, CHR 0xB4, CHR 0xD0, CHR 0xB0] @
        '' '' @ [CHR 0xE2, CHR 0x80, CHR 0x94] @ '' '' @ [CHR 0xD0, CHR 0xB8, CHR 0xD0, CHR 0xB4,
        CHR 0xD0, CHR 0xB5, CHR 0xD0, CHR 0xB0, CHR 0xD0, CHR 0xBB, CHR 0xD1, CHR 0x8C, CHR 0xD0,
        CHR 0xBD, CHR 0xD0, CHR 0xBE] @ '' '' @ [CHR 0xD0, CHR 0xB4, CHR 0xD0, CHR 0xBB, CHR 0xD1,
        CHR 0x8F] @ '' '' @ [CHR 0xD0, CHR 0xBF, CHR 0xD1, CHR 0x80, CHR 0xD0, CHR 0xBE, CHR 0xD0,
        CHR 0xB3, CHR 0xD1, CHR 0x83, CHR 0xD0, CHR 0xBB, CHR 0xD0, CHR 0xBA, CHR 0xD0, CHR 0xB8] @
        '' '' @ [CHR 0xD0, CHR 0xB2, CHR 0xD0, CHR 0xB5, CHR 0xD1, CHR 0x87, CHR 0xD0, CHR 0xB5,
        CHR 0xD1, CHR 0x80, CHR 0xD0, CHR 0xBE, CHR 0xD0, CHR 0xBC] @ ''.'',
      sp_image_url = ''https://example.com/gorky.jpg'',
      sp_visit_time = ''30 '' @ [CHR 0xD0, CHR 0xBC, CHR 0xD0, CHR 0xB8, CHR 0xD0, CHR 0xBD],
      sp_tags = [[CHR 0xF0, CHR 0x9F, CHR 0x8C, CHR 0xB3],
        [CHR 0xF0, CHR 0x9F, CHR 0x92, CHR 0xB8] @ '' 0 '' @ [CHR 0xE2, CHR 0x82, CHR 0xBD],
        [CHR 0xF0, CHR 0x9F, CHR 0x9A, CHR 0xB6] @ '' 10 '' @ [CHR 0xD0, CHR 0xBC, CHR 0xD0, CHR 0xB8,
        CHR 0xD0, CHR 0xBD]],
      sp_lat = 55792000, sp_lng = 37586000\<rparr>,
     \<lparr>sp_id = ''2'',
      sp_name = [CHR 0xD0, CHR 0x92, CHR 0xD0, CHR 0xBA, CHR 0xD1, CHR 0x83, CHR 0xD1, CHR 0x81,
        CHR 0xD0, CHR 0x9E, CHR 0xD1, CHR 0x87, CHR 0xD0, CHR 0xBA, CHR 0xD0, CHR 0xB0],
      sp_description = [CHR 0xD0, CHR 0xAD, CHR 0xD0, CHR 0xBB, CHR 0xD0, CHR 0xB8, CHR 0xD1, CHR 0x82,
        CHR 0xD0, CHR 0xBD, CHR 0xD1, CHR 0x8B, CHR 0xD0, CHR 0xB9] @ '' '' @ [CHR 0xD1, CHR 0x80,
        CHR 0xD0, CHR 0xB5, CHR 0xD1, CHR 0x81, CHR 0xD1, CHR 0x82, CHR 0xD0, CHR 0xBE, CHR 0xD1,
        CHR 0x80, CHR 0xD0, CHR 0xB0, CHR 0xD0, CHR 0xBD] @ '' '' @ [CHR 0xD0, CHR 0x9C, CHR 0xD0,
        CHR 0xBE, CHR 0xD1, CHR 0x81, CHR 0xD0, CHR 0xBA, CHR 0xD0, CHR 0xB2, CHR 0xD1, CHR 0x8B],
      sp_image_url = ''https://example.com/gorky.jpg'',
      sp_visit_time = ''30 '' @ [CHR 0xD0, CHR 0xBC, CHR 0xD0, CHR 0xB8, CHR 0xD0, CHR 0xBD],
      sp_tags = [[CHR 0xF0, CHR 0x9F, CHR 0x8C, CHR 0xB3],
        [CHR 0xF0, CHR 0x9F, CHR 0x92, CHR 0xB8] @ '' 1 '' @ [CHR 0xE2, CHR 0x82, CHR 0xBD],
        [CHR 0xF0, CHR 0x9F, CHR 0x9A, CHR 0xB6] @ '' 10 '' @ [CHR 0xD0, CHR 0xBC, CHR 0xD0, CHR 0xB8,
        CHR 0xD0, CHR 0xBD]],
      sp_lat = 55792000, sp_lng = 37586000\<rparr>]"

text \<open>
  \<open>generate_route_stub\<close>: \<open>uid\<close> is \<open>str(uuid.uuid4())\<close>, of which the stub keeps
  the first 8 characters; every other argument is ignored.
\<close>

definition generate_route_stub ::
  "string \<Rightarrow> generate_request \<Rightarrow> user_id \<Rightarrow> string \<Rightarrow> generated_route" where
  "generate_route_stub cid req u uid =
     \<lparr>gr_route_id = take 8 uid, gr_user_id = u,
      gr_map_url = ''https://yandex.ru/maps/?text='' @ cid, gr_points = stub_points\<rparr>"

text \<open>
  \<open>GenerateRouteView.post\<close>: both \<open>city_id\<close> and \<open>duration_minutes\<close> must be truthy;
  the result of the stub is returned and nothing is written to the database.
\<close>

definition generate_route_view :: "user_id \<Rightarrow> generate_request \<Rightarrow> string \<Rightarrow> error + generated_route" where
  "generate_route_view u req uid =
     (if \<not> py_truthy_str (req_city_id req) \<or> \<not> py_truthy_int (req_duration_minutes req)
      then Inl (Missing_Param ''city_id, duration_minutes'')
      else Inr (generate_route_stub (the (req_city_id req)) req u uid))"

section \<open>Lemmas\<close>

lemma get_owned_route_Some:
  "get_owned_route rs u rid = Some r \<Longrightarrow> r \<in> set rs \<and> route_id r = rid \<and> route_user r = Some u"
  by (auto simp: get_owned_route_def find_Some_iff nth_mem)

lemma get_owned_route_in_ids:
  "get_owned_route rs u rid = Some r \<Longrightarrow> route_id r \<in> set (map route_id rs)"
  using get_owned_route_Some by fastforce

lemma get_owned_route_user_routes:
  "get_owned_route rs u rid = get_owned_route (user_routes u rs) u rid"
  by (induction rs) (auto simp: get_owned_route_def user_routes_def)

lemma get_owned_route_save_status:
  "get_owned_route (save_route_status rid st rs) u q =
     map_option (\<lambda>r. if route_id r = rid then r\<lparr>route_status := st\<rparr> else r) (get_owned_route rs u q)"
  unfolding get_owned_route_def save_route_status_def
  by (rule find_update_where) simp

lemma map_route_id_save_status [simp]:
  "map route_id (save_route_status rid st rs) = map route_id rs"
  by (simp add: save_route_status_def map_update_where_keep)

lemma route_id_image_save_status [simp]:
  "route_id ` set (save_route_status rid st rs) = route_id ` set rs"
  by (metis list.set_map map_route_id_save_status)

lemma route_consistent_save_status:
  "\<forall>r \<in> set rs. route_consistent r \<Longrightarrow> \<forall>r \<in> set (save_route_status rid st rs). route_consistent r"
  unfolding save_route_status_def update_where_def route_consistent_def by (auto; blast)

lemma db_wf_edit_route_status [wf_intros]:
  "db_wf d \<Longrightarrow> db_wf (fst (edit_route_status u rid_in x now d))"
  by (auto simp: edit_route_status_def db_wf_def feedback_wf_def route_consistent_save_status
           split: option.splits)

lemma db_wf_add_feedback:
  "db_wf d \<Longrightarrow> rating_ok rt \<Longrightarrow> rid \<in> set (map route_id (db_routes d)) \<Longrightarrow>
   db_wf (d\<lparr>db_feedbacks := db_feedbacks d @ [new_feedback fid rid u rt c now]\<rparr>)"
  by (simp add: db_wf_def feedback_wf_def new_feedback_def)

lemma db_wf_cancel_route [wf_intros]:
  "db_wf d \<Longrightarrow> db_wf (fst (cancel_route u rid_in reason fid now d))"
  by (auto simp: cancel_route_def Let_def intro!: db_wf_add_feedback get_owned_route_in_ids
           split: option.splits)

lemma db_wf_feedback_view [wf_intros]:
  "db_wf d \<Longrightarrow> db_wf (fst (feedback_view u rid_in rt c fid now d))"
  by (auto simp: feedback_view_def Let_def intro!: db_wf_add_feedback get_owned_route_in_ids
           split: option.splits sum.splits)

text \<open>The views that write only append feedback rows or change a route's status.\<close>

lemma edit_route_status_frame:
  "db_feedbacks (fst (edit_route_status u rid_in x now d)) = db_feedbacks d \<and>
   db_points (fst (edit_route_status u rid_in x now d)) = db_points d \<and>
   db_embeddings (fst (edit_route_status u rid_in x now d)) = db_embeddings d \<and>
   map (\<lambda>r. r\<lparr>route_status := Going\<rparr>) (db_routes (fst (edit_route_status u rid_in x now d))) =
   map (\<lambda>r. r\<lparr>route_status := Going\<rparr>) (db_routes d)"
  by (auto simp: edit_route_status_def save_route_status_def map_update_where_keep
           split: option.splits)

lemma cancel_route_frame:
  "db_routes (fst (cancel_route u rid_in reason fid now d)) = db_routes d \<and>
   db_points (fst (cancel_route u rid_in reason fid now d)) = db_points d \<and>
   db_embeddings (fst (cancel_route u rid_in reason fid now d)) = db_embeddings d \<and>
   (\<exists>new. db_feedbacks (fst (cancel_route u rid_in reason fid now d)) = db_feedbacks d @ new)"
  by (auto simp: cancel_route_def Let_def split: option.splits)

lemma feedback_view_frame:
  "db_routes (fst (feedback_view u rid_in rt c fid now d)) = db_routes d \<and>
   db_points (fst (feedback_view u rid_in rt c fid now d)) = db_points d \<and>
   db_embeddings (fst (feedback_view u rid_in rt c fid now d)) = db_embeddings d \<and>
   (\<exists>new. db_feedbacks (fst (feedback_view u rid_in rt c fid now d)) = db_feedbacks d @ new)"
  by (auto simp: feedback_view_def Let_def split: option.splits sum.splits)

lemma stub_point_ids: "map sp_id stub_points = [''1'', ''2'']"
  unfolding stub_points_def by (simp only: list.map stub_point.select_convs)

section \<open>Properties of the route views\<close>

text \<open>
  C1. The owner of a route can set it to any status, from any status (the code checks
  no transition); the answer reports the new status, and the detail view afterwards shows
  the route as before with the new status.
\<close>

theorem edit_route_status_success:
  assumes "rid \<noteq> []" and owned: "get_owned_route (db_routes d) u rid = Some r"
  shows "edit_route_status u (Some rid) (Some (walk_status_value st)) now d =
           (d\<lparr>db_routes := save_route_status rid st (db_routes d)\<rparr>,
            Inr \<lparr>sc_route_id = rid, sc_new_status = st, sc_updated_at = now\<rparr>) \<and>
         route_detail_view u rid (d\<lparr>db_routes := save_route_status rid st (db_routes d)\<rparr>) =
           map_sum id (\<lambda>x. x\<lparr>rd_status := st\<rparr>) (route_detail_view u rid d)"
proof -
  from owned have rid: "route_id r = rid" by (simp add: get_owned_route_Some)
  have "get_owned_route (save_route_status rid st (db_routes d)) u rid = Some (r\<lparr>route_status := st\<rparr>)"
    using owned rid by (simp add: get_owned_route_save_status)
  with assms rid show ?thesis
    by (simp add: edit_route_status_def route_detail_view_def route_point_rows_def)
qed

theorem edit_route_status_success_witness:
  "''r1'' \<noteq> [] \<and>
   get_owned_route (db_routes ((empty_db :: nat db)\<lparr>db_routes := [mk_route ''r1'' 3 60 (Some 7) None [] []]\<rparr>)) 7 ''r1'' =
     Some (mk_route ''r1'' 3 60 (Some 7) None [] []) \<and>
   snd (edit_route_status 7 (Some ''r1'') (Some (walk_status_value Done)) 9
          ((empty_db :: nat db)\<lparr>db_routes := [mk_route ''r1'' 3 60 (Some 7) None [] []]\<rparr>)) =
     Inr \<lparr>sc_route_id = ''r1'', sc_new_status = Done, sc_updated_at = 9\<rparr>"
  using edit_route_status_success [of "''r1''" "(empty_db :: nat db)\<lparr>db_routes := [mk_route ''r1'' 3 60 (Some 7) None [] []]\<rparr>"
      7 "mk_route ''r1'' 3 60 (Some 7) None [] []" Done 9]
  by (simp add: get_owned_route_def mk_route_def empty_db_def)

text \<open>
  C2. A user's view of the routes is private: what any route view answers a user is the
  same in two databases in which that user owns the same routes (and, for the detail
  view, the points are the same). Other users' routes, and whether an identifier exists
  at all, are never revealed: an unknown and a foreign route both give \<open>Route_Not_Found\<close>.
\<close>

theorem route_ops_private:
  assumes "user_routes u (db_routes d1) = user_routes u (db_routes d2)"
  shows "snd (edit_route_status u rid_in x now d1) = snd (edit_route_status u rid_in x now d2) \<and>
         snd (cancel_route u rid_in reason fid now d1) = snd (cancel_route u rid_in reason fid now d2) \<and>
         snd (feedback_view u rid_in rt c fid now d1) = snd (feedback_view u rid_in rt c fid now d2) \<and>
         (db_points d1 = db_points d2 \<longrightarrow> route_detail_view u rid d1 = route_detail_view u rid d2)"
  using assms
  by (simp add: edit_route_status_def cancel_route_def feedback_view_def route_detail_view_def
        Let_def get_owned_route_user_routes [of "db_routes d1"] get_owned_route_user_routes [of "db_routes d2"]
        split: option.splits sum.splits)

theorem route_ops_private_witness:
  "user_routes 7 (db_routes ((empty_db :: nat db)\<lparr>db_routes := [mk_route ''r1'' 3 60 (Some 8) None [] []]\<rparr>)) =
   user_routes 7 (db_routes (empty_db :: nat db)) \<and>
   snd (edit_route_status 7 (Some ''r1'') (Some ''done'') 9
     ((empty_db :: nat db)\<lparr>db_routes := [mk_route ''r1'' 3 60 (Some 8) None [] []]\<rparr>)) =
   snd (edit_route_status 7 (Some ''r1'') (Some ''done'') 9 (empty_db :: nat db))"
  using route_ops_private [of 7 "(empty_db :: nat db)\<lparr>db_routes := [mk_route ''r1'' 3 60 (Some 8) None [] []]\<rparr>"
      "empty_db :: nat db" "Some ''r1''" "Some ''done''" 9]
  by (simp add: user_routes_def mk_route_def empty_db_def)

text \<open>
  C3. Cancelling a route does not store the new status: the view answers \<open>cancelled\<close>
  but the routes table, and so the detail view, are unchanged. The only write is one
  feedback row with the reason as comment, no rating and \<open>going\<close> false.
\<close>

theorem cancel_route_not_persisted:
  assumes "rid \<noteq> []" and owned: "get_owned_route (db_routes d) u rid = Some r"
  shows "snd (cancel_route u (Some rid) reason fid now d) =
           Inr \<lparr>cr_route_id = rid, cr_status = Cancelled, cr_cancel_reason = reason, cr_updated_at = now\<rparr> \<and>
         db_routes (fst (cancel_route u (Some rid) reason fid now d)) = db_routes d \<and>
         route_detail_view u rid (fst (cancel_route u (Some rid) reason fid now d)) = route_detail_view u rid d \<and>
         db_feedbacks (fst (cancel_route u (Some rid) reason fid now d)) =
           db_feedbacks d @ [\<lparr>feedback_id = fid, feedback_route = rid, feedback_user = Some u,
             rating = None, comment = reason, going = False, feedback_created_at = now\<rparr>]"
  using assms get_owned_route_Some [OF owned]
  by (simp add: cancel_route_def new_feedback_def route_detail_view_def)

theorem cancel_route_not_persisted_witness:
  "''r1'' \<noteq> [] \<and>
   get_owned_route (db_routes ((empty_db :: nat db)\<lparr>db_routes := [mk_route ''r1'' 3 60 (Some 7) None [] []]\<rparr>)) 7 ''r1'' =
     Some (mk_route ''r1'' 3 60 (Some 7) None [] []) \<and>
   map_sum id rd_status (route_detail_view 7 ''r1'' (fst (cancel_route 7 (Some ''r1'') (Some ''too far'') ''f1'' 9
     ((empty_db :: nat db)\<lparr>db_routes := [mk_route ''r1'' 3 60 (Some 7) None [] []]\<rparr>)))) = Inr Going"
  using cancel_route_not_persisted [of "''r1''" "(empty_db :: nat db)\<lparr>db_routes := [mk_route ''r1'' 3 60 (Some 7) None [] []]\<rparr>"
      7 "mk_route ''r1'' 3 60 (Some 7) None [] []" "Some ''too far''" "''f1''" 9]
  by (simp add: get_owned_route_def mk_route_def empty_db_def route_detail_view_def)

text \<open>
  C4. Feedback on an owned route parses the rating with \<open>int()\<close>: a string that is
  not an integer is answered with its \<open>ValueError\<close>, and a rating outside 1..5 is
  refused; neither writes. Otherwise exactly one row is appended after the existing
  ones, which are left as they were. The row stores the parsed rating, while the
  answer echoes the rating as the client sent it.
\<close>

theorem feedback_view_validates:
  assumes "rid \<noteq> []" and owned: "get_owned_route (db_routes d) u rid = Some r"
  shows "feedback_view u (Some rid) rt c fid now d =
           (case parse_rating rt of
              Inl e \<Rightarrow> (d, Inl e)
            | Inr n \<Rightarrow>
               (if rating_ok n
                then (d\<lparr>db_feedbacks := db_feedbacks d @ [new_feedback fid rid u n c now]\<rparr>,
                      Inr \<lparr>fr_route_id = rid, fr_user_id = u, fr_rating = rt, fr_comment = c,
                           fr_created_at = now\<rparr>)
                else (d, Inl Rating_Out_Of_Range)))"
  using assms get_owned_route_Some [OF owned]
  by (auto simp: feedback_view_def new_feedback_def rating_ok_def split: option.splits sum.splits)

theorem feedback_view_validates_witness:
  "''r1'' \<noteq> [] \<and>
   get_owned_route (db_routes ((empty_db :: nat db)\<lparr>db_routes := [mk_route ''r1'' 3 60 (Some 7) None [] []]\<rparr>)) 7 ''r1'' = Some (mk_route ''r1'' 3 60 (Some 7) None [] []) \<and>
   feedback_view 7 (Some ''r1'') (Some (J_Int 6)) None ''f1'' 9 ((empty_db :: nat db)\<lparr>db_routes := [mk_route ''r1'' 3 60 (Some 7) None [] []]\<rparr>) = ((empty_db :: nat db)\<lparr>db_routes := [mk_route ''r1'' 3 60 (Some 7) None [] []]\<rparr>, Inl Rating_Out_Of_Range) \<and>
   feedback_view 7 (Some ''r1'') (Some (J_Str ''five'')) None ''f1'' 9 ((empty_db :: nat db)\<lparr>db_routes := [mk_route ''r1'' 3 60 (Some 7) None [] []]\<rparr>) =
     ((empty_db :: nat db)\<lparr>db_routes := [mk_route ''r1'' 3 60 (Some 7) None [] []]\<rparr>, Inl (Value_Error ''invalid literal for int() with base 10'')) \<and>
   db_feedbacks (fst (feedback_view 7 (Some ''r1'') (Some (J_Str '' 5'')) None ''f1'' 9 ((empty_db :: nat db)\<lparr>db_routes := [mk_route ''r1'' 3 60 (Some 7) None [] []]\<rparr>))) =
     [new_feedback ''f1'' ''r1'' 7 (Some 5) None 9] \<and>
   snd (feedback_view 7 (Some ''r1'') (Some (J_Str '' 5'')) None ''f1'' 9 ((empty_db :: nat db)\<lparr>db_routes := [mk_route ''r1'' 3 60 (Some 7) None [] []]\<rparr>)) =
     Inr \<lparr>fr_route_id = ''r1'', fr_user_id = 7, fr_rating = Some (J_Str '' 5''), fr_comment = None, fr_created_at = 9\<rparr>"
proof -
  have o: "get_owned_route (db_routes ((empty_db :: nat db)\<lparr>db_routes := [mk_route ''r1'' 3 60 (Some 7) None [] []]\<rparr>)) 7 ''r1'' = Some (mk_route ''r1'' 3 60 (Some 7) None [] [])"
    by (simp add: get_owned_route_def mk_route_def empty_db_def)
  have p: "parse_rating (Some (J_Int 6)) = Inr (Some 6)"
    "parse_rating (Some (J_Str ''five'')) = Inl (Value_Error ''invalid literal for int() with base 10'')"
    "parse_rating (Some (J_Str '' 5'')) = Inr (Some 5)"
    by (simp_all add: parse_rating_def py_int_json_def py_int_eval)
  have "''r1'' \<noteq> []" by simp
  note v = feedback_view_validates [OF this o]
  from v [of "Some (J_Int 6)" None "''f1''" 9] v [of "Some (J_Str ''five'')" None "''f1''" 9]
    v [of "Some (J_Str '' 5'')" None "''f1''" 9] o p
  show ?thesis by (simp add: empty_db_def)
qed

text \<open>
  C14. The status view rejects a missing route identifier (400), then a status that is not
  one of \<open>going\<close>, \<open>done\<close>, \<open>cancelled\<close> (400, before any lookup), then a route the
  user does not own (404), and in each case leaves the database unchanged.
\<close>

theorem edit_route_status_rejects:
  "(\<not> py_truthy_str rid_in \<longrightarrow> edit_route_status u rid_in x now d = (d, Inl (Missing_Param ''route_id''))) \<and>
   (py_truthy_str rid_in \<and> parse_walk_status x = None \<longrightarrow>
     edit_route_status u rid_in x now d = (d, Inl (Invalid_Status x))) \<and>
   (py_truthy_str rid_in \<and> parse_walk_status x \<noteq> None \<and> get_owned_route (db_routes d) u (the rid_in) = None \<longrightarrow>
     edit_route_status u rid_in x now d = (d, Inl Route_Not_Found))"
  by (auto simp: edit_route_status_def split: option.splits)

theorem edit_route_status_rejects_witness:
  "edit_route_status 7 (Some ''r1'') (Some ''paused'') 9 (empty_db :: nat db) =
     (empty_db, Inl (Invalid_Status (Some ''paused''))) \<and>
   edit_route_status 7 (Some []) (Some ''done'') 9 (empty_db :: nat db) =
     (empty_db, Inl (Missing_Param ''route_id'')) \<and>
   edit_route_status 7 (Some ''r1'') (Some ''done'') 9 (empty_db :: nat db) = (empty_db, Inl Route_Not_Found)"
  using edit_route_status_rejects [of "Some ''r1''" 7 "Some ''paused''" 9 "empty_db :: nat db"]
    edit_route_status_rejects [of "Some []" 7 "Some ''done''" 9 "empty_db :: nat db"]
    edit_route_status_rejects [of "Some ''r1''" 7 "Some ''done''" 9 "empty_db :: nat db"]
  by (simp_all add: parse_walk_status_def get_owned_route_def empty_db_def)

text \<open>
  The generator is a stub: whenever the request names a city and a non-zero
  duration it answers the same two fixed points, whatever the interests, mood, budget,
  transport or time of day, with an 8-character prefix of a fresh identifier as route id.
\<close>

theorem generate_route_view_stub:
  assumes "generate_route_view u req uid = Inr g"
  shows "map sp_id (gr_points g) = [''1'', ''2''] \<and> length (gr_route_id g) \<le> 8 \<and> gr_user_id g = u \<and>
         (\<forall>req'. req_city_id req' = req_city_id req \<and> py_truthy_int (req_duration_minutes req') \<longrightarrow>
            generate_route_view u req' uid = Inr g)"
proof -
  from assms have ok: "py_truthy_str (req_city_id req)" "py_truthy_int (req_duration_minutes req)"
    and g: "g = generate_route_stub (the (req_city_id req)) req u uid"
    by (auto simp: generate_route_view_def split: if_splits)
  have "length (gr_route_id g) \<le> 8" "gr_user_id g = u" "map sp_id (gr_points g) = [''1'', ''2'']"
    by (simp_all add: g generate_route_stub_def stub_point_ids)
  moreover have "\<forall>req'. req_city_id req' = req_city_id req \<and> py_truthy_int (req_duration_minutes req') \<longrightarrow>
            generate_route_view u req' uid = Inr g"
    using ok by (simp add: generate_route_view_def generate_route_stub_def g)
  ultimately show ?thesis by blast
qed

theorem generate_route_view_stub_witness:
  "generate_route_view 7 \<lparr>req_city_id = Some ''moscow'', req_time_of_day = None, req_interests = [],
     req_mood = [], req_budget = None, req_transport = None, req_duration_minutes = Some 60,
     req_description = None\<rparr> ''0123456789'' =
   Inr (generate_route_stub ''moscow'' \<lparr>req_city_id = Some ''moscow'', req_time_of_day = None, req_interests = [],
     req_mood = [], req_budget = None, req_transport = None, req_duration_minutes = Some 60,
     req_description = None\<rparr> 7 ''0123456789'') \<and>
   map sp_id (gr_points (generate_route_stub ''moscow'' \<lparr>req_city_id = Some ''moscow'', req_time_of_day = None,
     req_interests = [], req_mood = [], req_budget = None, req_transport = None,
     req_duration_minutes = Some 60, req_description = None\<rparr> 7 ''0123456789'')) = [''1'', ''2'']"
  (is "?h \<and> ?c")
proof -
  have h: ?h by (simp add: generate_route_view_def)
  from generate_route_view_stub [OF h] h show ?thesis by blast
qed

text \<open>
  C11. The detail view returns the route's \<open>point_sequence\<close> as stored and, separately,
  the expanded points of the route's point set (\<open>route.points.all()\<close>). In a
  well-formed database the expanded points are exactly the stored points of the point
  set, each once, each with the stored point's fields. So every identifier of the
  sequence that names a stored point is matched by exactly one expanded point, and a
  client can pair the two fields by identifier.
\<close>

theorem route_detail_points:
  assumes "db_wf d" and "route_detail_view u rid d = Inr rd"
  shows "\<exists>r. get_owned_route (db_routes d) u rid = Some r \<and> rd_point_sequence rd = point_sequence r \<and>
           distinct (map pv_id (rd_points rd)) \<and>
           set (map pv_id (rd_points rd)) = set (route_points r) \<inter> set (map point_id (db_points d)) \<and>
           (\<forall>pv \<in> set (rd_points rd). \<exists>p \<in> set (db_points d). pv = point_view_of p) \<and>
           (\<forall>i \<in> set (rd_point_sequence rd). i \<in> set (map point_id (db_points d)) \<longrightarrow>
              (\<exists>!pv. pv \<in> set (rd_points rd) \<and> pv_id pv = i))"
proof -
  from assms(2) obtain r where g: "get_owned_route (db_routes d) u rid = Some r"
    and rd: "rd_points rd = map point_view_of (route_point_rows (db_points d) r)"
    and sq: "rd_point_sequence rd = point_sequence r"
    by (auto simp: route_detail_view_def split: option.splits)
  have pv: "pv_id \<circ> point_view_of = point_id" by (simp add: fun_eq_iff point_view_of_def)
  have ids: "map pv_id (rd_points rd) = map point_id (route_point_rows (db_points d) r)"
    by (simp add: rd pv)
  from assms(1) have dp: "distinct (map point_id (db_points d))" by (simp add: db_wf_def)
  then have di: "distinct (map pv_id (rd_points rd))"
    by (simp add: ids route_point_rows_def distinct_map_filter)
  have st: "set (map pv_id (rd_points rd)) = set (route_points r) \<inter> set (map point_id (db_points d))"
    by (auto simp: ids route_point_rows_def)
  from g have "r \<in> set (db_routes d)" by (simp add: get_owned_route_Some)
  with assms(1) have rc: "set (point_sequence r) \<subseteq> set (route_points r)"
    by (auto simp: db_wf_def route_consistent_def)
  have one: "\<exists>!pv. pv \<in> set (rd_points rd) \<and> pv_id pv = i"
    if "i \<in> set (rd_point_sequence rd)" "i \<in> set (map point_id (db_points d))" for i
  proof (rule ex_ex1I)
    from that rc sq st have "i \<in> set (map pv_id (rd_points rd))" by auto
    then show "\<exists>pv. pv \<in> set (rd_points rd) \<and> pv_id pv = i" by auto
  next
    fix x y assume "x \<in> set (rd_points rd) \<and> pv_id x = i" "y \<in> set (rd_points rd) \<and> pv_id y = i"
    with di show "x = y" by (auto dest: inj_onD [OF distinct_map [THEN iffD1, THEN conjunct2]])
  qed
  have "\<forall>pv \<in> set (rd_points rd). \<exists>p \<in> set (db_points d). pv = point_view_of p"
    by (auto simp: rd route_point_rows_def)
  with g sq di st one show ?thesis by blast
qed

theorem route_detail_points_witness:
  "db_wf ((empty_db :: nat db)\<lparr>db_points := [mk_point ''a'' ''A'' ''x'' ''msk'' 0 0 30, mk_point ''b'' ''B'' ''y'' ''msk'' 0 0 30],
     db_routes := [mk_route ''r1'' 1 60 (Some 7) None [''b'', ''a''] [''a'', ''b'']]\<rparr>) \<and>
   (\<exists>rd. route_detail_view 7 ''r1'' ((empty_db :: nat db)\<lparr>db_points := [mk_point ''a'' ''A'' ''x'' ''msk'' 0 0 30, mk_point ''b'' ''B'' ''y'' ''msk'' 0 0 30],
            db_routes := [mk_route ''r1'' 1 60 (Some 7) None [''b'', ''a''] [''a'', ''b'']]\<rparr>) = Inr rd \<and>
         rd_point_sequence rd = [''b'', ''a''] \<and> map pv_id (rd_points rd) = [''a'', ''b''] \<and>
         distinct (map pv_id (rd_points rd)))"
proof -
  let ?d = "(empty_db :: nat db)\<lparr>db_points := [mk_point ''a'' ''A'' ''x'' ''msk'' 0 0 30, mk_point ''b'' ''B'' ''y'' ''msk'' 0 0 30],
     db_routes := [mk_route ''r1'' 1 60 (Some 7) None [''b'', ''a''] [''a'', ''b'']]\<rparr>"
  have w: "db_wf ?d"
    by (simp add: db_wf_def empty_db_def emb_wf_def mk_point_def mk_route_def route_consistent_def)
  obtain rd where v: "route_detail_view 7 ''r1'' ?d = Inr rd"
    by (simp add: route_detail_view_def get_owned_route_def mk_route_def empty_db_def)
  then have e: "rd_point_sequence rd = [''b'', ''a''] \<and> map pv_id (rd_points rd) = [''a'', ''b'']"
    by (auto simp: route_detail_view_def get_owned_route_def mk_route_def empty_db_def mk_point_def
        route_point_rows_def point_view_of_def)
  from route_detail_points [OF w v] have "distinct (map pv_id (rd_points rd))" by blast
  with w v e show ?thesis by (intro conjI exI [where x = rd]) simp_all
qed

end
