(* ===== verification/Statistics.thy ===== *)
theory Statistics
  imports Models PyText
begin

text \<open>
  The per-user read views of \<open>src/apps/users/views.py\<close>: \<open>UserStatisticsView\<close>
  (aggregates over \<open>Route.objects.filter(user=request.user)\<close>) and
  \<open>UserRoutesListView\<close> (the user's routes, newest first, filtered by status and
  sliced by \<open>offset\<close> and \<open>limit\<close>). Neither writes to the database. Two orders the
  database leaves open are fixed in the model: routes with equal \<open>created_at\<close> keep
  their table order (a stable sort), and among cities with equally many routes the
  favourite is the one whose first route comes first.
\<close>

section \<open>UserStatisticsView\<close>

record user_statistics =
  st_total_routes :: nat
  st_completed_routes :: nat
  st_active_routes :: nat
  st_total_duration_minutes :: int
  st_total_distance_km :: int
  st_total_cost :: int
  st_unique_places :: nat
  st_favourite_city :: "string option"
  st_last_activity :: "timestamp option"

text \<open>\<open>Max("created_at")\<close>: null over no rows.\<close>

fun max_opt :: "nat list \<Rightarrow> nat option" where
  "max_opt [] = None"
| "max_opt (x # xs) = Some (case max_opt xs of None \<Rightarrow> x | Some m \<Rightarrow> max x m)"

text \<open>\<open>city__name\<close> of a route: null when the route has no city.\<close>

definition route_city_name :: "city list \<Rightarrow> route \<Rightarrow> string option" where
  "route_city_name cs r =
     (case route_city r of None \<Rightarrow> None
      | Some cid \<Rightarrow> map_option city_name (find (\<lambda>c. city_id c = cid) cs))"

text \<open>
  \<open>qs.values("city__name").annotate(cnt=Count("id")).order_by("-cnt").first()\<close>:
  one group per city name (null included), the group with the largest count first.
\<close>

definition city_groups :: "city list \<Rightarrow> route list \<Rightarrow> (string option \<times> nat) list" where
  "city_groups cs qs =
     (let names = map (route_city_name cs) qs in map (\<lambda>g. (g, count_list names g)) (remdups names))"

definition favourite_city_of :: "city list \<Rightarrow> route list \<Rightarrow> string option" where
  "favourite_city_of cs qs =
     (case sort_key (\<lambda>gc. - int (snd gc)) (city_groups cs qs) of
        [] \<Rightarrow> None
      | gc # _ \<Rightarrow> fst gc)"

text \<open>\<open>Point.objects.filter(route__user=request.user).values("id").distinct().count()\<close>.\<close>

definition unique_places :: "point list \<Rightarrow> route list \<Rightarrow> nat" where
  "unique_places ps qs =
     length (remdups (map point_id
       (filter (\<lambda>p. point_id p \<in> set (concat (map route_points qs))) ps)))"

definition user_statistics_view :: "user_id \<Rightarrow> 'v db \<Rightarrow> user_statistics" where
  "user_statistics_view u d =
     (let qs = user_routes u (db_routes d) in
      \<lparr>st_total_routes = length qs,
       st_completed_routes = length (filter (\<lambda>r. route_status r = Done) qs),
       st_active_routes = length (filter (\<lambda>r. route_status r = Going) qs),
       st_total_duration_minutes = sum_list (map total_duration qs),
       st_total_distance_km = 0,
       st_total_cost = sum_list (List.map_filter total_cost qs),
       st_unique_places = unique_places (db_points d) qs,
       st_favourite_city = favourite_city_of (db_cities d) qs,
       st_last_activity = max_opt (map route_created_at qs)\<rparr>)"

section \<open>UserRoutesListView\<close>

record route_item =
  ri_route_id :: ident
  ri_description :: "string option"
  ri_total_duration :: int
  ri_total_cost :: "int option"
  ri_status :: walk_status
  ri_created_at :: timestamp
  ri_updated_at :: "timestamp option"

definition route_item_of :: "route \<Rightarrow> route_item" where
  "route_item_of r =
     \<lparr>ri_route_id = route_id r, ri_description = route_description r,
      ri_total_duration = total_duration r, ri_total_cost = total_cost r,
      ri_status = route_status r, ri_created_at = route_created_at r, ri_updated_at = None\<rparr>"

text \<open>
  \<open>qs[offset:offset+limit]\<close> on a query set: a negative bound raises \<open>ValueError\<close>
  (Django does not support negative indexing); an empty or reversed range is empty.
\<close>

definition qs_slice :: "int \<Rightarrow> int \<Rightarrow> 'a list \<Rightarrow> error + 'a list" where
  "qs_slice start stop xs =
     (if start < 0 \<or> stop < 0 then Inl Negative_Indexing
      else Inr (take (nat (stop - start)) (drop (nat start) xs)))"

text \<open>
  The query of the view before slicing: the user's routes ordered by
  \<open>-created_at\<close>, then filtered by status when the parameter is truthy.
\<close>

definition user_routes_query :: "user_id \<Rightarrow> string option \<Rightarrow> route list \<Rightarrow> route list" where
  "user_routes_query u status_filter rs =
     (let qs = sort_key (\<lambda>r. - int (route_created_at r)) (user_routes u rs) in
      if py_truthy_str status_filter
      then filter (\<lambda>r. Some (walk_status_value (route_status r)) = status_filter) qs else qs)"

text \<open>
  \<open>int(request.query_params.get(name, default))\<close>: an absent parameter is the
  default, which \<open>int\<close> leaves unchanged; a present one is a string that \<open>int\<close>
  parses or rejects with \<open>ValueError\<close>.
\<close>

definition query_int :: "string option \<Rightarrow> int \<Rightarrow> error + int" where
  "query_int x dflt = (case x of None \<Rightarrow> Inr dflt | Some s \<Rightarrow> py_int s)"

text \<open>
  \<open>limit\<close> (default 20) is parsed before \<open>offset\<close> (default 0); the query set
  is evaluated only when it is sliced.
\<close>

definition user_routes_list_view ::
  "user_id \<Rightarrow> string option \<Rightarrow> string option \<Rightarrow> string option \<Rightarrow> 'v db \<Rightarrow> error + route_item list" where
  "user_routes_list_view u status_filter limit_in offset_in d =
     (case query_int limit_in 20 of Inl e \<Rightarrow> Inl e | Inr limit \<Rightarrow>
      case query_int offset_in 0 of Inl e \<Rightarrow> Inl e | Inr offset \<Rightarrow>
      case qs_slice offset (offset + limit) (user_routes_query u status_filter (db_routes d)) of
           Inl e \<Rightarrow> Inl e
         | Inr rs \<Rightarrow> Inr (map route_item_of rs))"

section \<open>Lemmas\<close>

lemma user_routes_list_view_routes_cong:
  "db_routes d1 = db_routes d2 \<Longrightarrow> user_routes_list_view u sf l k d1 = user_routes_list_view u sf l k d2"
  unfolding user_routes_list_view_def by (simp only:)

lemma length_filter_status_split:
  "length rs = length (filter (\<lambda>r. route_status r = Done) rs) + length (filter (\<lambda>r. route_status r = Going) rs) +
     length (filter (\<lambda>r. route_status r = Cancelled) rs)"
proof (induction rs)
  case Nil
  then show ?case by simp
next
  case (Cons r rs)
  then show ?case by (cases "route_status r") simp_all
qed

lemma set_city_groups:
  "set (city_groups cs qs) = (\<lambda>g. (g, count_list (map (route_city_name cs) qs) g)) ` set (map (route_city_name cs) qs)"
  by (simp add: city_groups_def Let_def)

lemma favourite_city_of_max:
  assumes "qs \<noteq> []"
  shows "favourite_city_of cs qs \<in> set (map (route_city_name cs) qs) \<and>
         (\<forall>g \<in> set (map (route_city_name cs) qs).
            count_list (map (route_city_name cs) qs) g \<le>
            count_list (map (route_city_name cs) qs) (favourite_city_of cs qs))"
proof -
  let ?names = "map (route_city_name cs) qs"
  let ?key = "\<lambda>gc :: string option \<times> nat. - int (snd gc)"
  have ne: "city_groups cs qs \<noteq> []" using assms by (simp add: city_groups_def Let_def)
  then have "sort_key ?key (city_groups cs qs) \<noteq> []" by (metis length_0_conv length_sort)
  then obtain gc rest where srt: "sort_key ?key (city_groups cs qs) = gc # rest"
    by (meson neq_Nil_conv)
  have mem: "gc \<in> set (city_groups cs qs)"
    using srt by (metis list.set_intros(1) set_sort)
  have sorted: "sorted (map ?key (gc # rest))"
    using srt by (metis sorted_sort_key)
  have fav: "favourite_city_of cs qs = fst gc" by (simp add: favourite_city_of_def srt)
  from mem have gc: "fst gc \<in> set ?names" "snd gc = count_list ?names (fst gc)"
    by (auto simp: set_city_groups)
  have "count_list ?names g \<le> snd gc" if "g \<in> set ?names" for g
  proof -
    from that have "(g, count_list ?names g) \<in> set (sort_key ?key (city_groups cs qs))"
      by (simp add: set_city_groups)
    then have "(g, count_list ?names g) = gc \<or> (g, count_list ?names g) \<in> set rest" by (simp add: srt)
    with sorted show ?thesis by auto
  qed
  with gc fav show ?thesis by simp
qed

lemma unique_places_card:
  assumes "set (concat (map route_points qs)) \<subseteq> set (map point_id ps)"
  shows "unique_places ps qs = card (set (concat (map route_points qs)))"
proof -
  have "set (map point_id (filter (\<lambda>p. point_id p \<in> set (concat (map route_points qs))) ps)) =
        set (concat (map route_points qs))"
    using assms by (auto; force)
  then show ?thesis by (simp add: unique_places_def length_remdups_card_conv)
qed

lemma sorted_user_routes_query:
  "sorted (map (\<lambda>r. - int (route_created_at r)) (user_routes_query u sf rs))"
  by (simp add: user_routes_query_def Let_def sorted_filter)

lemma set_user_routes_query: "set (user_routes_query u sf rs) \<subseteq> set (user_routes u rs)"
  by (auto simp: user_routes_query_def Let_def)

lemma status_user_routes_query:
  "py_truthy_str sf \<Longrightarrow> \<forall>r \<in> set (user_routes_query u sf rs). Some (walk_status_value (route_status r)) = sf"
  by (simp add: user_routes_query_def Let_def)

lemma qs_slice_Inr:
  "qs_slice start stop xs = Inr ys \<Longrightarrow> 0 \<le> start \<and> 0 \<le> stop \<and> ys = take (nat (stop - start)) (drop (nat start) xs)"
  by (auto simp: qs_slice_def split: if_splits)

section \<open>Properties of the statistics\<close>

text \<open>
  The route counts of the statistics add up: every route of the user is counted
  once as completed, active or cancelled, so the total is the sum of the completed, the
  active and the cancelled routes.
\<close>

theorem user_statistics_counts:
  "st_total_routes (user_statistics_view u d) =
     st_completed_routes (user_statistics_view u d) + st_active_routes (user_statistics_view u d) +
     length (filter (\<lambda>r. route_status r = Cancelled) (user_routes u (db_routes d)))"
  using length_filter_status_split [of "user_routes u (db_routes d)"]
  by (simp add: user_statistics_view_def Let_def)

text \<open>
  C17. Statistics and the route list are private: they depend only on the user's own
  routes (and on the city and point tables), never on other users' routes.
\<close>

theorem user_views_private:
  assumes "user_routes u (db_routes d1) = user_routes u (db_routes d2)"
    and "db_cities d1 = db_cities d2" and "db_points d1 = db_points d2"
  shows "user_statistics_view u d1 = user_statistics_view u d2 \<and>
         user_routes_list_view u sf l k d1 = user_routes_list_view u sf l k d2"
proof -
  have q: "user_routes_query u sf (db_routes d1) = user_routes_query u sf (db_routes d2)"
    using assms(1) by (simp add: user_routes_query_def)
  have "user_statistics_view u d1 = user_statistics_view u d2"
    using assms by (simp add: user_statistics_view_def Let_def)
  moreover have "user_routes_list_view u sf l k d1 = user_routes_list_view u sf l k d2"
    unfolding user_routes_list_view_def q ..
  ultimately show ?thesis ..
qed

theorem user_views_private_witness:
  "user_routes 7 (db_routes ((empty_db :: nat db)\<lparr>db_routes := [mk_route ''r1'' 3 60 (Some 8) None [] []]\<rparr>)) =
   user_routes 7 (db_routes (empty_db :: nat db)) \<and>
   db_cities ((empty_db :: nat db)\<lparr>db_routes := [mk_route ''r1'' 3 60 (Some 8) None [] []]\<rparr>) = db_cities (empty_db :: nat db) \<and>
   db_points ((empty_db :: nat db)\<lparr>db_routes := [mk_route ''r1'' 3 60 (Some 8) None [] []]\<rparr>) = db_points (empty_db :: nat db) \<and>
   user_statistics_view 7 ((empty_db :: nat db)\<lparr>db_routes := [mk_route ''r1'' 3 60 (Some 8) None [] []]\<rparr>) =
   user_statistics_view 7 (empty_db :: nat db)"
  using user_views_private [of 7 "(empty_db :: nat db)\<lparr>db_routes := [mk_route ''r1'' 3 60 (Some 8) None [] []]\<rparr>"
      "empty_db :: nat db" None None None]
  by (simp add: user_routes_def mk_route_def empty_db_def)

text \<open>
  C18. The favourite city is a most frequent one: when the user has routes, the reported
  name (null for routes without a city) is the city name of one of them, and no other
  name occurs on more of the user's routes.
\<close>

theorem favourite_city_most_frequent:
  assumes "user_routes u (db_routes d) \<noteq> []"
  shows "st_favourite_city (user_statistics_view u d) \<in>
           set (map (route_city_name (db_cities d)) (user_routes u (db_routes d))) \<and>
         (\<forall>g \<in> set (map (route_city_name (db_cities d)) (user_routes u (db_routes d))).
            count_list (map (route_city_name (db_cities d)) (user_routes u (db_routes d))) g \<le>
            count_list (map (route_city_name (db_cities d)) (user_routes u (db_routes d)))
              (st_favourite_city (user_statistics_view u d)))"
  using favourite_city_of_max [OF assms, of "db_cities d"]
  by (simp add: user_statistics_view_def Let_def)

theorem favourite_city_most_frequent_witness:
  "user_routes 7 (db_routes ((empty_db :: nat db)\<lparr>db_routes := [mk_route ''r1'' 3 60 (Some 7) None [] []]\<rparr>)) \<noteq> [] \<and>
   st_favourite_city (user_statistics_view 7 ((empty_db :: nat db)\<lparr>db_routes := [mk_route ''r1'' 3 60 (Some 7) None [] []]\<rparr>)) = None"
  using favourite_city_most_frequent [of 7 "(empty_db :: nat db)\<lparr>db_routes := [mk_route ''r1'' 3 60 (Some 7) None [] []]\<rparr>"]
  by (simp add: user_routes_def mk_route_def empty_db_def route_city_name_def)

text \<open>
  The number of unique places is the number of distinct points on the user's
  routes, when every route's points exist in the point table.
\<close>

theorem unique_places_distinct_points:
  assumes "set (concat (map route_points (user_routes u (db_routes d)))) \<subseteq> set (map point_id (db_points d))"
  shows "st_unique_places (user_statistics_view u d) =
           card (set (concat (map route_points (user_routes u (db_routes d)))))"
  using unique_places_card [OF assms] by (simp add: user_statistics_view_def Let_def)

theorem unique_places_distinct_points_witness:
  "set (concat (map route_points (user_routes 7 (db_routes ((empty_db :: nat db)\<lparr>
      db_points := [mk_point ''a'' ''A'' [] ''moscow'' 0 0 30, mk_point ''b'' ''B'' [] ''moscow'' 0 0 30],
      db_routes := [mk_route ''r1'' 1 60 (Some 7) None [''a''] [''a''], mk_route ''r2'' 2 60 (Some 7) None [''a'', ''b''] [''a'', ''b'']]\<rparr>)))))
    \<subseteq> set (map point_id (db_points ((empty_db :: nat db)\<lparr>
      db_points := [mk_point ''a'' ''A'' [] ''moscow'' 0 0 30, mk_point ''b'' ''B'' [] ''moscow'' 0 0 30],
      db_routes := [mk_route ''r1'' 1 60 (Some 7) None [''a''] [''a''], mk_route ''r2'' 2 60 (Some 7) None [''a'', ''b''] [''a'', ''b'']]\<rparr>))) \<and>
   st_unique_places (user_statistics_view 7 ((empty_db :: nat db)\<lparr>
      db_points := [mk_point ''a'' ''A'' [] ''moscow'' 0 0 30, mk_point ''b'' ''B'' [] ''moscow'' 0 0 30],
      db_routes := [mk_route ''r1'' 1 60 (Some 7) None [''a''] [''a''], mk_route ''r2'' 2 60 (Some 7) None [''a'', ''b''] [''a'', ''b'']]\<rparr>)) = 2"
  using unique_places_distinct_points [of 7 "(empty_db :: nat db)\<lparr>
      db_points := [mk_point ''a'' ''A'' [] ''moscow'' 0 0 30, mk_point ''b'' ''B'' [] ''moscow'' 0 0 30],
      db_routes := [mk_route ''r1'' 1 60 (Some 7) None [''a''] [''a''], mk_route ''r2'' 2 60 (Some 7) None [''a'', ''b''] [''a'', ''b'']]\<rparr>"]
  by (simp add: user_routes_def mk_route_def mk_point_def empty_db_def)

text \<open>
  C19. The route list parses \<open>limit\<close> and then \<open>offset\<close> with \<open>int()\<close>, and a
  parameter that is not an integer literal is answered with its \<open>ValueError\<close>. With
  both parsed, it answers at most \<open>limit\<close> of the user's own routes, newest first,
  all with the requested status when one is given; a negative offset or end is the
  \<open>ValueError\<close> of Django's query-set slicing.
\<close>

theorem user_routes_list_spec:
  "(user_routes_list_view u sf li ki d = Inr items \<longrightarrow>
      (\<exists>l. query_int li 20 = Inr l \<and> length items \<le> nat l) \<and>
      sorted (map (\<lambda>i. - int (ri_created_at i)) items) \<and>
      set (map ri_route_id items) \<subseteq> set (map route_id (user_routes u (db_routes d))) \<and>
      (py_truthy_str sf \<longrightarrow> (\<forall>i \<in> set items. Some (walk_status_value (ri_status i)) = sf))) \<and>
   (query_int li 20 = Inl e \<longrightarrow> user_routes_list_view u sf li ki d = Inl e) \<and>
   (query_int li 20 = Inr l \<and> query_int ki 0 = Inl e \<longrightarrow> user_routes_list_view u sf li ki d = Inl e) \<and>
   (query_int li 20 = Inr l \<and> query_int ki 0 = Inr k \<and> (k < 0 \<or> k + l < 0) \<longrightarrow>
      user_routes_list_view u sf li ki d = Inl Negative_Indexing)"
proof (intro conjI impI)
  assume res: "user_routes_list_view u sf li ki d = Inr items"
  then obtain l k rs where ql: "query_int li 20 = Inr l" and
    sl: "qs_slice k (k + l) (user_routes_query u sf (db_routes d)) = Inr rs"
    and it: "items = map route_item_of rs"
    by (auto simp: user_routes_list_view_def split: sum.splits)
  from qs_slice_Inr [OF sl] have rs: "rs = take (nat l) (drop (nat k) (user_routes_query u sf (db_routes d)))"
    by simp
  show "\<exists>l. query_int li 20 = Inr l \<and> length items \<le> nat l" using ql by (simp add: it rs)
  have "map (\<lambda>i. - int (ri_created_at i)) items =
        take (nat l) (drop (nat k) (map (\<lambda>r. - int (route_created_at r)) (user_routes_query u sf (db_routes d))))"
    by (simp add: it rs route_item_of_def take_map drop_map)
  then show "sorted (map (\<lambda>i. - int (ri_created_at i)) items)"
    using sorted_user_routes_query [of u sf "db_routes d"] by (simp add: sorted_wrt_take sorted_wrt_drop)
  have sub: "set rs \<subseteq> set (user_routes_query u sf (db_routes d))"
    unfolding rs by (meson in_set_dropD in_set_takeD subsetI)
  then show "set (map ri_route_id items) \<subseteq> set (map route_id (user_routes u (db_routes d)))"
    using set_user_routes_query [of u sf "db_routes d"] by (auto simp: it route_item_of_def)
  show "\<forall>i \<in> set items. Some (walk_status_value (ri_status i)) = sf" if "py_truthy_str sf"
    using sub status_user_routes_query [OF that, of u "db_routes d"] by (auto simp: it route_item_of_def)
next
  assume "query_int li 20 = Inl e"
  then show "user_routes_list_view u sf li ki d = Inl e" by (simp add: user_routes_list_view_def)
next
  assume "query_int li 20 = Inr l \<and> query_int ki 0 = Inl e"
  then show "user_routes_list_view u sf li ki d = Inl e" by (simp add: user_routes_list_view_def)
next
  assume "query_int li 20 = Inr l \<and> query_int ki 0 = Inr k \<and> (k < 0 \<or> k + l < 0)"
  then show "user_routes_list_view u sf li ki d = Inl Negative_Indexing"
    by (auto simp: user_routes_list_view_def qs_slice_def)
qed

theorem user_routes_list_spec_witness:
  "user_routes_list_view 7 None (Some ''1'') None
     ((empty_db :: nat db)\<lparr>db_routes := [mk_route ''r1'' 1 60 (Some 7) None [] [], mk_route ''r2'' 5 90 (Some 7) None [] []]\<rparr>) =
     Inr [route_item_of (mk_route ''r2'' 5 90 (Some 7) None [] [])] \<and>
   user_routes_list_view 7 None (Some ''ten'') (Some ''0'') (empty_db :: nat db) =
     Inl (Value_Error ''invalid literal for int() with base 10'') \<and>
   user_routes_list_view 7 None None (Some ''-1'') (empty_db :: nat db) = Inl Negative_Indexing"
proof -
  have q: "query_int (Some ''1'') 20 = Inr 1" "query_int None 0 = Inr 0" "query_int None 20 = Inr 20"
    "query_int (Some ''-1'') 0 = Inr (- 1)"
    "query_int (Some ''ten'') 20 = Inl (Value_Error ''invalid literal for int() with base 10'')"
    by (simp_all add: query_int_def py_int_eval)
  show ?thesis
    using user_routes_list_spec [of 7 None "Some ''1''" None
      "(empty_db :: nat db)\<lparr>db_routes := [mk_route ''r1'' 1 60 (Some 7) None [] [], mk_route ''r2'' 5 90 (Some 7) None [] []]\<rparr>"
      "[route_item_of (mk_route ''r2'' 5 90 (Some 7) None [] [])]"]
    user_routes_list_spec [of 7 None "Some ''ten''" "Some ''0''" "empty_db :: nat db" "[]"
      "Value_Error ''invalid literal for int() with base 10''"]
    user_routes_list_spec [of 7 None None "Some ''-1''" "empty_db :: nat db" "[]" _ 20 "- 1"]
    by (simp add: q user_routes_list_view_def user_routes_query_def qs_slice_def user_routes_def mk_route_def empty_db_def)
qed

section \<open>Example\<close>

text \<open>
  The scenario of the spec: a user with a done 60-minute route in Moscow and a
  going 90-minute route in Saint Petersburg has two routes, one completed, one active,
  150 minutes in total, and Moscow (the first of the tied cities) as favourite.
\<close>

theorem user_statistics_scenario:
  "user_statistics_view 7
     ((empty_db :: nat db)\<lparr>
        db_cities := [\<lparr>city_id = ''moscow'', city_name = ''Moscow'', city_image_url = None, city_description = [],
                        city_latitude = None, city_longitude = None, city_bbox = None\<rparr>,
                      \<lparr>city_id = ''spb'', city_name = ''Saint Petersburg'', city_image_url = None, city_description = [],
                        city_latitude = None, city_longitude = None, city_bbox = None\<rparr>],
        db_routes := [(mk_route ''r1'' 1 60 (Some 7) (Some ''moscow'') [] [])\<lparr>route_status := Done\<rparr>,
                      mk_route ''r2'' 2 90 (Some 7) (Some ''spb'') [] []]\<rparr>) =
   \<lparr>st_total_routes = 2, st_completed_routes = 1, st_active_routes = 1, st_total_duration_minutes = 150,
    st_total_distance_km = 0, st_total_cost = 0, st_unique_places = 0,
    st_favourite_city = Some ''Moscow'', st_last_activity = Some 2\<rparr>"
  by (simp add: user_statistics_view_def user_routes_def mk_route_def empty_db_def favourite_city_of_def
      city_groups_def route_city_name_def unique_places_def List.map_filter_def)

end
