(* ===== verification/Catalog.thy ===== *)
theory Catalog
  imports Models "HOL-Library.Multiset"
begin

text \<open>
  The public lookups of \<open>src/apps/routes/views.py\<close>: \<open>FormDataView\<close> (every city,
  interest and mood through the serializers of \<open>src/apps/routes/serializers.py\<close>) and
  \<open>CityAreaView\<close> (one city and its areas, with the 400 and 404 answers of the view).
  Both only read the database. An area's \<open>ImageField\<close> is stored as a file name; its
  \<open>.url\<close> is the storage's media prefix, a parameter here, followed by the name.
\<close>

section \<open>Serializers\<close>

record city_out =
  co_id :: ident
  co_name :: string
  co_image_url :: "string option"
  co_description :: string

record label_out =
  lo_id :: ident
  lo_label :: string
  lo_description :: string

definition city_serializer :: "city \<Rightarrow> city_out" where
  "city_serializer c =
     \<lparr>co_id = city_id c, co_name = city_name c, co_image_url = city_image_url c,
      co_description = city_description c\<rparr>"

definition interest_serializer :: "interest \<Rightarrow> label_out" where
  "interest_serializer i =
     \<lparr>lo_id = interest_id i, lo_label = interest_label i, lo_description = interest_description i\<rparr>"

definition mood_serializer :: "mood \<Rightarrow> label_out" where
  "mood_serializer m =
     \<lparr>lo_id = mood_id m, lo_label = mood_label m, lo_description = mood_description m\<rparr>"

section \<open>FormDataView\<close>

record form_data =
  fd_cities :: "city_out list"
  fd_interests :: "label_out list"
  fd_moods :: "label_out list"

definition form_data_view :: "'v db \<Rightarrow> form_data" where
  "form_data_view d =
     \<lparr>fd_cities = map city_serializer (db_cities d),
      fd_interests = map interest_serializer (db_interests d),
      fd_moods = map mood_serializer (db_moods d)\<rparr>"

section \<open>CityAreaView\<close>

record area_out =
  ao_name :: string
  ao_description :: "string option"
  ao_image_url :: "string option"

record city_area_data =
  ca_city_id :: ident
  ca_city_name :: string
  ca_areas :: "area_out list"

text \<open>\<open>area.image_url.url if area.image_url else None\<close>: an empty file name is falsy.\<close>

definition area_out_of :: "string \<Rightarrow> city_area \<Rightarrow> area_out" where
  "area_out_of media_url a =
     \<lparr>ao_name = area_name a, ao_description = area_description a,
      ao_image_url = (case area_image_url a of None \<Rightarrow> None
                      | Some n \<Rightarrow> if n = [] then None else Some (media_url @ n))\<rparr>"

text \<open>\<open>CityArea.objects.filter(city=city)\<close>, in table order.\<close>

definition areas_of_city :: "ident \<Rightarrow> city_area list \<Rightarrow> city_area list" where
  "areas_of_city cid areas = filter (\<lambda>a. area_city a = cid) areas"

definition city_area_view :: "string \<Rightarrow> string option \<Rightarrow> 'v db \<Rightarrow> error + city_area_data" where
  "city_area_view media_url city_id_in d =
     (if \<not> py_truthy_str city_id_in then Inl (Missing_Param ''city_id'')
      else case find (\<lambda>c. Some (city_id c) = city_id_in) (db_cities d) of
        None \<Rightarrow> Inl (Object_Not_Found ''City'')
      | Some c \<Rightarrow> Inr \<lparr>ca_city_id = city_id c, ca_city_name = city_name c,
                       ca_areas = map (area_out_of media_url) (areas_of_city (city_id c) (db_areas d))\<rparr>)"

text \<open>The areas a client sees when it asks the view for every city of the form in turn.\<close>

definition all_city_areas :: "string \<Rightarrow> 'v db \<Rightarrow> area_out list" where
  "all_city_areas media_url d =
     concat (map (\<lambda>c. case city_area_view media_url (Some (city_id c)) d of
                          Inl _ \<Rightarrow> [] | Inr x \<Rightarrow> ca_areas x) (db_cities d))"

section \<open>Lemmas\<close>

lemma mset_concat_filter_keys:
  assumes "distinct ks"
  shows "mset (concat (map (\<lambda>k. filter (\<lambda>x. key x = k) xs) ks)) = mset (filter (\<lambda>x. key x \<in> set ks) xs)"
  using assms
proof (induction ks)
  case Nil
  then show ?case by simp
next
  case (Cons k ks)
  have "mset (filter (\<lambda>x. key x = k) xs) + mset (filter (\<lambda>x. key x \<in> set ks) xs) =
        mset (filter (\<lambda>x. key x \<in> set (k # ks)) xs)"
    using Cons.prems by (induction xs) auto
  with Cons show ?case by simp
qed

lemma find_city_id:
  assumes "distinct (map city_id cs)" and "c \<in> set cs"
  shows "find (\<lambda>c'. city_id c' = city_id c) cs = Some c"
  using assms
proof (induction cs)
  case Nil
  then show ?case by simp
next
  case (Cons c0 cs)
  then show ?case by (cases "c0 = c") (auto simp: image_iff)
qed

lemma city_area_view_found:
  assumes "distinct (map city_id (db_cities d))" and "c \<in> set (db_cities d)" and "city_id c \<noteq> []"
  shows "city_area_view m (Some (city_id c)) d =
           Inr \<lparr>ca_city_id = city_id c, ca_city_name = city_name c,
                ca_areas = map (area_out_of m) (areas_of_city (city_id c) (db_areas d))\<rparr>"
  using assms by (simp add: city_area_view_def find_city_id)

section \<open>Properties of the lookups\<close>

text \<open>
  C20. The area lookup answers every request: a missing or empty \<open>city_id\<close> is a 400
  whatever the database, an identifier naming no city is a 404, and a city of the table
  (keys being unique) is answered with its id, its name and its areas in table order.
\<close>

theorem city_area_view_answers:
  "(\<not> py_truthy_str cid \<longrightarrow>
      city_area_view m cid d = Inl (Missing_Param ''city_id'') \<and> http_status (Missing_Param ''city_id'') = 400) \<and>
   (py_truthy_str cid \<and> cid \<notin> Some ` city_id ` set (db_cities d) \<longrightarrow>
      city_area_view m cid d = Inl (Object_Not_Found ''City'') \<and> http_status (Object_Not_Found ''City'') = 404) \<and>
   (distinct (map city_id (db_cities d)) \<and> c \<in> set (db_cities d) \<and> city_id c \<noteq> [] \<longrightarrow>
      city_area_view m (Some (city_id c)) d =
        Inr \<lparr>ca_city_id = city_id c, ca_city_name = city_name c,
             ca_areas = map (area_out_of m) (areas_of_city (city_id c) (db_areas d))\<rparr>)"
proof (intro conjI impI)
  assume "\<not> py_truthy_str cid"
  then show "city_area_view m cid d = Inl (Missing_Param ''city_id'')" by (simp add: city_area_view_def)
next
  assume a: "py_truthy_str cid \<and> cid \<notin> Some ` city_id ` set (db_cities d)"
  then have "find (\<lambda>c. Some (city_id c) = cid) (db_cities d) = None"
    by (auto simp: find_None_iff)
  with a show "city_area_view m cid d = Inl (Object_Not_Found ''City'')" by (simp add: city_area_view_def)
next
  assume "distinct (map city_id (db_cities d)) \<and> c \<in> set (db_cities d) \<and> city_id c \<noteq> []"
  then show "city_area_view m (Some (city_id c)) d =
        Inr \<lparr>ca_city_id = city_id c, ca_city_name = city_name c,
             ca_areas = map (area_out_of m) (areas_of_city (city_id c) (db_areas d))\<rparr>"
    by (simp add: city_area_view_found)
qed simp_all

theorem city_area_view_answers_witness:
  "city_area_view ''/media/'' None (empty_db :: nat db) = Inl (Missing_Param ''city_id'') \<and>
   city_area_view ''/media/'' (Some ''kazan'') (empty_db :: nat db) = Inl (Object_Not_Found ''City'') \<and>
   city_area_view ''/media/'' (Some ''moscow'')
     ((empty_db :: nat db)\<lparr>db_cities := [\<lparr>city_id = ''moscow'', city_name = ''Moscow'', city_image_url = None,
        city_description = [], city_latitude = None, city_longitude = None, city_bbox = None\<rparr>],
      db_areas := [\<lparr>area_id = 1, area_city = ''moscow'', area_name = ''Arbat'', area_bbox = None, area_latitude = None,
        area_longitude = None, area_description = None, area_image_url = Some ''arbat.jpg''\<rparr>]\<rparr>) =
     Inr \<lparr>ca_city_id = ''moscow'', ca_city_name = ''Moscow'',
          ca_areas = [\<lparr>ao_name = ''Arbat'', ao_description = None, ao_image_url = Some ''/media/arbat.jpg''\<rparr>]\<rparr>"
proof -
  let ?c = "\<lparr>city_id = ''moscow'', city_name = ''Moscow'', city_image_url = None,
        city_description = [], city_latitude = None, city_longitude = None, city_bbox = None\<rparr>"
  let ?d = "(empty_db :: nat db)\<lparr>db_cities := [?c],
      db_areas := [\<lparr>area_id = 1, area_city = ''moscow'', area_name = ''Arbat'', area_bbox = None, area_latitude = None,
        area_longitude = None, area_description = None, area_image_url = Some ''arbat.jpg''\<rparr>]\<rparr>"
  note w1 = city_area_view_answers [of None "''/media/''" "empty_db :: nat db" ?c]
  note w2 = city_area_view_answers [of "Some ''kazan''" "''/media/''" "empty_db :: nat db" ?c]
  note w3 = city_area_view_answers [of "Some ''moscow''" "''/media/''" ?d ?c]
  have e: "db_cities (empty_db :: nat db) = []" by (simp add: empty_db_def)
  from w1 have r1: "city_area_view ''/media/'' None (empty_db :: nat db) = Inl (Missing_Param ''city_id'')" by simp
  from w2 e have r2: "city_area_view ''/media/'' (Some ''kazan'') (empty_db :: nat db) = Inl (Object_Not_Found ''City'')" by simp
  from w3 have r3: "city_area_view ''/media/'' (Some ''moscow'') ?d =
      Inr \<lparr>ca_city_id = ''moscow'', ca_city_name = ''Moscow'',
        ca_areas = map (area_out_of ''/media/'') (areas_of_city ''moscow'' (db_areas ?d))\<rparr>" by simp
  have "map (area_out_of ''/media/'') (areas_of_city ''moscow'' (db_areas ?d)) =
        [\<lparr>ao_name = ''Arbat'', ao_description = None, ao_image_url = Some ''/media/arbat.jpg''\<rparr>]"
    by (simp add: areas_of_city_def area_out_of_def)
  with r1 r2 r3 show ?thesis by simp
qed

text \<open>
  C21. Asking the area lookup for every city of the table answers every area of the
  table exactly once (as a multiset, grouped by city), when city keys are unique and
  non-empty and every area's foreign key names a city.
\<close>

theorem all_city_areas_complete:
  assumes "distinct (map city_id (db_cities d))"
    and "\<forall>c \<in> set (db_cities d). city_id c \<noteq> []"
    and "\<forall>a \<in> set (db_areas d). area_city a \<in> city_id ` set (db_cities d)"
  shows "mset (all_city_areas m d) = mset (map (area_out_of m) (db_areas d))"
proof -
  have "all_city_areas m d =
        concat (map (\<lambda>k. map (area_out_of m) (filter (\<lambda>a. area_city a = k) (db_areas d))) (map city_id (db_cities d)))"
    unfolding all_city_areas_def
    by (rule arg_cong [where f = concat]) (simp add: assms(1,2) city_area_view_found areas_of_city_def)
  also have "\<dots> = map (area_out_of m) (concat (map (\<lambda>k. filter (\<lambda>a. area_city a = k) (db_areas d)) (map city_id (db_cities d))))"
    by (simp add: map_concat o_def)
  finally have "mset (all_city_areas m d) =
      image_mset (area_out_of m) (mset (filter (\<lambda>a. area_city a \<in> set (map city_id (db_cities d))) (db_areas d)))"
    using mset_concat_filter_keys [OF assms(1), of area_city "db_areas d"] by simp
  also have "filter (\<lambda>a. area_city a \<in> set (map city_id (db_cities d))) (db_areas d) = db_areas d"
    using assms(3) by (simp add: filter_id_conv)
  finally show ?thesis by simp
qed

theorem all_city_areas_complete_witness:
  "mset (all_city_areas ''/media/'' ((empty_db :: nat db)\<lparr>db_cities := [\<lparr>city_id = ''moscow'', city_name = ''Moscow'', city_image_url = None,
        city_description = [], city_latitude = None, city_longitude = None, city_bbox = None\<rparr>],
      db_areas := [\<lparr>area_id = 1, area_city = ''moscow'', area_name = ''Arbat'', area_bbox = None, area_latitude = None,
        area_longitude = None, area_description = None, area_image_url = Some ''arbat.jpg''\<rparr>]\<rparr>)) = mset (map (area_out_of ''/media/'') (db_areas ((empty_db :: nat db)\<lparr>db_cities := [\<lparr>city_id = ''moscow'', city_name = ''Moscow'', city_image_url = None,
        city_description = [], city_latitude = None, city_longitude = None, city_bbox = None\<rparr>],
      db_areas := [\<lparr>area_id = 1, area_city = ''moscow'', area_name = ''Arbat'', area_bbox = None, area_latitude = None,
        area_longitude = None, area_description = None, area_image_url = Some ''arbat.jpg''\<rparr>]\<rparr>))) \<and>
   all_city_areas ''/media/'' ((empty_db :: nat db)\<lparr>db_cities := [\<lparr>city_id = ''moscow'', city_name = ''Moscow'', city_image_url = None,
        city_description = [], city_latitude = None, city_longitude = None, city_bbox = None\<rparr>],
      db_areas := [\<lparr>area_id = 1, area_city = ''moscow'', area_name = ''Arbat'', area_bbox = None, area_latitude = None,
        area_longitude = None, area_description = None, area_image_url = Some ''arbat.jpg''\<rparr>]\<rparr>) = [\<lparr>ao_name = ''Arbat'', ao_description = None, ao_image_url = Some ''/media/arbat.jpg''\<rparr>]"
proof -
  have "mset (all_city_areas ''/media/'' ((empty_db :: nat db)\<lparr>db_cities := [\<lparr>city_id = ''moscow'', city_name = ''Moscow'', city_image_url = None,
        city_description = [], city_latitude = None, city_longitude = None, city_bbox = None\<rparr>],
      db_areas := [\<lparr>area_id = 1, area_city = ''moscow'', area_name = ''Arbat'', area_bbox = None, area_latitude = None,
        area_longitude = None, area_description = None, area_image_url = Some ''arbat.jpg''\<rparr>]\<rparr>)) = mset (map (area_out_of ''/media/'') (db_areas ((empty_db :: nat db)\<lparr>db_cities := [\<lparr>city_id = ''moscow'', city_name = ''Moscow'', city_image_url = None,
        city_description = [], city_latitude = None, city_longitude = None, city_bbox = None\<rparr>],
      db_areas := [\<lparr>area_id = 1, area_city = ''moscow'', area_name = ''Arbat'', area_bbox = None, area_latitude = None,
        area_longitude = None, area_description = None, area_image_url = Some ''arbat.jpg''\<rparr>]\<rparr>)))"
    by (rule all_city_areas_complete) simp_all
  moreover have "all_city_areas ''/media/'' ((empty_db :: nat db)\<lparr>db_cities := [\<lparr>city_id = ''moscow'', city_name = ''Moscow'', city_image_url = None,
        city_description = [], city_latitude = None, city_longitude = None, city_bbox = None\<rparr>],
      db_areas := [\<lparr>area_id = 1, area_city = ''moscow'', area_name = ''Arbat'', area_bbox = None, area_latitude = None,
        area_longitude = None, area_description = None, area_image_url = Some ''arbat.jpg''\<rparr>]\<rparr>) =
      [\<lparr>ao_name = ''Arbat'', ao_description = None, ao_image_url = Some ''/media/arbat.jpg''\<rparr>]"
    by (simp add: all_city_areas_def city_area_view_def areas_of_city_def area_out_of_def)
  ultimately show ?thesis by simp
qed

text \<open>
  The form and the area lookup agree: every city the form data offers, when its
  key is non-empty, is found by the area lookup under that key, with the same name.
\<close>

theorem form_cities_resolve:
  assumes "distinct (map city_id (db_cities d))"
  shows "\<forall>co \<in> set (fd_cities (form_data_view d)). co_id co \<noteq> [] \<longrightarrow>
           (\<exists>x. city_area_view m (Some (co_id co)) d = Inr x \<and> ca_city_id x = co_id co \<and> ca_city_name x = co_name co)"
proof (intro ballI impI)
  fix co assume "co \<in> set (fd_cities (form_data_view d))" and ne: "co_id co \<noteq> []"
  then obtain c where c: "c \<in> set (db_cities d)" and co: "co = city_serializer c"
    by (auto simp: form_data_view_def)
  from ne co have "city_id c \<noteq> []" by (simp add: city_serializer_def)
  with city_area_view_found [OF assms c] co show "\<exists>x. city_area_view m (Some (co_id co)) d = Inr x \<and>
      ca_city_id x = co_id co \<and> ca_city_name x = co_name co"
    by (simp add: city_serializer_def)
qed

theorem form_cities_resolve_witness:
  "distinct (map city_id (db_cities ((empty_db :: nat db)\<lparr>db_cities := [\<lparr>city_id = ''moscow'', city_name = ''Moscow'', city_image_url = None,
        city_description = [], city_latitude = None, city_longitude = None, city_bbox = None\<rparr>],
      db_areas := [\<lparr>area_id = 1, area_city = ''moscow'', area_name = ''Arbat'', area_bbox = None, area_latitude = None,
        area_longitude = None, area_description = None, area_image_url = Some ''arbat.jpg''\<rparr>]\<rparr>))) \<and>
   fd_cities (form_data_view ((empty_db :: nat db)\<lparr>db_cities := [\<lparr>city_id = ''moscow'', city_name = ''Moscow'', city_image_url = None,
        city_description = [], city_latitude = None, city_longitude = None, city_bbox = None\<rparr>],
      db_areas := [\<lparr>area_id = 1, area_city = ''moscow'', area_name = ''Arbat'', area_bbox = None, area_latitude = None,
        area_longitude = None, area_description = None, area_image_url = Some ''arbat.jpg''\<rparr>]\<rparr>)) = [\<lparr>co_id = ''moscow'', co_name = ''Moscow'', co_image_url = None, co_description = []\<rparr>] \<and>
   (\<exists>x. city_area_view ''/media/'' (Some ''moscow'') ((empty_db :: nat db)\<lparr>db_cities := [\<lparr>city_id = ''moscow'', city_name = ''Moscow'', city_image_url = None,
        city_description = [], city_latitude = None, city_longitude = None, city_bbox = None\<rparr>],
      db_areas := [\<lparr>area_id = 1, area_city = ''moscow'', area_name = ''Arbat'', area_bbox = None, area_latitude = None,
        area_longitude = None, area_description = None, area_image_url = Some ''arbat.jpg''\<rparr>]\<rparr>) = Inr x \<and> ca_city_name x = ''Moscow'')"
proof -
  have dist: "distinct (map city_id (db_cities ((empty_db :: nat db)\<lparr>db_cities := [\<lparr>city_id = ''moscow'', city_name = ''Moscow'', city_image_url = None,
        city_description = [], city_latitude = None, city_longitude = None, city_bbox = None\<rparr>],
      db_areas := [\<lparr>area_id = 1, area_city = ''moscow'', area_name = ''Arbat'', area_bbox = None, area_latitude = None,
        area_longitude = None, area_description = None, area_image_url = Some ''arbat.jpg''\<rparr>]\<rparr>)))" by simp
  have fd: "fd_cities (form_data_view ((empty_db :: nat db)\<lparr>db_cities := [\<lparr>city_id = ''moscow'', city_name = ''Moscow'', city_image_url = None,
        city_description = [], city_latitude = None, city_longitude = None, city_bbox = None\<rparr>],
      db_areas := [\<lparr>area_id = 1, area_city = ''moscow'', area_name = ''Arbat'', area_bbox = None, area_latitude = None,
        area_longitude = None, area_description = None, area_image_url = Some ''arbat.jpg''\<rparr>]\<rparr>)) = [\<lparr>co_id = ''moscow'', co_name = ''Moscow'', co_image_url = None, co_description = []\<rparr>]"
    by (simp add: form_data_view_def city_serializer_def)
  from form_cities_resolve [OF dist, of "''/media/''"] fd
  have "\<exists>x. city_area_view ''/media/'' (Some ''moscow'') ((empty_db :: nat db)\<lparr>db_cities := [\<lparr>city_id = ''moscow'', city_name = ''Moscow'', city_image_url = None,
        city_description = [], city_latitude = None, city_longitude = None, city_bbox = None\<rparr>],
      db_areas := [\<lparr>area_id = 1, area_city = ''moscow'', area_name = ''Arbat'', area_bbox = None, area_latitude = None,
        area_longitude = None, area_description = None, area_image_url = Some ''arbat.jpg''\<rparr>]\<rparr>) = Inr x \<and> ca_city_name x = ''Moscow''" by auto
  with dist fd show ?thesis by simp
qed

end
