(* ===== verification/Api.thy ===== *)
theory Api
  imports EmbeddingStore RouteLifecycle Statistics Catalog
begin

text \<open>
  The URL dispatch of the route service: every endpoint of \<open>src/apps/routes/urls.py\<close>
  and \<open>src/apps/core/urls.py\<close> and the route-list and statistics endpoints of
  \<open>src/apps/users/urls.py\<close> as one datatype of calls, \<open>api_step\<close> dispatching a
  request to its view, \<open>api_run\<close> over a sequence of requests, and the databases
  \<open>reachable\<close> from a start. The lemmas show that every step keeps \<open>db_wf\<close> and
  the frame of each view, and that \<open>reachable\<close> is exactly the runs of \<open>api_run\<close>.
\<close>

section \<open>The API as one step function\<close>

text \<open>
  The endpoints of \<open>src/apps/routes/urls.py\<close>, \<open>src/apps/core/urls.py\<close> and the
  route and statistics endpoints of \<open>src/apps/users/urls.py\<close> as one datatype of calls. A request carries the answer of
  the embedding client for that request, the server clock and the fresh identifier a
  created row would get; \<open>api_step\<close> dispatches it to the view and keeps the database
  the view leaves behind (the responses are the views' own results).
\<close>

datatype api_call =
    Edit_Status user_id "string option" "string option"
  | Cancel_Route user_id "string option" "string option"
  | Give_Feedback user_id "string option" "json_value option" "string option"
  | Show_Route user_id ident
  | Generate_Route user_id generate_request
  | Embed_Missing
  | Embed_Refresh
  | Embed_Update ident
  | Form_Data
  | City_Areas "string option"
  | List_User_Routes user_id "string option" "string option" "string option"
  | User_Statistics user_id

record 'v request =
  rq_client :: "'v embed_client"
  rq_now :: timestamp
  rq_fresh :: ident
  rq_call :: api_call

fun api_step :: "'v request \<Rightarrow> 'v db \<Rightarrow> 'v db" where
  "api_step rq d =
     (case rq_call rq of
        Edit_Status u rid st \<Rightarrow> fst (edit_route_status u rid st (rq_now rq) d)
      | Cancel_Route u rid reason \<Rightarrow> fst (cancel_route u rid reason (rq_fresh rq) (rq_now rq) d)
      | Give_Feedback u rid rt c \<Rightarrow> fst (feedback_view u rid rt c (rq_fresh rq) (rq_now rq) d)
      | Show_Route u rid \<Rightarrow> d
      | Generate_Route u req \<Rightarrow> d
      | Embed_Missing \<Rightarrow> fst (embed_missing_view (rq_client rq) (rq_now rq) d)
      | Embed_Refresh \<Rightarrow> fst (embed_refresh_view (rq_client rq) (rq_now rq) d)
      | Embed_Update pid \<Rightarrow> fst (embed_update_view (rq_client rq) (rq_now rq) pid d)
      | Form_Data \<Rightarrow> d
      | City_Areas cid \<Rightarrow> d
      | List_User_Routes u sf l k \<Rightarrow> d
      | User_Statistics u \<Rightarrow> d)"

fun api_run :: "'v request list \<Rightarrow> 'v db \<Rightarrow> 'v db" where
  "api_run [] d = d"
| "api_run (rq # rqs) d = api_run rqs (api_step rq d)"

text \<open>
  The databases the service can reach by API calls from an initial database \<open>d0\<close>.
  No endpoint creates points or routes; they come from outside the API (curation, the
  admin), so the start is any database.
\<close>

inductive reachable :: "'v db \<Rightarrow> 'v db \<Rightarrow> bool" for d0 where
  reachable_start: "reachable d0 d0"
| reachable_step: "reachable d0 d \<Longrightarrow> reachable d0 (api_step rq d)"

section \<open>Lemmas\<close>

lemma db_wf_api_step: "db_wf d \<Longrightarrow> db_wf (api_step rq d)"
  by (cases "rq_call rq") (simp_all add: wf_intros)

text \<open>
  The frame of one step: the feedback ledger only grows, the point table never changes,
  and of the routes only the status may change.
\<close>

definition routes_but_status :: "route list \<Rightarrow> route list" where
  "routes_but_status rs = map (\<lambda>r. r\<lparr>route_status := Going\<rparr>) rs"

lemma api_step_frame:
  "(\<exists>new. db_feedbacks (api_step rq d) = db_feedbacks d @ new) \<and>
   db_points (api_step rq d) = db_points d \<and>
   routes_but_status (db_routes (api_step rq d)) = routes_but_status (db_routes d)"
proof (cases "rq_call rq")
  case (Edit_Status u rid st)
  then show ?thesis using edit_route_status_frame [of u rid st "rq_now rq" d]
    by (simp add: routes_but_status_def)
next
  case (Cancel_Route u rid reason)
  then show ?thesis using cancel_route_frame [of u rid reason "rq_fresh rq" "rq_now rq" d] by simp
next
  case (Give_Feedback u rid rt c)
  then show ?thesis using feedback_view_frame [of u rid rt c "rq_fresh rq" "rq_now rq" d] by simp
next
  case Embed_Missing
  then show ?thesis using embed_views_frame(1) [of "rq_client rq" "rq_now rq" d] by auto
next
  case Embed_Refresh
  then show ?thesis using embed_views_frame(2) [of "rq_client rq" "rq_now rq" d] by auto
next
  case (Embed_Update pid)
  then show ?thesis using embed_views_frame(3) [of "rq_client rq" "rq_now rq" pid d] by auto
qed simp_all

lemma user_routes_save_status:
  "user_routes u (save_route_status rid st rs) =
     update_where (\<lambda>r. route_id r = rid) (\<lambda>r. r\<lparr>route_status := st\<rparr>) (user_routes u rs)"
  unfolding user_routes_def save_route_status_def by (rule filter_update_where_keep) simp

lemma edit_route_status_owned:
  assumes "rid \<noteq> []" and "get_owned_route (db_routes d) u rid = Some r"
  shows "fst (edit_route_status u (Some rid) (Some (walk_status_value st)) now d) =
           d\<lparr>db_routes := save_route_status (route_id r) st (db_routes d)\<rparr>"
  using assms by (simp add: edit_route_status_def)

text \<open>
  A database is reachable from \<open>d0\<close> exactly when some sequence of requests run on
  \<open>d0\<close> produces it.
\<close>

lemma api_run_append: "api_run (xs @ ys) d = api_run ys (api_run xs d)"
  by (induction xs arbitrary: d) simp_all

lemma api_run_reachable: "reachable d0 d \<Longrightarrow> reachable d0 (api_run rqs d)"
  by (induction rqs arbitrary: d) (simp_all add: reachable_step del: api_step.simps)

lemma reachable_api_run: "reachable d0 d \<longleftrightarrow> (\<exists>rqs. d = api_run rqs d0)"
proof
  assume "reachable d0 d"
  then show "\<exists>rqs. d = api_run rqs d0"
  proof (induction rule: reachable.induct)
    case reachable_start
    have "d0 = api_run [] d0" by simp
    then show ?case by blast
  next
    case (reachable_step d rq)
    then obtain rqs where "d = api_run rqs d0" by blast
    then have "api_step rq d = api_run (rqs @ [rq]) d0" by (simp add: api_run_append)
    then show ?case by blast
  qed
next
  assume "\<exists>rqs. d = api_run rqs d0"
  then show "reachable d0 d" using api_run_reachable reachable_start by blast
qed

lemma api_run_db_wf: "db_wf d \<Longrightarrow> db_wf (api_run rqs d)"
  by (induction rqs arbitrary: d) (simp_all add: db_wf_api_step del: api_step.simps)

end
