(* ===== verification/Accounts.thy ===== *)
theory Accounts
  imports PyText
begin

text \<open>
  Registration, login and token refresh: \<open>RegisterView\<close>, \<open>LoginView\<close> and
  \<open>RefreshView\<close> of \<open>src/apps/users/views.py\<close> with \<open>RegisterSerializer\<close> and
  \<open>LoginSerializer\<close> of \<open>src/apps/users/serializers.py\<close>. The user table is a list
  of \<open>account\<close> rows. The framework code the serializers run is written out: DRF's
  field validation (required, blank, whitespace trimming), \<open>create_user\<close> with Django's
  \<open>normalize_email\<close>, and \<open>ModelBackend.authenticate\<close>. The configured validators, the
  password hasher and the JWT library are the parameters of \<open>auth_env\<close>. A token is
  represented by the user it is issued for. \<open>UserView\<close> and the URL dispatch of the
  four endpoints (\<open>auth_step\<close>) close the theory, with the user tables they can build
  (\<open>auth_reachable\<close>) and their typing invariant.

  Whitespace trimming and lower-casing are modelled on ASCII. Python's \<open>str.strip\<close>
  also removes Unicode spaces, and \<open>str.lower\<close> and NFKC username normalisation also
  act on non-ASCII letters.
\<close>

section \<open>Users and the library interface\<close>

record account =
  acc_id :: user_id
  acc_username :: string
  acc_email :: string
  acc_password :: string
  acc_is_active :: bool
  acc_is_staff :: bool
  acc_date_joined :: timestamp

record auth_env =
  ae_email_valid :: "string \<Rightarrow> bool"
  ae_password_valid :: "string \<Rightarrow> bool"
  ae_make_password :: "string \<Rightarrow> string"
  ae_check_password :: "string \<Rightarrow> string \<Rightarrow> bool"
  ae_token_subject :: "string \<Rightarrow> user_id option"

section \<open>Strings: lower, rsplit\<close>

definition ascii_lower :: "char \<Rightarrow> char" where
  "ascii_lower c =
     (case map_of (zip ''ABCDEFGHIJKLMNOPQRSTUVWXYZ'' ''abcdefghijklmnopqrstuvwxyz'') c of
        None \<Rightarrow> c | Some l \<Rightarrow> l)"

text \<open>\<open>s.rsplit("@", 1)\<close> when it has two parts: split at the last \<open>@\<close>.\<close>

definition rsplit_at :: "string \<Rightarrow> (string \<times> string) option" where
  "rsplit_at s =
     (if CHR ''@'' \<in> set s
      then Some (rev (tl (dropWhile (\<lambda>c. c \<noteq> CHR ''@'') (rev s))), rev (takeWhile (\<lambda>c. c \<noteq> CHR ''@'') (rev s)))
      else None)"

text \<open>\<open>BaseUserManager.normalize_email\<close>: the domain part is lower-cased.\<close>

definition normalize_email :: "string \<Rightarrow> string" where
  "normalize_email e =
     (case rsplit_at (py_strip e) of None \<Rightarrow> e | Some (name, domain) \<Rightarrow> name @ ''@'' @ map ascii_lower domain)"

section \<open>DRF field validation\<close>

datatype field_result = Absent | Value string | Invalid

text \<open>
  \<open>CharField.run_validation\<close> and its subclass \<open>EmailField\<close>. An absent value fails
  when the field is required and is left out of \<open>validated_data\<close> otherwise. A value
  that is blank after trimming fails unless blanks are allowed, and then it is \<open>''''\<close>
  without running the validators. Otherwise the trimmed value must pass the validators.
\<close>

definition char_field :: "bool \<Rightarrow> bool \<Rightarrow> (string \<Rightarrow> bool) \<Rightarrow> string option \<Rightarrow> field_result" where
  "char_field required allow_blank valid x =
     (case x of
        None \<Rightarrow> if required then Invalid else Absent
      | Some s \<Rightarrow> (let t = py_strip s in
                   if t = [] then (if allow_blank then Value [] else Invalid)
                   else if valid t then Value t else Invalid))"

definition field_errors :: "(string \<times> field_result) list \<Rightarrow> string list" where
  "field_errors fs = map fst (filter (\<lambda>nf. snd nf = Invalid) fs)"

text \<open>
  \<open>RegisterSerializer.validate_password\<close>: DRF runs it on the trimmed value after the
  field's own checks, and a \<open>ValidationError\<close> of the configured validators becomes
  the field's error.
\<close>

definition validate_password_method :: "auth_env \<Rightarrow> field_result \<Rightarrow> field_result" where
  "validate_password_method env r =
     (case r of Value t \<Rightarrow> if ae_password_valid env t then Value t else Invalid | _ \<Rightarrow> r)"

section \<open>RegisterView\<close>

text \<open>An \<open>AutoField\<close> key: one more than the largest key given so far.\<close>

definition next_user_id :: "account list \<Rightarrow> user_id" where
  "next_user_id accts = Suc (foldr max (map acc_id accts) 0)"

text \<open>\<open>UserManager._create_user\<close>, then \<open>save()\<close> against the unique username.\<close>

definition create_user ::
  "auth_env \<Rightarrow> timestamp \<Rightarrow> string \<Rightarrow> string \<Rightarrow> string \<Rightarrow> account list \<Rightarrow> account list \<times> (error + user_id)" where
  "create_user env now username email pw accts =
     (if username = [] then (accts, Inl (Value_Error ''The given username must be set''))
      else if username \<in> set (map acc_username accts) then (accts, Inl Integrity_Error)
      else (let a = \<lparr>acc_id = next_user_id accts, acc_username = username, acc_email = normalize_email email,
                     acc_password = ae_make_password env pw, acc_is_active = True, acc_is_staff = False, acc_date_joined = now\<rparr>
            in (accts @ [a], Inr (acc_id a))))"

text \<open>
  The serializer's \<open>email\<close> comes from the model field (\<open>blank=True\<close>, at most 254
  characters) and is not required. \<open>password\<close> is a required \<open>CharField\<close> checked by
  \<open>validate_password\<close>. \<open>create\<close> reads \<open>validated_data["email"]\<close>, a \<open>KeyError\<close>
  when the client sent none.
\<close>

definition register_view ::
  "auth_env \<Rightarrow> timestamp \<Rightarrow> string option \<Rightarrow> string option \<Rightarrow> account list \<Rightarrow> account list \<times> (error + user_id)" where
  "register_view env now email_in password_in accts =
     (let fe = char_field False True (\<lambda>t. utf8_length t \<le> 254 \<and> ae_email_valid env t) email_in;
          fp = validate_password_method env (char_field True False (\<lambda>_. True) password_in);
          errs = field_errors [(''email'', fe), (''password'', fp)]
      in if errs \<noteq> [] then (accts, Inl (Validation_Error errs))
         else case (fe, fp) of
           (Value e, Value pw) \<Rightarrow> create_user env now e e pw accts
         | _ \<Rightarrow> (accts, Inl (Key_Error ''email'')))"

section \<open>LoginView\<close>

text \<open>\<open>ModelBackend.authenticate\<close>: the user by username, its password and active flag.\<close>

definition authenticate :: "auth_env \<Rightarrow> string \<Rightarrow> string \<Rightarrow> account list \<Rightarrow> account option" where
  "authenticate env username pw accts =
     (case find (\<lambda>a. acc_username a = username) accts of
        None \<Rightarrow> None
      | Some a \<Rightarrow> if ae_check_password env pw (acc_password a) \<and> acc_is_active a then Some a else None)"

text \<open>
  \<open>LoginSerializer.validate\<close>: \<open>User.objects.get(email=email)\<close> (no row answers
  \<open>Invalid credentials\<close>, two rows raise \<open>MultipleObjectsReturned\<close>), then
  \<open>authenticate\<close> with that user's username.
\<close>

definition login_view :: "auth_env \<Rightarrow> string option \<Rightarrow> string option \<Rightarrow> account list \<Rightarrow> error + user_id" where
  "login_view env email_in password_in accts =
     (let fe = char_field True False (ae_email_valid env) email_in;
          fp = char_field True False (\<lambda>_. True) password_in;
          errs = field_errors [(''email'', fe), (''password'', fp)]
      in if errs \<noteq> [] then Inl (Validation_Error errs)
         else case (fe, fp) of
           (Value e, Value pw) \<Rightarrow>
             (case filter (\<lambda>a. acc_email a = e) accts of
                [] \<Rightarrow> Inl (Validation_Error [''non_field_errors''])
              | [a] \<Rightarrow> (case authenticate env (acc_username a) pw accts of
                          None \<Rightarrow> Inl (Validation_Error [''non_field_errors''])
                        | Some b \<Rightarrow> Inr (acc_id b))
              | _ \<Rightarrow> Inl (Multiple_Objects ''User''))
         | _ \<Rightarrow> Inl (Validation_Error [''email'', ''password'']))"

section \<open>RefreshView\<close>

definition refresh_view :: "auth_env \<Rightarrow> string option \<Rightarrow> error + user_id" where
  "refresh_view env token_in =
     (case token_in of
        None \<Rightarrow> Inl (Missing_Param ''refresh'')
      | Some t \<Rightarrow> if t = [] then Inl (Missing_Param ''refresh'')
                 else case ae_token_subject env t of None \<Rightarrow> Inl Invalid_Token | Some u \<Rightarrow> Inr u)"

section \<open>UserView\<close>

record user_out =
  uo_id :: user_id
  uo_email :: string
  uo_username :: string
  uo_date_joined :: timestamp

definition user_serializer :: "account \<Rightarrow> user_out" where
  "user_serializer a =
     \<lparr>uo_id = acc_id a, uo_email = acc_email a, uo_username = acc_username a, uo_date_joined = acc_date_joined a\<rparr>"

text \<open>
  \<open>UserView\<close> behind \<open>IsAuthenticated\<close>: no authenticated user, or a token for a
  user that no longer exists, is a 401.
\<close>

definition user_view :: "account list \<Rightarrow> user_id option \<Rightarrow> error + user_out" where
  "user_view accts u =
     (case u of
        None \<Rightarrow> Inl Not_Authenticated
      | Some uid \<Rightarrow> (case find (\<lambda>a. acc_id a = uid) accts of
                      None \<Rightarrow> Inl Not_Authenticated
                    | Some a \<Rightarrow> Inr (user_serializer a)))"

section \<open>The authentication endpoints\<close>

text \<open>
  The endpoints of \<open>src/apps/users/urls.py\<close> that act on the user table, as a datatype
  of calls. The route list and statistics endpoints read the route database and are
  calls of \<open>api_step\<close>. Register and login answer a token pair for a user; refresh
  answers an access token for the token's user.
\<close>

datatype auth_call =
    Register "string option" "string option"
  | Login "string option" "string option"
  | Refresh "string option"
  | Show_User "user_id option"

datatype auth_response = Tokens_For user_id | Access_For user_id | User_Data user_out

fun auth_step :: "auth_env \<Rightarrow> timestamp \<Rightarrow> auth_call \<Rightarrow> account list \<Rightarrow> account list \<times> (error + auth_response)" where
  "auth_step env now (Register e p) accts =
     (fst (register_view env now e p accts), map_sum id Tokens_For (snd (register_view env now e p accts)))"
| "auth_step env now (Login e p) accts = (accts, map_sum id Tokens_For (login_view env e p accts))"
| "auth_step env now (Refresh t) accts = (accts, map_sum id Access_For (refresh_view env t))"
| "auth_step env now (Show_User u) accts = (accts, map_sum id User_Data (user_view accts u))"

text \<open>The user tables reachable from an empty one through the authentication endpoints.\<close>

inductive auth_reachable :: "auth_env \<Rightarrow> account list \<Rightarrow> bool" for env where
  auth_reachable_empty: "auth_reachable env []"
| auth_reachable_step: "auth_reachable env accts \<Longrightarrow> auth_reachable env (fst (auth_step env now c accts))"

section \<open>Invariants\<close>

definition accounts_wf :: "account list \<Rightarrow> bool" where
  "accounts_wf accts \<longleftrightarrow>
     distinct (map acc_id accts) \<and> distinct (map acc_username accts) \<and>
     (\<forall>a \<in> set accts. acc_username a \<noteq> [] \<and> 0 < acc_id a)"

text \<open>
  The shape of a stored account: its username is a trimmed, non-empty string, its
  email is the normalised username, and it is an active user without staff rights.
\<close>

definition accounts_typed :: "account list \<Rightarrow> bool" where
  "accounts_typed accts \<longleftrightarrow>
     (\<forall>a \<in> set accts. acc_username a \<noteq> [] \<and> py_strip (acc_username a) = acc_username a \<and>
                     acc_email a = normalize_email (acc_username a) \<and> acc_is_active a \<and> \<not> acc_is_staff a)"

section \<open>Lemmas\<close>

lemma validate_password_char_field [simp]:
  "validate_password_method env (char_field True False (\<lambda>_. True) x) = char_field True False (ae_password_valid env) x"
  by (simp add: validate_password_method_def char_field_def Let_def split: option.splits)

lemma char_field_Value:
  "char_field req ab valid x = Value t \<longleftrightarrow>
     (\<exists>s. x = Some s \<and> t = py_strip s \<and> (if t = [] then ab else valid t))"
  by (auto simp: char_field_def Let_def split: option.splits if_splits)

lemma char_field_not_Invalid_required:
  "char_field True ab valid x \<noteq> Invalid \<longleftrightarrow> (\<exists>t. char_field True ab valid x = Value t)"
  by (auto simp: char_field_def Let_def split: option.splits if_splits)

lemma field_errors_Nil [simp]:
  "field_errors [(n1, f1), (n2, f2)] = [] \<longleftrightarrow> f1 \<noteq> Invalid \<and> f2 \<noteq> Invalid"
  by (simp add: field_errors_def)

lemma next_user_id_gt: "a \<in> set accts \<Longrightarrow> acc_id a < next_user_id accts"
proof -
  have "\<forall>a \<in> set accts. acc_id a \<le> foldr max (map acc_id accts) 0"
    by (induction accts) auto
  then show "a \<in> set accts \<Longrightarrow> acc_id a < next_user_id accts" by (auto simp: next_user_id_def less_Suc_eq_le)
qed

lemma create_user_cases:
  "create_user env now u e pw accts = (accts', r) \<Longrightarrow>
     (r = Inl (Value_Error ''The given username must be set'') \<and> u = [] \<and> accts' = accts) \<or>
     (r = Inl Integrity_Error \<and> u \<noteq> [] \<and> u \<in> set (map acc_username accts) \<and> accts' = accts) \<or>
     (u \<noteq> [] \<and> u \<notin> set (map acc_username accts) \<and> r = Inr (next_user_id accts) \<and>
      accts' = accts @ [\<lparr>acc_id = next_user_id accts, acc_username = u, acc_email = normalize_email e,
                         acc_password = ae_make_password env pw, acc_is_active = True, acc_is_staff = False, acc_date_joined = now\<rparr>])"
  by (auto simp: create_user_def Let_def split: if_splits)

text \<open>A successful registration: both fields present and valid, the trimmed email new as a username.\<close>

lemma register_view_Inr:
  assumes "register_view env now email_in password_in accts = (accts', Inr uid)"
  shows "\<exists>e p. email_in = Some e \<and> password_in = Some p \<and> py_strip e \<noteq> [] \<and>
           ae_email_valid env (py_strip e) \<and> py_strip p \<noteq> [] \<and> ae_password_valid env (py_strip p) \<and>
           py_strip e \<notin> set (map acc_username accts) \<and> uid = next_user_id accts \<and>
           accts' = accts @ [\<lparr>acc_id = next_user_id accts, acc_username = py_strip e,
                              acc_email = normalize_email (py_strip e), acc_password = ae_make_password env (py_strip p),
                              acc_is_active = True, acc_is_staff = False, acc_date_joined = now\<rparr>]"
proof -
  let ?fe = "char_field False True (\<lambda>t. utf8_length t \<le> 254 \<and> ae_email_valid env t) email_in"
  let ?fp = "char_field True False (ae_password_valid env) password_in"
  have ok: "?fe \<noteq> Invalid \<and> ?fp \<noteq> Invalid"
    using assms by (auto simp: register_view_def Let_def split: if_splits)
  then obtain pw where fp: "?fp = Value pw" by (auto simp: char_field_not_Invalid_required)
  show ?thesis
  proof (cases ?fe)
    case Absent
    with ok fp assms show ?thesis by (simp add: register_view_def)
  next
    case Invalid
    with ok show ?thesis by simp
  next
    case (Value e)
    with fp assms have cu: "create_user env now e e pw accts = (accts', Inr uid)"
      by (simp add: register_view_def)
    from create_user_cases [OF cu] have "e \<noteq> []" and rest:
      "e \<notin> set (map acc_username accts) \<and> uid = next_user_id accts \<and>
       accts' = accts @ [\<lparr>acc_id = next_user_id accts, acc_username = e, acc_email = normalize_email e,
                         acc_password = ae_make_password env pw, acc_is_active = True, acc_is_staff = False, acc_date_joined = now\<rparr>]"
      by auto
    from Value \<open>e \<noteq> []\<close> obtain se where se: "email_in = Some se" "e = py_strip se" "ae_email_valid env e"
      by (auto simp: char_field_Value)
    from fp obtain sp where sp: "password_in = Some sp" "pw = py_strip sp" "pw \<noteq> []" "ae_password_valid env pw"
      by (auto simp: char_field_Value split: if_splits)
    from se sp rest \<open>e \<noteq> []\<close> show ?thesis by auto
  qed
qed

lemma register_view_Inl:
  "register_view env now email_in password_in accts = (accts', Inl err) \<Longrightarrow> accts' = accts"
  by (auto simp: register_view_def Let_def create_user_def split: if_splits field_result.splits)

lemma login_view_valid:
  assumes "py_strip e \<noteq> []" and "ae_email_valid env (py_strip e)" and "py_strip p \<noteq> []"
  shows "login_view env (Some e) (Some p) accts =
           (case filter (\<lambda>a. acc_email a = py_strip e) accts of
              [] \<Rightarrow> Inl (Validation_Error [''non_field_errors''])
            | [a] \<Rightarrow> (case authenticate env (acc_username a) (py_strip p) accts of
                        None \<Rightarrow> Inl (Validation_Error [''non_field_errors''])
                      | Some b \<Rightarrow> Inr (acc_id b))
            | _ \<Rightarrow> Inl (Multiple_Objects ''User''))"
  using assms by (simp add: login_view_def char_field_def)

lemma authenticate_new_user:
  assumes "u \<notin> set (map acc_username accts)" and "acc_username a = u"
  shows "authenticate env u pw (accts @ [a]) =
           (if ae_check_password env pw (acc_password a) \<and> acc_is_active a then Some a else None)"
proof -
  have "find (\<lambda>b. acc_username b = u) accts = None"
    using assms(1) by (auto simp: find_None_iff)
  with assms(2) show ?thesis by (simp add: authenticate_def find_append_None)
qed

lemma register_view_typed:
  assumes "accounts_typed accts"
  shows "accounts_typed (fst (register_view env now email_in password_in accts))"
proof (cases "register_view env now email_in password_in accts")
  case (Pair accts' r)
  show ?thesis
  proof (cases r)
    case (Inl err)
    with Pair register_view_Inl assms show ?thesis by fastforce
  next
    case (Inr uid)
    with Pair register_view_Inr obtain e p where
      v: "py_strip e \<noteq> []"
      and a: "accts' = accts @ [\<lparr>acc_id = next_user_id accts, acc_username = py_strip e,
                              acc_email = normalize_email (py_strip e), acc_password = ae_make_password env (py_strip p),
                              acc_is_active = True, acc_is_staff = False, acc_date_joined = now\<rparr>]"
      by blast
    with assms Pair show ?thesis by (auto simp: accounts_typed_def py_strip_idem)
  qed
qed

lemma fst_auth_step:
  "fst (auth_step env now c accts) =
     (case c of Register e p \<Rightarrow> fst (register_view env now e p accts) | _ \<Rightarrow> accts)"
  by (cases c) simp_all

section \<open>Properties of registration and login\<close>

text \<open>
  C27. Registration and login round-trip: with a password hasher whose check accepts
  what it hashed, a user who registers with an email whose domain is already lower
  case, and that no account has yet, can log in with the same email and password and
  is the user just created.
\<close>

theorem register_login_roundtrip:
  assumes hasher: "\<forall>pw. ae_check_password env pw (ae_make_password env pw)"
    and reg: "register_view env now (Some e) (Some p) accts = (accts', Inr uid)"
    and lower: "normalize_email (py_strip e) = py_strip e"
    and fresh: "py_strip e \<notin> set (map acc_email accts)"
  shows "login_view env (Some e) (Some p) accts' = Inr uid"
proof -
  from register_view_Inr [OF reg] have v: "py_strip e \<noteq> []" "ae_email_valid env (py_strip e)"
    "py_strip p \<noteq> []" "py_strip e \<notin> set (map acc_username accts)" "uid = next_user_id accts"
    and a: "accts' = accts @ [\<lparr>acc_id = next_user_id accts, acc_username = py_strip e, acc_email = normalize_email (py_strip e), acc_password = ae_make_password env (py_strip p), acc_is_active = True, acc_is_staff = False, acc_date_joined = now\<rparr>]" by auto
  have f: "filter (\<lambda>b. acc_email b = py_strip e) accts' = [\<lparr>acc_id = next_user_id accts, acc_username = py_strip e, acc_email = normalize_email (py_strip e), acc_password = ae_make_password env (py_strip p), acc_is_active = True, acc_is_staff = False, acc_date_joined = now\<rparr>]"
    using fresh lower by (auto simp: a filter_empty_conv image_iff)
  have "authenticate env (py_strip e) (py_strip p) accts' = Some (\<lparr>acc_id = next_user_id accts, acc_username = py_strip e, acc_email = normalize_email (py_strip e), acc_password = ae_make_password env (py_strip p), acc_is_active = True, acc_is_staff = False, acc_date_joined = now\<rparr>)"
    unfolding a by (simp add: authenticate_new_user [OF v(4)] hasher)
  with login_view_valid [OF v(1-3)] f v(5) show ?thesis by simp
qed

theorem register_login_roundtrip_witness:
  "register_view \<lparr>ae_email_valid = \<lambda>_. True, ae_password_valid = \<lambda>s. 7 \<le> length s,
      ae_make_password = id, ae_check_password = (=), ae_token_subject = \<lambda>_. None\<rparr> 1
     (Some ''ann@mail.ru'') (Some ''secret12'') [] =
     ([\<lparr>acc_id = 1, acc_username = ''ann@mail.ru'', acc_email = ''ann@mail.ru'', acc_password = ''secret12'',
        acc_is_active = True, acc_is_staff = False, acc_date_joined = 1\<rparr>], Inr 1) \<and>
   login_view \<lparr>ae_email_valid = \<lambda>_. True, ae_password_valid = \<lambda>s. 7 \<le> length s,
      ae_make_password = id, ae_check_password = (=), ae_token_subject = \<lambda>_. None\<rparr>
     (Some ''ann@mail.ru'') (Some ''secret12'')
     [\<lparr>acc_id = 1, acc_username = ''ann@mail.ru'', acc_email = ''ann@mail.ru'', acc_password = ''secret12'',
        acc_is_active = True, acc_is_staff = False, acc_date_joined = 1\<rparr>] = Inr 1"
proof -
  let ?env = "\<lparr>ae_email_valid = \<lambda>_. True, ae_password_valid = \<lambda>s. 7 \<le> length s,
      ae_make_password = id, ae_check_password = (=), ae_token_subject = \<lambda>_. None\<rparr>"
  let ?a = "[\<lparr>acc_id = 1, acc_username = ''ann@mail.ru'', acc_email = ''ann@mail.ru'', acc_password = ''secret12'',
        acc_is_active = True, acc_is_staff = False, acc_date_joined = 1\<rparr>]"
  have n: "normalize_email ''ann@mail.ru'' = ''ann@mail.ru''" and s: "py_strip ''ann@mail.ru'' = ''ann@mail.ru''"
    by (simp_all add: normalize_email_def rsplit_at_def py_strip_def py_whitespace_def ascii_lower_def)
  have r: "register_view ?env 1 (Some ''ann@mail.ru'') (Some ''secret12'') [] = (?a, Inr 1)"
    by (simp add: register_view_def validate_password_method_def utf8_length_def char_field_def py_strip_def py_whitespace_def create_user_def
        next_user_id_def normalize_email_def rsplit_at_def ascii_lower_def)
  have "login_view ?env (Some ''ann@mail.ru'') (Some ''secret12'') ?a = Inr 1"
    by (rule register_login_roundtrip [OF _ r]) (simp_all add: n s)
  with r show ?thesis by simp
qed

text \<open>
  C28. A user who registers with capitals in the email's domain cannot log in with the
  email they registered: the account stores the email with the domain lower-cased,
  and login looks the email up exactly as typed.
\<close>

theorem register_domain_case_lockout:
  assumes reg: "register_view env now (Some e) (Some p) accts = (accts', Inr uid)"
    and upper: "normalize_email (py_strip e) \<noteq> py_strip e"
    and fresh: "py_strip e \<notin> set (map acc_email accts)"
  shows "login_view env (Some e) (Some p) accts' = Inl (Validation_Error [''non_field_errors''])"
proof -
  from register_view_Inr [OF reg] have v: "py_strip e \<noteq> []" "ae_email_valid env (py_strip e)" "py_strip p \<noteq> []"
    and "\<exists>A. accts' = accts @ [A] \<and> acc_email A = normalize_email (py_strip e)" by auto
  then obtain A where a: "accts' = accts @ [A]" "acc_email A = normalize_email (py_strip e)" by blast
  have "filter (\<lambda>b. acc_email b = py_strip e) accts = []"
    using fresh by (auto simp: filter_empty_conv image_iff)
  with a upper have "filter (\<lambda>b. acc_email b = py_strip e) accts' = []" by simp
  with login_view_valid [OF v] show ?thesis by simp
qed

theorem register_domain_case_lockout_witness:
  "register_view \<lparr>ae_email_valid = \<lambda>_. True, ae_password_valid = \<lambda>s. 7 \<le> length s, ae_make_password = id, ae_check_password = (=), ae_token_subject = \<lambda>_. None\<rparr> 1 (Some ''Ann@Mail.RU'') (Some ''secret12'') [] =
     ([\<lparr>acc_id = 1, acc_username = ''Ann@Mail.RU'', acc_email = ''Ann@mail.ru'', acc_password = ''secret12'',
        acc_is_active = True, acc_is_staff = False, acc_date_joined = 1\<rparr>], Inr 1) \<and>
   login_view \<lparr>ae_email_valid = \<lambda>_. True, ae_password_valid = \<lambda>s. 7 \<le> length s, ae_make_password = id, ae_check_password = (=), ae_token_subject = \<lambda>_. None\<rparr> (Some ''Ann@Mail.RU'') (Some ''secret12'')
     [\<lparr>acc_id = 1, acc_username = ''Ann@Mail.RU'', acc_email = ''Ann@mail.ru'', acc_password = ''secret12'',
        acc_is_active = True, acc_is_staff = False, acc_date_joined = 1\<rparr>] = Inl (Validation_Error [''non_field_errors''])"
proof -
  let ?a = "[\<lparr>acc_id = 1, acc_username = ''Ann@Mail.RU'', acc_email = ''Ann@mail.ru'', acc_password = ''secret12'',
        acc_is_active = True, acc_is_staff = False, acc_date_joined = 1\<rparr>]"
  have r: "register_view \<lparr>ae_email_valid = \<lambda>_. True, ae_password_valid = \<lambda>s. 7 \<le> length s, ae_make_password = id, ae_check_password = (=), ae_token_subject = \<lambda>_. None\<rparr> 1 (Some ''Ann@Mail.RU'') (Some ''secret12'') [] = (?a, Inr 1)"
    by (simp add: register_view_def validate_password_method_def utf8_length_def char_field_def py_strip_def py_whitespace_def create_user_def next_user_id_def normalize_email_def rsplit_at_def ascii_lower_def)
  have n: "normalize_email (py_strip ''Ann@Mail.RU'') \<noteq> py_strip ''Ann@Mail.RU''"
    by (simp add: normalize_email_def rsplit_at_def py_strip_def py_whitespace_def ascii_lower_def)
  from register_domain_case_lockout [OF r n] r show ?thesis by simp
qed

text \<open>
  C29. The error answers of registration, none of which writes: a blank or rejected
  password is a 400 naming the password field. With a good password, no email is a
  \<open>KeyError\<close>, a blank email a \<open>ValueError\<close>, and an email already used as a
  username an \<open>IntegrityError\<close>, all three server errors (500).
\<close>

theorem register_view_errors:
  "((py_strip p = [] \<or> \<not> ae_password_valid env (py_strip p)) \<longrightarrow>
      (\<exists>errs. register_view env now email_in (Some p) accts = (accts, Inl (Validation_Error errs)) \<and>
              ''password'' \<in> set errs \<and> http_status (Validation_Error errs) = 400)) \<and>
   (py_strip p \<noteq> [] \<and> ae_password_valid env (py_strip p) \<longrightarrow>
      register_view env now None (Some p) accts = (accts, Inl (Key_Error ''email'')) \<and>
      http_status (Key_Error ''email'') = 500) \<and>
   (py_strip p \<noteq> [] \<and> ae_password_valid env (py_strip p) \<and> py_strip e = [] \<longrightarrow>
      register_view env now (Some e) (Some p) accts = (accts, Inl (Value_Error ''The given username must be set'')) \<and>
      http_status (Value_Error ''The given username must be set'') = 500) \<and>
   (py_strip p \<noteq> [] \<and> ae_password_valid env (py_strip p) \<and> py_strip e \<noteq> [] \<and> utf8_length (py_strip e) \<le> 254 \<and>
    ae_email_valid env (py_strip e) \<and> py_strip e \<in> set (map acc_username accts) \<longrightarrow>
      register_view env now (Some e) (Some p) accts = (accts, Inl Integrity_Error) \<and> http_status Integrity_Error = 500)"
  by (auto simp: register_view_def validate_password_method_def utf8_length_def char_field_def field_errors_def create_user_def Let_def)

theorem register_view_errors_witness:
  "register_view \<lparr>ae_email_valid = \<lambda>_. True, ae_password_valid = \<lambda>s. 7 \<le> length s, ae_make_password = id, ae_check_password = (=), ae_token_subject = \<lambda>_. None\<rparr> 1 (Some ''ann@mail.ru'') (Some ''short'') [] = ([], Inl (Validation_Error [''password''])) \<and>
   register_view \<lparr>ae_email_valid = \<lambda>_. True, ae_password_valid = \<lambda>s. 7 \<le> length s, ae_make_password = id, ae_check_password = (=), ae_token_subject = \<lambda>_. None\<rparr> 1 None (Some ''secret12'') [] = ([], Inl (Key_Error ''email'')) \<and>
   register_view \<lparr>ae_email_valid = \<lambda>_. True, ae_password_valid = \<lambda>s. 7 \<le> length s, ae_make_password = id, ae_check_password = (=), ae_token_subject = \<lambda>_. None\<rparr> 1 (Some '' '') (Some ''secret12'') [] = ([], Inl (Value_Error ''The given username must be set''))"
proof -
  note w = register_view_errors [of "''short''" "\<lparr>ae_email_valid = \<lambda>_. True, ae_password_valid = \<lambda>s. 7 \<le> length s, ae_make_password = id, ae_check_password = (=), ae_token_subject = \<lambda>_. None\<rparr>" 1 "Some ''ann@mail.ru''" "[]"]
    register_view_errors [of "''secret12''" "\<lparr>ae_email_valid = \<lambda>_. True, ae_password_valid = \<lambda>s. 7 \<le> length s, ae_make_password = id, ae_check_password = (=), ae_token_subject = \<lambda>_. None\<rparr>" 1 None "[]" "'' ''"]
  have s: "py_strip ''short'' = ''short''" "py_strip ''secret12'' = ''secret12''" "py_strip '' '' = []"
    by (simp_all add: py_strip_def py_whitespace_def)
  have r1: "register_view \<lparr>ae_email_valid = \<lambda>_. True, ae_password_valid = \<lambda>s. 7 \<le> length s, ae_make_password = id, ae_check_password = (=), ae_token_subject = \<lambda>_. None\<rparr> 1 (Some ''ann@mail.ru'') (Some ''short'') [] = ([], Inl (Validation_Error [''password'']))"
    by (simp add: register_view_def validate_password_method_def utf8_length_def char_field_def py_strip_def py_whitespace_def create_user_def next_user_id_def normalize_email_def rsplit_at_def ascii_lower_def field_errors_def)
  from w s r1 show ?thesis by simp
qed

lemma accounts_wf_register_view:
  assumes "accounts_wf accts"
  shows "accounts_wf (fst (register_view env now email_in password_in accts))"
proof (cases "register_view env now email_in password_in accts")
  case (Pair accts' r)
  show ?thesis
  proof (cases r)
    case (Inl err)
    with Pair register_view_Inl assms show ?thesis by fastforce
  next
    case (Inr uid)
    with Pair register_view_Inr obtain e p where
      v: "py_strip e \<noteq> []" "py_strip e \<notin> set (map acc_username accts)"
      and a: "accts' = accts @ [\<lparr>acc_id = next_user_id accts, acc_username = py_strip e,
                              acc_email = normalize_email (py_strip e), acc_password = ae_make_password env (py_strip p),
                              acc_is_active = True, acc_is_staff = False, acc_date_joined = now\<rparr>]"
      by blast
    have "next_user_id accts \<notin> set (map acc_id accts)"
      using next_user_id_gt by fastforce
    with v assms Pair show ?thesis by (auto simp: a accounts_wf_def next_user_id_def)
  qed
qed

lemma accounts_wf_auth_step:
  "accounts_wf accts \<Longrightarrow> accounts_wf (fst (auth_step env now c accts))"
  by (simp add: fst_auth_step accounts_wf_register_view split: auth_call.splits)

text \<open>The authentication endpoints only ever append active accounts without staff rights.\<close>

lemma register_view_appends:
  "\<exists>new. fst (register_view env now e p accts) = accts @ new \<and> (\<forall>a \<in> set new. acc_is_active a \<and> \<not> acc_is_staff a)"
proof (cases "register_view env now e p accts")
  case (Pair accts' r)
  show ?thesis
  proof (cases r)
    case (Inl err)
    with Pair register_view_Inl show ?thesis by fastforce
  next
    case (Inr uid)
    with Pair register_view_Inr show ?thesis by fastforce
  qed
qed

lemma auth_step_appends:
  "\<exists>new. fst (auth_step env now c accts) = accts @ new \<and> (\<forall>a \<in> set new. acc_is_active a \<and> \<not> acc_is_staff a)"
  using register_view_appends [of env now _ _ accts] by (cases c) simp_all

text \<open>
  C31. Login with an email that two accounts share raises \<open>MultipleObjectsReturned\<close>,
  a server error. Registration lets this happen: two emails differing only in the
  domain's case are different usernames but the same stored email.
\<close>

theorem login_shared_email_error:
  assumes "py_strip e \<noteq> []" and "ae_email_valid env (py_strip e)" and "py_strip p \<noteq> []"
    and "2 \<le> length (filter (\<lambda>a. acc_email a = py_strip e) accts)"
  shows "login_view env (Some e) (Some p) accts = Inl (Multiple_Objects ''User'') \<and>
         http_status (Multiple_Objects ''User'') = 500"
proof -
  let ?m = "filter (\<lambda>a. acc_email a = py_strip e) accts"
  show ?thesis
  proof (cases ?m)
    case Nil
    with assms(4) show ?thesis by simp
  next
    case (Cons a l)
    note m = this
    show ?thesis
    proof (cases l)
      case Nil
      with m assms(4) show ?thesis by simp
    next
      case (Cons b rest)
      with m login_view_valid [OF assms(1-3)] show ?thesis by simp
    qed
  qed
qed

theorem login_shared_email_error_witness:
  "register_view \<lparr>ae_email_valid = \<lambda>_. True, ae_password_valid = \<lambda>s. 7 \<le> length s, ae_make_password = id, ae_check_password = (=), ae_token_subject = \<lambda>_. None\<rparr> 1 (Some ''ann@Mail.ru'') (Some ''secret12'') [] = ([\<lparr>acc_id = 1, acc_username = ''ann@Mail.ru'', acc_email = ''ann@mail.ru'', acc_password = ''secret12'', acc_is_active = True, acc_is_staff = False, acc_date_joined = 1\<rparr>], Inr 1) \<and>
   register_view \<lparr>ae_email_valid = \<lambda>_. True, ae_password_valid = \<lambda>s. 7 \<le> length s, ae_make_password = id, ae_check_password = (=), ae_token_subject = \<lambda>_. None\<rparr> 2 (Some ''ann@mail.ru'') (Some ''secret12'') [\<lparr>acc_id = 1, acc_username = ''ann@Mail.ru'', acc_email = ''ann@mail.ru'', acc_password = ''secret12'', acc_is_active = True, acc_is_staff = False, acc_date_joined = 1\<rparr>] = ([\<lparr>acc_id = 1, acc_username = ''ann@Mail.ru'', acc_email = ''ann@mail.ru'', acc_password = ''secret12'', acc_is_active = True, acc_is_staff = False, acc_date_joined = 1\<rparr>, \<lparr>acc_id = 2, acc_username = ''ann@mail.ru'', acc_email = ''ann@mail.ru'', acc_password = ''secret12'', acc_is_active = True, acc_is_staff = False, acc_date_joined = 2\<rparr>], Inr 2) \<and>
   login_view \<lparr>ae_email_valid = \<lambda>_. True, ae_password_valid = \<lambda>s. 7 \<le> length s, ae_make_password = id, ae_check_password = (=), ae_token_subject = \<lambda>_. None\<rparr> (Some ''ann@mail.ru'') (Some ''secret12'') [\<lparr>acc_id = 1, acc_username = ''ann@Mail.ru'', acc_email = ''ann@mail.ru'', acc_password = ''secret12'', acc_is_active = True, acc_is_staff = False, acc_date_joined = 1\<rparr>, \<lparr>acc_id = 2, acc_username = ''ann@mail.ru'', acc_email = ''ann@mail.ru'', acc_password = ''secret12'', acc_is_active = True, acc_is_staff = False, acc_date_joined = 2\<rparr>] = Inl (Multiple_Objects ''User'')"
proof -
  have r1: "register_view \<lparr>ae_email_valid = \<lambda>_. True, ae_password_valid = \<lambda>s. 7 \<le> length s, ae_make_password = id, ae_check_password = (=), ae_token_subject = \<lambda>_. None\<rparr> 1 (Some ''ann@Mail.ru'') (Some ''secret12'') [] = ([\<lparr>acc_id = 1, acc_username = ''ann@Mail.ru'', acc_email = ''ann@mail.ru'', acc_password = ''secret12'', acc_is_active = True, acc_is_staff = False, acc_date_joined = 1\<rparr>], Inr 1)"
    by (simp add: register_view_def validate_password_method_def utf8_length_def char_field_def py_strip_def py_whitespace_def create_user_def next_user_id_def normalize_email_def rsplit_at_def ascii_lower_def)
  have r2: "register_view \<lparr>ae_email_valid = \<lambda>_. True, ae_password_valid = \<lambda>s. 7 \<le> length s, ae_make_password = id, ae_check_password = (=), ae_token_subject = \<lambda>_. None\<rparr> 2 (Some ''ann@mail.ru'') (Some ''secret12'') [\<lparr>acc_id = 1, acc_username = ''ann@Mail.ru'', acc_email = ''ann@mail.ru'', acc_password = ''secret12'', acc_is_active = True, acc_is_staff = False, acc_date_joined = 1\<rparr>] = ([\<lparr>acc_id = 1, acc_username = ''ann@Mail.ru'', acc_email = ''ann@mail.ru'', acc_password = ''secret12'', acc_is_active = True, acc_is_staff = False, acc_date_joined = 1\<rparr>, \<lparr>acc_id = 2, acc_username = ''ann@mail.ru'', acc_email = ''ann@mail.ru'', acc_password = ''secret12'', acc_is_active = True, acc_is_staff = False, acc_date_joined = 2\<rparr>], Inr 2)"
    by (simp add: register_view_def validate_password_method_def utf8_length_def char_field_def py_strip_def py_whitespace_def create_user_def next_user_id_def normalize_email_def rsplit_at_def ascii_lower_def)
  have s: "py_strip ''ann@mail.ru'' = ''ann@mail.ru''" "py_strip ''secret12'' = ''secret12''"
    by (simp_all add: py_strip_def py_whitespace_def)
  have "login_view \<lparr>ae_email_valid = \<lambda>_. True, ae_password_valid = \<lambda>s. 7 \<le> length s, ae_make_password = id, ae_check_password = (=), ae_token_subject = \<lambda>_. None\<rparr> (Some ''ann@mail.ru'') (Some ''secret12'') [\<lparr>acc_id = 1, acc_username = ''ann@Mail.ru'', acc_email = ''ann@mail.ru'', acc_password = ''secret12'', acc_is_active = True, acc_is_staff = False, acc_date_joined = 1\<rparr>, \<lparr>acc_id = 2, acc_username = ''ann@mail.ru'', acc_email = ''ann@mail.ru'', acc_password = ''secret12'', acc_is_active = True, acc_is_staff = False, acc_date_joined = 2\<rparr>] = Inl (Multiple_Objects ''User'')"
    using login_shared_email_error [of "''ann@mail.ru''" "\<lparr>ae_email_valid = \<lambda>_. True, ae_password_valid = \<lambda>s. 7 \<le> length s, ae_make_password = id, ae_check_password = (=), ae_token_subject = \<lambda>_. None\<rparr>" "''secret12''" "[\<lparr>acc_id = 1, acc_username = ''ann@Mail.ru'', acc_email = ''ann@mail.ru'', acc_password = ''secret12'', acc_is_active = True, acc_is_staff = False, acc_date_joined = 1\<rparr>, \<lparr>acc_id = 2, acc_username = ''ann@mail.ru'', acc_email = ''ann@mail.ru'', acc_password = ''secret12'', acc_is_active = True, acc_is_staff = False, acc_date_joined = 2\<rparr>]"] s by simp
  with r1 r2 show ?thesis by simp
qed

text \<open>
  C24. Every user table the authentication endpoints can produce from an empty one is
  well formed and well typed. Keys and usernames are unique and keys positive. Each account has a trimmed, non-empty username, is active and is not
  staff, and its email is exactly the normalised username: registration never stores
  the email as typed and never grants staff rights.
\<close>

theorem auth_reachable_typed:
  "auth_reachable env accts \<Longrightarrow> accounts_wf accts \<and> accounts_typed accts"
proof (induction rule: auth_reachable.induct)
  case auth_reachable_empty
  then show ?case by (simp add: accounts_wf_def accounts_typed_def)
next
  case (auth_reachable_step accts now c)
  then show ?case
    by (simp add: accounts_wf_register_view fst_auth_step register_view_typed split: auth_call.splits)
qed

theorem auth_reachable_typed_witness:
  "auth_reachable \<lparr>ae_email_valid = \<lambda>_. True, ae_password_valid = \<lambda>s. 7 \<le> length s, ae_make_password = id, ae_check_password = (=), ae_token_subject = \<lambda>_. None\<rparr> [\<lparr>acc_id = 1, acc_username = ''ann@Mail.ru'', acc_email = ''ann@mail.ru'', acc_password = ''secret12'', acc_is_active = True, acc_is_staff = False, acc_date_joined = 1\<rparr>] \<and> accounts_wf [\<lparr>acc_id = 1, acc_username = ''ann@Mail.ru'', acc_email = ''ann@mail.ru'', acc_password = ''secret12'', acc_is_active = True, acc_is_staff = False, acc_date_joined = 1\<rparr>] \<and> accounts_typed [\<lparr>acc_id = 1, acc_username = ''ann@Mail.ru'', acc_email = ''ann@mail.ru'', acc_password = ''secret12'', acc_is_active = True, acc_is_staff = False, acc_date_joined = 1\<rparr>]"
proof -
  have r: "fst (auth_step \<lparr>ae_email_valid = \<lambda>_. True, ae_password_valid = \<lambda>s. 7 \<le> length s, ae_make_password = id, ae_check_password = (=), ae_token_subject = \<lambda>_. None\<rparr> 1 (Register (Some ''ann@Mail.ru'') (Some ''secret12'')) []) = [\<lparr>acc_id = 1, acc_username = ''ann@Mail.ru'', acc_email = ''ann@mail.ru'', acc_password = ''secret12'', acc_is_active = True, acc_is_staff = False, acc_date_joined = 1\<rparr>]"
    by (simp add: register_view_def validate_password_method_def utf8_length_def char_field_def py_strip_def py_whitespace_def create_user_def next_user_id_def normalize_email_def rsplit_at_def ascii_lower_def)
  have "auth_reachable \<lparr>ae_email_valid = \<lambda>_. True, ae_password_valid = \<lambda>s. 7 \<le> length s, ae_make_password = id, ae_check_password = (=), ae_token_subject = \<lambda>_. None\<rparr> (fst (auth_step \<lparr>ae_email_valid = \<lambda>_. True, ae_password_valid = \<lambda>s. 7 \<le> length s, ae_make_password = id, ae_check_password = (=), ae_token_subject = \<lambda>_. None\<rparr> 1 (Register (Some ''ann@Mail.ru'') (Some ''secret12'')) []))"
    by (intro auth_reachable_step auth_reachable_empty)
  with r have reach: "auth_reachable \<lparr>ae_email_valid = \<lambda>_. True, ae_password_valid = \<lambda>s. 7 \<le> length s, ae_make_password = id, ae_check_password = (=), ae_token_subject = \<lambda>_. None\<rparr> [\<lparr>acc_id = 1, acc_username = ''ann@Mail.ru'', acc_email = ''ann@mail.ru'', acc_password = ''secret12'', acc_is_active = True, acc_is_staff = False, acc_date_joined = 1\<rparr>]" by simp
  with auth_reachable_typed [OF reach] show ?thesis by simp
qed

end
