(* ===== verification/Gateway.thy ===== *)
theory Gateway
  imports Api Accounts
begin

text \<open>
  What stands in front of every view: DRF's request pipeline. \<open>APIView.initial\<close>
  authenticates the request (simplejwt's \<open>JWTAuthentication\<close>), then checks the
  view's \<open>permission_classes\<close>, and only then runs the handler. The service is the
  pair of the user table (\<open>Accounts\<close>) and the route database (\<open>Api\<close>); one
  request goes through the gateway to \<open>auth_step\<close> or to \<open>api_step\<close>, with the
  authenticated user in place of the views' \<open>request.user\<close>.

  The authentication classes are configured in the project settings, which are not
  under \<open>src/\<close>; the model follows the service's contract (JWT bearer tokens, public
  form data and city areas). The header is the raw token after \<open>Bearer\<close>; a header
  of another scheme is no header. What a token string stands for is a parameter
  \<open>access\<close>: the user id of a valid, unexpired access token.
\<close>

section \<open>Authentication\<close>

text \<open>
  \<open>JWTAuthentication.authenticate\<close>: no token is an anonymous request; a token that
  does not validate raises \<open>InvalidToken\<close>; \<open>get_user\<close> raises
  \<open>AuthenticationFailed\<close> for an unknown or inactive user. All three are 401 answers,
  whatever the view's permissions, since \<open>initial\<close> authenticates eagerly.
\<close>

definition jwt_user ::
  "(string \<Rightarrow> user_id option) \<Rightarrow> account list \<Rightarrow> string option \<Rightarrow> error + account option" where
  "jwt_user access accts hdr =
     (case hdr of None \<Rightarrow> Inr None
      | Some tok \<Rightarrow>
          (case access tok of None \<Rightarrow> Inl (Authentication_Failed ''token_not_valid'')
           | Some uid \<Rightarrow>
               (case find (\<lambda>a. acc_id a = uid) accts of
                  None \<Rightarrow> Inl (Authentication_Failed ''user_not_found'')
                | Some a \<Rightarrow> if acc_is_active a then Inr (Some a)
                            else Inl (Authentication_Failed ''user_inactive''))))"

section \<open>Permissions\<close>

datatype permission = Allow_Any | Is_Authenticated | Is_Admin_User

text \<open>
  The \<open>permission_classes\<close> of each view. \<open>FormDataView\<close> and \<open>CityAreaView\<close>
  declare none and get the project default, public by the service's contract.
\<close>

fun api_permission :: "api_call \<Rightarrow> permission" where
  "api_permission (Edit_Status _ _ _) = Is_Authenticated"
| "api_permission (Cancel_Route _ _ _) = Is_Authenticated"
| "api_permission (Give_Feedback _ _ _ _) = Is_Authenticated"
| "api_permission (Show_Route _ _) = Is_Authenticated"
| "api_permission (Generate_Route _ _) = Is_Authenticated"
| "api_permission Embed_Missing = Is_Admin_User"
| "api_permission Embed_Refresh = Is_Admin_User"
| "api_permission (Embed_Update _) = Is_Admin_User"
| "api_permission Form_Data = Allow_Any"
| "api_permission (City_Areas _) = Allow_Any"
| "api_permission (List_User_Routes _ _ _ _) = Is_Authenticated"
| "api_permission (User_Statistics _) = Is_Authenticated"

fun auth_permission :: "auth_call \<Rightarrow> permission" where
  "auth_permission (Register _ _) = Allow_Any"
| "auth_permission (Login _ _) = Allow_Any"
| "auth_permission (Refresh _) = Allow_Any"
| "auth_permission (Show_User _) = Is_Authenticated"

text \<open>\<open>AllowAny\<close>, \<open>IsAuthenticated\<close> and \<open>IsAdminUser\<close> (\<open>user.is_staff\<close>).\<close>

fun has_permission :: "permission \<Rightarrow> account option \<Rightarrow> bool" where
  "has_permission Allow_Any u = True"
| "has_permission Is_Authenticated u = (u \<noteq> None)"
| "has_permission Is_Admin_User u = (case u of None \<Rightarrow> False | Some a \<Rightarrow> acc_is_staff a)"

text \<open>
  \<open>APIView.check_permissions\<close> and \<open>permission_denied\<close>: an anonymous request is
  refused with \<open>NotAuthenticated\<close> (401), an authenticated one with
  \<open>PermissionDenied\<close> (403).
\<close>

definition check_permission :: "permission \<Rightarrow> account option \<Rightarrow> error option" where
  "check_permission p u =
     (if has_permission p u then None else if u = None then Some Not_Authenticated else Some Permission_Denied)"

section \<open>The service\<close>

text \<open>The views read the user from \<open>request.user\<close>: the gateway puts it into the call.\<close>

fun with_user :: "user_id \<Rightarrow> api_call \<Rightarrow> api_call" where
  "with_user v (Edit_Status _ rid st) = Edit_Status v rid st"
| "with_user v (Cancel_Route _ rid reason) = Cancel_Route v rid reason"
| "with_user v (Give_Feedback _ rid rt c) = Give_Feedback v rid rt c"
| "with_user v (Show_Route _ rid) = Show_Route v rid"
| "with_user v (Generate_Route _ req) = Generate_Route v req"
| "with_user v (List_User_Routes _ sf l k) = List_User_Routes v sf l k"
| "with_user v (User_Statistics _) = User_Statistics v"
| "with_user v c = c"

fun auth_with_user :: "account option \<Rightarrow> auth_call \<Rightarrow> auth_call" where
  "auth_with_user u (Show_User _) = Show_User (map_option acc_id u)"
| "auth_with_user u c = c"

record 'v system =
  sys_accounts :: "account list"
  sys_db :: "'v db"

datatype sys_call = Auth_Call auth_call | Route_Call api_call

record 'v sys_request =
  sr_token :: "string option"
  sr_now :: timestamp
  sr_client :: "'v embed_client"
  sr_fresh :: ident
  sr_call :: sys_call

text \<open>
  One request: authenticate, check the permission of the view the URL names, and
  run the view as the authenticated user. The result is the new service state and
  the gateway's refusal, if any (the views' own answers are those of the components).
\<close>

definition sys_step ::
  "auth_env \<Rightarrow> (string \<Rightarrow> user_id option) \<Rightarrow> 'v sys_request \<Rightarrow> 'v system \<Rightarrow> 'v system \<times> error option" where
  "sys_step env access rq s =
     (case jwt_user access (sys_accounts s) (sr_token rq) of
        Inl e \<Rightarrow> (s, Some e)
      | Inr u \<Rightarrow>
          (case sr_call rq of
             Auth_Call c \<Rightarrow>
               (case check_permission (auth_permission c) u of
                  Some e \<Rightarrow> (s, Some e)
                | None \<Rightarrow> (s\<lparr>sys_accounts := fst (auth_step env (sr_now rq) (auth_with_user u c) (sys_accounts s))\<rparr>, None))
           | Route_Call c \<Rightarrow>
               (case check_permission (api_permission c) u of
                  Some e \<Rightarrow> (s, Some e)
                | None \<Rightarrow>
                    (s\<lparr>sys_db := api_step \<lparr>rq_client = sr_client rq, rq_now = sr_now rq, rq_fresh = sr_fresh rq,
                                             rq_call = (case u of None \<Rightarrow> c | Some a \<Rightarrow> with_user (acc_id a) c)\<rparr>
                                  (sys_db s)\<rparr>, None))))"

text \<open>The service states reachable from \<open>s0\<close> by any requests.\<close>

inductive sys_reachable ::
  "auth_env \<Rightarrow> (string \<Rightarrow> user_id option) \<Rightarrow> 'v system \<Rightarrow> 'v system \<Rightarrow> bool" for env access s0 where
  sys_reachable_start: "sys_reachable env access s0 s0"
| sys_reachable_step: "sys_reachable env access s0 s \<Longrightarrow> sys_reachable env access s0 (fst (sys_step env access rq s))"

section \<open>Lemmas\<close>

lemma jwt_user_Some:
  "jwt_user access accts hdr = Inr (Some a) \<Longrightarrow>
     a \<in> set accts \<and> acc_is_active a \<and> (\<exists>tok. hdr = Some tok \<and> access tok = Some (acc_id a))"
  by (auto simp: jwt_user_def find_Some_iff nth_mem split: option.splits if_splits)

lemma check_permission_None:
  "check_permission p u = None \<longleftrightarrow> has_permission p u"
  by (simp add: check_permission_def)

lemma api_step_embeddings:
  assumes "api_permission (rq_call rq) \<noteq> Is_Admin_User"
  shows "db_embeddings (api_step rq d) = db_embeddings d"
  using assms
  by (cases "rq_call rq") (simp_all add: edit_route_status_frame cancel_route_frame feedback_view_frame)

lemma sys_step_cases:
  assumes "sys_step env access rq s = (s', r)"
  shows "s' = s \<or>
         (\<exists>u c. jwt_user access (sys_accounts s) (sr_token rq) = Inr u \<and> sr_call rq = Auth_Call c \<and>
                has_permission (auth_permission c) u \<and> r = None \<and>
                s' = s\<lparr>sys_accounts := fst (auth_step env (sr_now rq) (auth_with_user u c) (sys_accounts s))\<rparr>) \<or>
         (\<exists>u c. jwt_user access (sys_accounts s) (sr_token rq) = Inr u \<and> sr_call rq = Route_Call c \<and>
                has_permission (api_permission c) u \<and> r = None \<and>
                s' = s\<lparr>sys_db := api_step \<lparr>rq_client = sr_client rq, rq_now = sr_now rq, rq_fresh = sr_fresh rq,
                                             rq_call = (case u of None \<Rightarrow> c | Some a \<Rightarrow> with_user (acc_id a) c)\<rparr>
                                  (sys_db s)\<rparr>)"
  using assms
  by (auto simp: sys_step_def check_permission_None split: sum.splits sys_call.splits option.splits)

lemma api_permission_with_user [simp]: "api_permission (with_user v c) = api_permission c"
  by (cases c) simp_all

lemma api_step_public:
  "api_permission (rq_call rq) = Allow_Any \<Longrightarrow> api_step rq d = d"
  by (cases "rq_call rq") simp_all

lemma has_permission_None:
  "has_permission p None \<longleftrightarrow> p = Allow_Any"
  by (cases p) simp_all

text \<open>
  A step that changes the route database is a route call the gateway admitted for an
  authenticated account.
\<close>

lemma sys_step_db_change:
  assumes "sys_step env access rq s = (s', r)" and "sys_db s' \<noteq> sys_db s"
  obtains a c where "jwt_user access (sys_accounts s) (sr_token rq) = Inr (Some a)"
    and "sr_call rq = Route_Call c" and "has_permission (api_permission c) (Some a)" and "r = None"
    and "s' = s\<lparr>sys_db := api_step \<lparr>rq_client = sr_client rq, rq_now = sr_now rq, rq_fresh = sr_fresh rq,
                                       rq_call = with_user (acc_id a) c\<rparr> (sys_db s)\<rparr>"
proof -
  from sys_step_cases [OF assms(1)] assms(2) obtain u c where
    j: "jwt_user access (sys_accounts s) (sr_token rq) = Inr u" and c: "sr_call rq = Route_Call c"
    and p: "has_permission (api_permission c) u" and r: "r = None"
    and s': "s' = s\<lparr>sys_db := api_step \<lparr>rq_client = sr_client rq, rq_now = sr_now rq, rq_fresh = sr_fresh rq,
                                       rq_call = (case u of None \<Rightarrow> c | Some a \<Rightarrow> with_user (acc_id a) c)\<rparr> (sys_db s)\<rparr>"
    by auto
  show thesis
  proof (cases u)
    case None
    with p have "api_permission c = Allow_Any" by (simp add: has_permission_None)
    with s' None have "sys_db s' = sys_db s" by (simp add: api_step_public del: api_step.simps)
    with assms(2) show thesis by simp
  next
    case (Some a)
    with j c p r s' show thesis by (intro that) simp_all
  qed
qed

lemma sys_step_embeddings_staff:
  assumes "sys_step env access rq s = (s', r)" and "db_embeddings (sys_db s') \<noteq> db_embeddings (sys_db s)"
  obtains a where "jwt_user access (sys_accounts s) (sr_token rq) = Inr (Some a)" and "acc_is_staff a"
proof -
  from assms(2) have "sys_db s' \<noteq> sys_db s" by auto
  from sys_step_db_change [OF assms(1) this] obtain a c where
    j: "jwt_user access (sys_accounts s) (sr_token rq) = Inr (Some a)" and p: "has_permission (api_permission c) (Some a)"
    and s': "s' = s\<lparr>sys_db := api_step \<lparr>rq_client = sr_client rq, rq_now = sr_now rq, rq_fresh = sr_fresh rq,
                                       rq_call = with_user (acc_id a) c\<rparr> (sys_db s)\<rparr>" .
  have "api_permission c = Is_Admin_User"
  proof (rule ccontr)
    assume "api_permission c \<noteq> Is_Admin_User"
    then have "db_embeddings (sys_db s') = db_embeddings (sys_db s)"
      using api_step_embeddings [of "\<lparr>rq_client = sr_client rq, rq_now = sr_now rq, rq_fresh = sr_fresh rq,
                                       rq_call = with_user (acc_id a) c\<rparr>"]
      by (simp add: s' del: api_step.simps)
    with assms(2) show False ..
  qed
  with p j show thesis by (intro that) simp_all
qed

section \<open>Properties of the service\<close>

text \<open>
  C15. Authentication guards the route database: a request changes it only when its
  bearer token names an existing, active account. The request is then a route call
  that the view runs as that account, whatever user the client put in it; the user
  table does not change; and a change to the embedding table needs a staff account.
\<close>

theorem route_db_changes_authenticated:
  assumes "sys_step env access rq s = (s', r)" and "sys_db s' \<noteq> sys_db s"
  shows "\<exists>a c. jwt_user access (sys_accounts s) (sr_token rq) = Inr (Some a) \<and>
           a \<in> set (sys_accounts s) \<and> acc_is_active a \<and>
           (\<exists>tok. sr_token rq = Some tok \<and> access tok = Some (acc_id a)) \<and>
           sr_call rq = Route_Call c \<and> r = None \<and> sys_accounts s' = sys_accounts s \<and>
           sys_db s' = api_step \<lparr>rq_client = sr_client rq, rq_now = sr_now rq, rq_fresh = sr_fresh rq,
                                 rq_call = with_user (acc_id a) c\<rparr> (sys_db s) \<and>
           (db_embeddings (sys_db s') \<noteq> db_embeddings (sys_db s) \<longrightarrow> acc_is_staff a)"
proof -
  from sys_step_db_change [OF assms] obtain a c where
    j: "jwt_user access (sys_accounts s) (sr_token rq) = Inr (Some a)" and c: "sr_call rq = Route_Call c"
    and r: "r = None"
    and s': "s' = s\<lparr>sys_db := api_step \<lparr>rq_client = sr_client rq, rq_now = sr_now rq, rq_fresh = sr_fresh rq,
                                       rq_call = with_user (acc_id a) c\<rparr> (sys_db s)\<rparr>" .
  have staff: "acc_is_staff a" if "db_embeddings (sys_db s') \<noteq> db_embeddings (sys_db s)"
  proof -
    from sys_step_embeddings_staff [OF assms(1) that] obtain b where
      "jwt_user access (sys_accounts s) (sr_token rq) = Inr (Some b)" and "acc_is_staff b" .
    with j show ?thesis by simp
  qed
  from jwt_user_Some [OF j] j c r s' staff show ?thesis by (intro exI [of _ a] exI [of _ c]) (simp del: api_step.simps)
qed

theorem route_db_changes_authenticated_witness:
  "sys_step \<lparr>ae_email_valid = \<lambda>_. True, ae_password_valid = \<lambda>s. 7 \<le> length s, ae_make_password = id, ae_check_password = (=), ae_token_subject = \<lambda>_. None\<rparr> (\<lambda>t. if t = ''t'' then Some 1 else None) \<lparr>sr_token = Some ''t'', sr_now = 5, sr_client = \<lambda>_. None, sr_fresh = ''f'', sr_call = Route_Call (Edit_Status 0 (Some ''r1'') (Some ''done''))\<rparr> \<lparr>sys_accounts = [\<lparr>acc_id = 1, acc_username = ''ann'', acc_email = ''ann'', acc_password = ''x'', acc_is_active = True, acc_is_staff = False, acc_date_joined = 0\<rparr>], sys_db = ((empty_db :: nat db)\<lparr>db_routes := [mk_route ''r1'' 1 60 (Some 1) None [] []]\<rparr>)\<rparr> = (fst (sys_step \<lparr>ae_email_valid = \<lambda>_. True, ae_password_valid = \<lambda>s. 7 \<le> length s, ae_make_password = id, ae_check_password = (=), ae_token_subject = \<lambda>_. None\<rparr> (\<lambda>t. if t = ''t'' then Some 1 else None) \<lparr>sr_token = Some ''t'', sr_now = 5, sr_client = \<lambda>_. None, sr_fresh = ''f'', sr_call = Route_Call (Edit_Status 0 (Some ''r1'') (Some ''done''))\<rparr> \<lparr>sys_accounts = [\<lparr>acc_id = 1, acc_username = ''ann'', acc_email = ''ann'', acc_password = ''x'', acc_is_active = True, acc_is_staff = False, acc_date_joined = 0\<rparr>], sys_db = ((empty_db :: nat db)\<lparr>db_routes := [mk_route ''r1'' 1 60 (Some 1) None [] []]\<rparr>)\<rparr>), None) \<and>
   sys_db (fst (sys_step \<lparr>ae_email_valid = \<lambda>_. True, ae_password_valid = \<lambda>s. 7 \<le> length s, ae_make_password = id, ae_check_password = (=), ae_token_subject = \<lambda>_. None\<rparr> (\<lambda>t. if t = ''t'' then Some 1 else None) \<lparr>sr_token = Some ''t'', sr_now = 5, sr_client = \<lambda>_. None, sr_fresh = ''f'', sr_call = Route_Call (Edit_Status 0 (Some ''r1'') (Some ''done''))\<rparr> \<lparr>sys_accounts = [\<lparr>acc_id = 1, acc_username = ''ann'', acc_email = ''ann'', acc_password = ''x'', acc_is_active = True, acc_is_staff = False, acc_date_joined = 0\<rparr>], sys_db = ((empty_db :: nat db)\<lparr>db_routes := [mk_route ''r1'' 1 60 (Some 1) None [] []]\<rparr>)\<rparr>)) \<noteq> sys_db \<lparr>sys_accounts = [\<lparr>acc_id = 1, acc_username = ''ann'', acc_email = ''ann'', acc_password = ''x'', acc_is_active = True, acc_is_staff = False, acc_date_joined = 0\<rparr>], sys_db = ((empty_db :: nat db)\<lparr>db_routes := [mk_route ''r1'' 1 60 (Some 1) None [] []]\<rparr>)\<rparr> \<and>
   sys_accounts (fst (sys_step \<lparr>ae_email_valid = \<lambda>_. True, ae_password_valid = \<lambda>s. 7 \<le> length s, ae_make_password = id, ae_check_password = (=), ae_token_subject = \<lambda>_. None\<rparr> (\<lambda>t. if t = ''t'' then Some 1 else None) \<lparr>sr_token = Some ''t'', sr_now = 5, sr_client = \<lambda>_. None, sr_fresh = ''f'', sr_call = Route_Call (Edit_Status 0 (Some ''r1'') (Some ''done''))\<rparr> \<lparr>sys_accounts = [\<lparr>acc_id = 1, acc_username = ''ann'', acc_email = ''ann'', acc_password = ''x'', acc_is_active = True, acc_is_staff = False, acc_date_joined = 0\<rparr>], sys_db = ((empty_db :: nat db)\<lparr>db_routes := [mk_route ''r1'' 1 60 (Some 1) None [] []]\<rparr>)\<rparr>)) = sys_accounts \<lparr>sys_accounts = [\<lparr>acc_id = 1, acc_username = ''ann'', acc_email = ''ann'', acc_password = ''x'', acc_is_active = True, acc_is_staff = False, acc_date_joined = 0\<rparr>], sys_db = ((empty_db :: nat db)\<lparr>db_routes := [mk_route ''r1'' 1 60 (Some 1) None [] []]\<rparr>)\<rparr>"
proof -
  have st: "sys_step \<lparr>ae_email_valid = \<lambda>_. True, ae_password_valid = \<lambda>s. 7 \<le> length s, ae_make_password = id, ae_check_password = (=), ae_token_subject = \<lambda>_. None\<rparr> (\<lambda>t. if t = ''t'' then Some 1 else None) \<lparr>sr_token = Some ''t'', sr_now = 5, sr_client = \<lambda>_. None, sr_fresh = ''f'', sr_call = Route_Call (Edit_Status 0 (Some ''r1'') (Some ''done''))\<rparr> \<lparr>sys_accounts = [\<lparr>acc_id = 1, acc_username = ''ann'', acc_email = ''ann'', acc_password = ''x'', acc_is_active = True, acc_is_staff = False, acc_date_joined = 0\<rparr>], sys_db = ((empty_db :: nat db)\<lparr>db_routes := [mk_route ''r1'' 1 60 (Some 1) None [] []]\<rparr>)\<rparr> = (fst (sys_step \<lparr>ae_email_valid = \<lambda>_. True, ae_password_valid = \<lambda>s. 7 \<le> length s, ae_make_password = id, ae_check_password = (=), ae_token_subject = \<lambda>_. None\<rparr> (\<lambda>t. if t = ''t'' then Some 1 else None) \<lparr>sr_token = Some ''t'', sr_now = 5, sr_client = \<lambda>_. None, sr_fresh = ''f'', sr_call = Route_Call (Edit_Status 0 (Some ''r1'') (Some ''done''))\<rparr> \<lparr>sys_accounts = [\<lparr>acc_id = 1, acc_username = ''ann'', acc_email = ''ann'', acc_password = ''x'', acc_is_active = True, acc_is_staff = False, acc_date_joined = 0\<rparr>], sys_db = ((empty_db :: nat db)\<lparr>db_routes := [mk_route ''r1'' 1 60 (Some 1) None [] []]\<rparr>)\<rparr>), snd (sys_step \<lparr>ae_email_valid = \<lambda>_. True, ae_password_valid = \<lambda>s. 7 \<le> length s, ae_make_password = id, ae_check_password = (=), ae_token_subject = \<lambda>_. None\<rparr> (\<lambda>t. if t = ''t'' then Some 1 else None) \<lparr>sr_token = Some ''t'', sr_now = 5, sr_client = \<lambda>_. None, sr_fresh = ''f'', sr_call = Route_Call (Edit_Status 0 (Some ''r1'') (Some ''done''))\<rparr> \<lparr>sys_accounts = [\<lparr>acc_id = 1, acc_username = ''ann'', acc_email = ''ann'', acc_password = ''x'', acc_is_active = True, acc_is_staff = False, acc_date_joined = 0\<rparr>], sys_db = ((empty_db :: nat db)\<lparr>db_routes := [mk_route ''r1'' 1 60 (Some 1) None [] []]\<rparr>)\<rparr>))" by simp
  have ch: "sys_db (fst (sys_step \<lparr>ae_email_valid = \<lambda>_. True, ae_password_valid = \<lambda>s. 7 \<le> length s, ae_make_password = id, ae_check_password = (=), ae_token_subject = \<lambda>_. None\<rparr> (\<lambda>t. if t = ''t'' then Some 1 else None) \<lparr>sr_token = Some ''t'', sr_now = 5, sr_client = \<lambda>_. None, sr_fresh = ''f'', sr_call = Route_Call (Edit_Status 0 (Some ''r1'') (Some ''done''))\<rparr> \<lparr>sys_accounts = [\<lparr>acc_id = 1, acc_username = ''ann'', acc_email = ''ann'', acc_password = ''x'', acc_is_active = True, acc_is_staff = False, acc_date_joined = 0\<rparr>], sys_db = ((empty_db :: nat db)\<lparr>db_routes := [mk_route ''r1'' 1 60 (Some 1) None [] []]\<rparr>)\<rparr>)) \<noteq> sys_db \<lparr>sys_accounts = [\<lparr>acc_id = 1, acc_username = ''ann'', acc_email = ''ann'', acc_password = ''x'', acc_is_active = True, acc_is_staff = False, acc_date_joined = 0\<rparr>], sys_db = ((empty_db :: nat db)\<lparr>db_routes := [mk_route ''r1'' 1 60 (Some 1) None [] []]\<rparr>)\<rparr>" by (simp add: sys_step_def jwt_user_def check_permission_def edit_route_status_def parse_walk_status_def get_owned_route_def save_route_status_def mk_route_def empty_db_def)
  from route_db_changes_authenticated [OF st ch] ch show ?thesis by (metis prod.collapse)
qed

text \<open>
  C16. The service keeps both tables well formed: from a start whose route database
  and user table are well formed, every request sequence, authenticated or not, leaves
  a well-formed route database and a user table with unique keys and usernames.
\<close>

theorem sys_reachable_wf:
  assumes "sys_reachable env access s0 s" and "db_wf (sys_db s0)" and "accounts_wf (sys_accounts s0)"
  shows "db_wf (sys_db s) \<and> accounts_wf (sys_accounts s)"
  using assms(1)
proof induction
  case sys_reachable_start
  with assms(2,3) show ?case by simp
next
  case (sys_reachable_step s rq)
  obtain s' r where st: "sys_step env access rq s = (s', r)" by (cases "sys_step env access rq s")
  from sys_step_cases [OF st] sys_reachable_step.IH show ?case
    by (auto simp: st db_wf_api_step accounts_wf_auth_step simp del: api_step.simps)
qed

theorem sys_reachable_wf_witness:
  "sys_reachable \<lparr>ae_email_valid = \<lambda>_. True, ae_password_valid = \<lambda>s. 7 \<le> length s, ae_make_password = id, ae_check_password = (=), ae_token_subject = \<lambda>_. None\<rparr> (\<lambda>t. if t = ''t'' then Some 1 else None) \<lparr>sys_accounts = [\<lparr>acc_id = 1, acc_username = ''ann'', acc_email = ''ann'', acc_password = ''x'', acc_is_active = True, acc_is_staff = False, acc_date_joined = 0\<rparr>], sys_db = ((empty_db :: nat db)\<lparr>db_routes := [mk_route ''r1'' 1 60 (Some 1) None [] []]\<rparr>)\<rparr> (fst (sys_step \<lparr>ae_email_valid = \<lambda>_. True, ae_password_valid = \<lambda>s. 7 \<le> length s, ae_make_password = id, ae_check_password = (=), ae_token_subject = \<lambda>_. None\<rparr> (\<lambda>t. if t = ''t'' then Some 1 else None) \<lparr>sr_token = Some ''t'', sr_now = 5, sr_client = \<lambda>_. None, sr_fresh = ''f'', sr_call = Route_Call (Edit_Status 0 (Some ''r1'') (Some ''done''))\<rparr> \<lparr>sys_accounts = [\<lparr>acc_id = 1, acc_username = ''ann'', acc_email = ''ann'', acc_password = ''x'', acc_is_active = True, acc_is_staff = False, acc_date_joined = 0\<rparr>], sys_db = ((empty_db :: nat db)\<lparr>db_routes := [mk_route ''r1'' 1 60 (Some 1) None [] []]\<rparr>)\<rparr>)) \<and> db_wf (sys_db \<lparr>sys_accounts = [\<lparr>acc_id = 1, acc_username = ''ann'', acc_email = ''ann'', acc_password = ''x'', acc_is_active = True, acc_is_staff = False, acc_date_joined = 0\<rparr>], sys_db = ((empty_db :: nat db)\<lparr>db_routes := [mk_route ''r1'' 1 60 (Some 1) None [] []]\<rparr>)\<rparr>) \<and> accounts_wf (sys_accounts \<lparr>sys_accounts = [\<lparr>acc_id = 1, acc_username = ''ann'', acc_email = ''ann'', acc_password = ''x'', acc_is_active = True, acc_is_staff = False, acc_date_joined = 0\<rparr>], sys_db = ((empty_db :: nat db)\<lparr>db_routes := [mk_route ''r1'' 1 60 (Some 1) None [] []]\<rparr>)\<rparr>) \<and>
   db_wf (sys_db (fst (sys_step \<lparr>ae_email_valid = \<lambda>_. True, ae_password_valid = \<lambda>s. 7 \<le> length s, ae_make_password = id, ae_check_password = (=), ae_token_subject = \<lambda>_. None\<rparr> (\<lambda>t. if t = ''t'' then Some 1 else None) \<lparr>sr_token = Some ''t'', sr_now = 5, sr_client = \<lambda>_. None, sr_fresh = ''f'', sr_call = Route_Call (Edit_Status 0 (Some ''r1'') (Some ''done''))\<rparr> \<lparr>sys_accounts = [\<lparr>acc_id = 1, acc_username = ''ann'', acc_email = ''ann'', acc_password = ''x'', acc_is_active = True, acc_is_staff = False, acc_date_joined = 0\<rparr>], sys_db = ((empty_db :: nat db)\<lparr>db_routes := [mk_route ''r1'' 1 60 (Some 1) None [] []]\<rparr>)\<rparr>))) \<and> accounts_wf (sys_accounts (fst (sys_step \<lparr>ae_email_valid = \<lambda>_. True, ae_password_valid = \<lambda>s. 7 \<le> length s, ae_make_password = id, ae_check_password = (=), ae_token_subject = \<lambda>_. None\<rparr> (\<lambda>t. if t = ''t'' then Some 1 else None) \<lparr>sr_token = Some ''t'', sr_now = 5, sr_client = \<lambda>_. None, sr_fresh = ''f'', sr_call = Route_Call (Edit_Status 0 (Some ''r1'') (Some ''done''))\<rparr> \<lparr>sys_accounts = [\<lparr>acc_id = 1, acc_username = ''ann'', acc_email = ''ann'', acc_password = ''x'', acc_is_active = True, acc_is_staff = False, acc_date_joined = 0\<rparr>], sys_db = ((empty_db :: nat db)\<lparr>db_routes := [mk_route ''r1'' 1 60 (Some 1) None [] []]\<rparr>)\<rparr>)))"
proof -
  have r: "sys_reachable \<lparr>ae_email_valid = \<lambda>_. True, ae_password_valid = \<lambda>s. 7 \<le> length s, ae_make_password = id, ae_check_password = (=), ae_token_subject = \<lambda>_. None\<rparr> (\<lambda>t. if t = ''t'' then Some 1 else None) \<lparr>sys_accounts = [\<lparr>acc_id = 1, acc_username = ''ann'', acc_email = ''ann'', acc_password = ''x'', acc_is_active = True, acc_is_staff = False, acc_date_joined = 0\<rparr>], sys_db = ((empty_db :: nat db)\<lparr>db_routes := [mk_route ''r1'' 1 60 (Some 1) None [] []]\<rparr>)\<rparr> (fst (sys_step \<lparr>ae_email_valid = \<lambda>_. True, ae_password_valid = \<lambda>s. 7 \<le> length s, ae_make_password = id, ae_check_password = (=), ae_token_subject = \<lambda>_. None\<rparr> (\<lambda>t. if t = ''t'' then Some 1 else None) \<lparr>sr_token = Some ''t'', sr_now = 5, sr_client = \<lambda>_. None, sr_fresh = ''f'', sr_call = Route_Call (Edit_Status 0 (Some ''r1'') (Some ''done''))\<rparr> \<lparr>sys_accounts = [\<lparr>acc_id = 1, acc_username = ''ann'', acc_email = ''ann'', acc_password = ''x'', acc_is_active = True, acc_is_staff = False, acc_date_joined = 0\<rparr>], sys_db = ((empty_db :: nat db)\<lparr>db_routes := [mk_route ''r1'' 1 60 (Some 1) None [] []]\<rparr>)\<rparr>))" by (intro sys_reachable_step sys_reachable_start)
  have w: "db_wf (sys_db \<lparr>sys_accounts = [\<lparr>acc_id = 1, acc_username = ''ann'', acc_email = ''ann'', acc_password = ''x'', acc_is_active = True, acc_is_staff = False, acc_date_joined = 0\<rparr>], sys_db = ((empty_db :: nat db)\<lparr>db_routes := [mk_route ''r1'' 1 60 (Some 1) None [] []]\<rparr>)\<rparr>)" by (simp add: db_wf_def emb_wf_def route_consistent_def mk_route_def empty_db_def)
  have a: "accounts_wf (sys_accounts \<lparr>sys_accounts = [\<lparr>acc_id = 1, acc_username = ''ann'', acc_email = ''ann'', acc_password = ''x'', acc_is_active = True, acc_is_staff = False, acc_date_joined = 0\<rparr>], sys_db = ((empty_db :: nat db)\<lparr>db_routes := [mk_route ''r1'' 1 60 (Some 1) None [] []]\<rparr>)\<rparr>)" by (simp add: accounts_wf_def)
  from sys_reachable_wf [OF r w a] r w a show ?thesis by simp
qed

text \<open>
  C22. The gateway's refusals, each leaving the service unchanged. A token that does
  not validate is refused with 401 on every endpoint, the public form data and city
  areas, registration and login included, since DRF authenticates before it looks at
  the permissions. An anonymous request to a protected view is refused with 401, and
  an authenticated non-staff request to an embedding view with 403.
\<close>

theorem gateway_refusals:
  "(access tok = None \<longrightarrow>
      sys_step env access (rq\<lparr>sr_token := Some tok\<rparr>) s = (s, Some (Authentication_Failed ''token_not_valid''))) \<and>
   (sr_token rq = None \<and> sr_call rq = Route_Call c \<and> api_permission c \<noteq> Allow_Any \<longrightarrow>
      sys_step env access rq s = (s, Some Not_Authenticated)) \<and>
   (sr_token rq = None \<and> sr_call rq = Auth_Call (Show_User u) \<longrightarrow>
      sys_step env access rq s = (s, Some Not_Authenticated)) \<and>
   (jwt_user access (sys_accounts s) (sr_token rq) = Inr (Some a) \<and> \<not> acc_is_staff a \<and>
    sr_call rq = Route_Call c \<and> api_permission c = Is_Admin_User \<longrightarrow>
      sys_step env access rq s = (s, Some Permission_Denied))"
  by (auto simp: sys_step_def jwt_user_def check_permission_def has_permission_None)

theorem gateway_refusals_witness:
  "sys_step \<lparr>ae_email_valid = \<lambda>_. True, ae_password_valid = \<lambda>s. 7 \<le> length s, ae_make_password = id, ae_check_password = (=), ae_token_subject = \<lambda>_. None\<rparr> (\<lambda>t. if t = ''t'' then Some 1 else None) \<lparr>sr_token = Some ''old'', sr_now = 5, sr_client = \<lambda>_. None, sr_fresh = ''f'', sr_call = Route_Call Form_Data\<rparr> \<lparr>sys_accounts = [\<lparr>acc_id = 1, acc_username = ''ann'', acc_email = ''ann'', acc_password = ''x'', acc_is_active = True, acc_is_staff = False, acc_date_joined = 0\<rparr>], sys_db = ((empty_db :: nat db)\<lparr>db_routes := [mk_route ''r1'' 1 60 (Some 1) None [] []]\<rparr>)\<rparr> = (\<lparr>sys_accounts = [\<lparr>acc_id = 1, acc_username = ''ann'', acc_email = ''ann'', acc_password = ''x'', acc_is_active = True, acc_is_staff = False, acc_date_joined = 0\<rparr>], sys_db = ((empty_db :: nat db)\<lparr>db_routes := [mk_route ''r1'' 1 60 (Some 1) None [] []]\<rparr>)\<rparr>, Some (Authentication_Failed ''token_not_valid'')) \<and>
   sys_step \<lparr>ae_email_valid = \<lambda>_. True, ae_password_valid = \<lambda>s. 7 \<le> length s, ae_make_password = id, ae_check_password = (=), ae_token_subject = \<lambda>_. None\<rparr> (\<lambda>t. if t = ''t'' then Some 1 else None) \<lparr>sr_token = None, sr_now = 5, sr_client = \<lambda>_. None, sr_fresh = ''f'', sr_call = Route_Call (User_Statistics 1)\<rparr> \<lparr>sys_accounts = [\<lparr>acc_id = 1, acc_username = ''ann'', acc_email = ''ann'', acc_password = ''x'', acc_is_active = True, acc_is_staff = False, acc_date_joined = 0\<rparr>], sys_db = ((empty_db :: nat db)\<lparr>db_routes := [mk_route ''r1'' 1 60 (Some 1) None [] []]\<rparr>)\<rparr> = (\<lparr>sys_accounts = [\<lparr>acc_id = 1, acc_username = ''ann'', acc_email = ''ann'', acc_password = ''x'', acc_is_active = True, acc_is_staff = False, acc_date_joined = 0\<rparr>], sys_db = ((empty_db :: nat db)\<lparr>db_routes := [mk_route ''r1'' 1 60 (Some 1) None [] []]\<rparr>)\<rparr>, Some Not_Authenticated) \<and>
   sys_step \<lparr>ae_email_valid = \<lambda>_. True, ae_password_valid = \<lambda>s. 7 \<le> length s, ae_make_password = id, ae_check_password = (=), ae_token_subject = \<lambda>_. None\<rparr> (\<lambda>t. if t = ''t'' then Some 1 else None) \<lparr>sr_token = Some ''t'', sr_now = 5, sr_client = \<lambda>_. None, sr_fresh = ''f'', sr_call = Route_Call Embed_Missing\<rparr> \<lparr>sys_accounts = [\<lparr>acc_id = 1, acc_username = ''ann'', acc_email = ''ann'', acc_password = ''x'', acc_is_active = True, acc_is_staff = False, acc_date_joined = 0\<rparr>], sys_db = ((empty_db :: nat db)\<lparr>db_routes := [mk_route ''r1'' 1 60 (Some 1) None [] []]\<rparr>)\<rparr> = (\<lparr>sys_accounts = [\<lparr>acc_id = 1, acc_username = ''ann'', acc_email = ''ann'', acc_password = ''x'', acc_is_active = True, acc_is_staff = False, acc_date_joined = 0\<rparr>], sys_db = ((empty_db :: nat db)\<lparr>db_routes := [mk_route ''r1'' 1 60 (Some 1) None [] []]\<rparr>)\<rparr>, Some Permission_Denied)"
proof -
  have j: "jwt_user (\<lambda>t. if t = ''t'' then Some 1 else None) (sys_accounts \<lparr>sys_accounts = [\<lparr>acc_id = 1, acc_username = ''ann'', acc_email = ''ann'', acc_password = ''x'', acc_is_active = True, acc_is_staff = False, acc_date_joined = 0\<rparr>], sys_db = ((empty_db :: nat db)\<lparr>db_routes := [mk_route ''r1'' 1 60 (Some 1) None [] []]\<rparr>)\<rparr>) (Some ''t'') = Inr (Some \<lparr>acc_id = 1, acc_username = ''ann'', acc_email = ''ann'', acc_password = ''x'', acc_is_active = True, acc_is_staff = False, acc_date_joined = 0\<rparr>)" by (simp add: jwt_user_def)
  have w1: "sys_step \<lparr>ae_email_valid = \<lambda>_. True, ae_password_valid = \<lambda>s. 7 \<le> length s, ae_make_password = id, ae_check_password = (=), ae_token_subject = \<lambda>_. None\<rparr> (\<lambda>t. if t = ''t'' then Some 1 else None) \<lparr>sr_token = Some ''old'', sr_now = 5, sr_client = \<lambda>_. None, sr_fresh = ''f'', sr_call = Route_Call Form_Data\<rparr> \<lparr>sys_accounts = [\<lparr>acc_id = 1, acc_username = ''ann'', acc_email = ''ann'', acc_password = ''x'', acc_is_active = True, acc_is_staff = False, acc_date_joined = 0\<rparr>], sys_db = ((empty_db :: nat db)\<lparr>db_routes := [mk_route ''r1'' 1 60 (Some 1) None [] []]\<rparr>)\<rparr> = (\<lparr>sys_accounts = [\<lparr>acc_id = 1, acc_username = ''ann'', acc_email = ''ann'', acc_password = ''x'', acc_is_active = True, acc_is_staff = False, acc_date_joined = 0\<rparr>], sys_db = ((empty_db :: nat db)\<lparr>db_routes := [mk_route ''r1'' 1 60 (Some 1) None [] []]\<rparr>)\<rparr>, Some (Authentication_Failed ''token_not_valid''))"
    using conjunct1 [OF gateway_refusals [where access = "(\<lambda>t. if t = ''t'' then Some 1 else None)" and tok = "''old''" and env = "\<lparr>ae_email_valid = \<lambda>_. True, ae_password_valid = \<lambda>s. 7 \<le> length s, ae_make_password = id, ae_check_password = (=), ae_token_subject = \<lambda>_. None\<rparr>" and rq = "\<lparr>sr_token = None, sr_now = 5, sr_client = \<lambda>_. None, sr_fresh = ''f'', sr_call = Route_Call Form_Data\<rparr>" and s = "\<lparr>sys_accounts = [\<lparr>acc_id = 1, acc_username = ''ann'', acc_email = ''ann'', acc_password = ''x'', acc_is_active = True, acc_is_staff = False, acc_date_joined = 0\<rparr>], sys_db = ((empty_db :: nat db)\<lparr>db_routes := [mk_route ''r1'' 1 60 (Some 1) None [] []]\<rparr>)\<rparr>"]] by simp
  have w2: "sys_step \<lparr>ae_email_valid = \<lambda>_. True, ae_password_valid = \<lambda>s. 7 \<le> length s, ae_make_password = id, ae_check_password = (=), ae_token_subject = \<lambda>_. None\<rparr> (\<lambda>t. if t = ''t'' then Some 1 else None) \<lparr>sr_token = None, sr_now = 5, sr_client = \<lambda>_. None, sr_fresh = ''f'', sr_call = Route_Call (User_Statistics 1)\<rparr> \<lparr>sys_accounts = [\<lparr>acc_id = 1, acc_username = ''ann'', acc_email = ''ann'', acc_password = ''x'', acc_is_active = True, acc_is_staff = False, acc_date_joined = 0\<rparr>], sys_db = ((empty_db :: nat db)\<lparr>db_routes := [mk_route ''r1'' 1 60 (Some 1) None [] []]\<rparr>)\<rparr> = (\<lparr>sys_accounts = [\<lparr>acc_id = 1, acc_username = ''ann'', acc_email = ''ann'', acc_password = ''x'', acc_is_active = True, acc_is_staff = False, acc_date_joined = 0\<rparr>], sys_db = ((empty_db :: nat db)\<lparr>db_routes := [mk_route ''r1'' 1 60 (Some 1) None [] []]\<rparr>)\<rparr>, Some Not_Authenticated)"
    using conjunct1 [OF conjunct2 [OF gateway_refusals [where access = "(\<lambda>t. if t = ''t'' then Some 1 else None)" and env = "\<lparr>ae_email_valid = \<lambda>_. True, ae_password_valid = \<lambda>s. 7 \<le> length s, ae_make_password = id, ae_check_password = (=), ae_token_subject = \<lambda>_. None\<rparr>" and rq = "\<lparr>sr_token = None, sr_now = 5, sr_client = \<lambda>_. None, sr_fresh = ''f'', sr_call = Route_Call (User_Statistics 1)\<rparr>" and s = "\<lparr>sys_accounts = [\<lparr>acc_id = 1, acc_username = ''ann'', acc_email = ''ann'', acc_password = ''x'', acc_is_active = True, acc_is_staff = False, acc_date_joined = 0\<rparr>], sys_db = ((empty_db :: nat db)\<lparr>db_routes := [mk_route ''r1'' 1 60 (Some 1) None [] []]\<rparr>)\<rparr>" and c = "User_Statistics 1"]]] by simp
  have w3: "sys_step \<lparr>ae_email_valid = \<lambda>_. True, ae_password_valid = \<lambda>s. 7 \<le> length s, ae_make_password = id, ae_check_password = (=), ae_token_subject = \<lambda>_. None\<rparr> (\<lambda>t. if t = ''t'' then Some 1 else None) \<lparr>sr_token = Some ''t'', sr_now = 5, sr_client = \<lambda>_. None, sr_fresh = ''f'', sr_call = Route_Call Embed_Missing\<rparr> \<lparr>sys_accounts = [\<lparr>acc_id = 1, acc_username = ''ann'', acc_email = ''ann'', acc_password = ''x'', acc_is_active = True, acc_is_staff = False, acc_date_joined = 0\<rparr>], sys_db = ((empty_db :: nat db)\<lparr>db_routes := [mk_route ''r1'' 1 60 (Some 1) None [] []]\<rparr>)\<rparr> = (\<lparr>sys_accounts = [\<lparr>acc_id = 1, acc_username = ''ann'', acc_email = ''ann'', acc_password = ''x'', acc_is_active = True, acc_is_staff = False, acc_date_joined = 0\<rparr>], sys_db = ((empty_db :: nat db)\<lparr>db_routes := [mk_route ''r1'' 1 60 (Some 1) None [] []]\<rparr>)\<rparr>, Some Permission_Denied)"
    using conjunct2 [OF conjunct2 [OF conjunct2 [OF gateway_refusals [where access = "(\<lambda>t. if t = ''t'' then Some 1 else None)" and env = "\<lparr>ae_email_valid = \<lambda>_. True, ae_password_valid = \<lambda>s. 7 \<le> length s, ae_make_password = id, ae_check_password = (=), ae_token_subject = \<lambda>_. None\<rparr>" and rq = "\<lparr>sr_token = Some ''t'', sr_now = 5, sr_client = \<lambda>_. None, sr_fresh = ''f'', sr_call = Route_Call Embed_Missing\<rparr>" and s = "\<lparr>sys_accounts = [\<lparr>acc_id = 1, acc_username = ''ann'', acc_email = ''ann'', acc_password = ''x'', acc_is_active = True, acc_is_staff = False, acc_date_joined = 0\<rparr>], sys_db = ((empty_db :: nat db)\<lparr>db_routes := [mk_route ''r1'' 1 60 (Some 1) None [] []]\<rparr>)\<rparr>" and c = Embed_Missing and a = "\<lparr>acc_id = 1, acc_username = ''ann'', acc_email = ''ann'', acc_password = ''x'', acc_is_active = True, acc_is_staff = False, acc_date_joined = 0\<rparr>"]]]] j by simp
  from w1 w2 w3 show ?thesis by simp
qed

text \<open>
  C30. Registration and authentication compose: after an anonymous registration
  through the gateway succeeds, any token the JWT library accepts for the new user's id
  authenticates as the new account. It is active, its username is the trimmed email,
  and it may call the protected views but not the admin ones.
\<close>

theorem register_then_authenticate:
  assumes "sr_token rq = None" and "sr_call rq = Auth_Call (Register e p)"
    and "register_view env (sr_now rq) e p (sys_accounts s) = (accts', Inr uid)"
    and "access tok = Some uid"
  shows "\<exists>a. jwt_user access (sys_accounts (fst (sys_step env access rq s))) (Some tok) = Inr (Some a) \<and>
             acc_id a = uid \<and> Some (acc_username a) = map_option py_strip e \<and>
             has_permission Is_Authenticated (Some a) \<and> \<not> has_permission Is_Admin_User (Some a)"
proof -
  from register_view_Inr [OF assms(3)] obtain em pw where
    e: "e = Some em" and uid: "uid = next_user_id (sys_accounts s)"
    and a: "accts' = sys_accounts s @ [\<lparr>acc_id = next_user_id (sys_accounts s), acc_username = py_strip em,
                              acc_email = normalize_email (py_strip em), acc_password = ae_make_password env (py_strip pw),
                              acc_is_active = True, acc_is_staff = False, acc_date_joined = sr_now rq\<rparr>]"
    by blast
  have s': "sys_accounts (fst (sys_step env access rq s)) = accts'"
    using assms(1-3) by (simp add: sys_step_def jwt_user_def check_permission_def)
  have "\<forall>b \<in> set (sys_accounts s). acc_id b \<noteq> uid"
    using next_user_id_gt [of _ "sys_accounts s"] uid by fastforce
  then have "find (\<lambda>b. acc_id b = uid) (sys_accounts s) = None" by (simp add: find_None_iff)
  then show ?thesis using assms(4) by (simp add: s' a e uid jwt_user_def find_append_None)
qed

theorem register_then_authenticate_witness:
  "\<exists>a. jwt_user (\<lambda>t. if t = ''t'' then Some 1 else None) (sys_accounts (fst (sys_step \<lparr>ae_email_valid = \<lambda>_. True, ae_password_valid = \<lambda>s. 7 \<le> length s, ae_make_password = id, ae_check_password = (=), ae_token_subject = \<lambda>_. None\<rparr> (\<lambda>t. if t = ''t'' then Some 1 else None) \<lparr>sr_token = None, sr_now = 5, sr_client = \<lambda>_. None, sr_fresh = ''f'', sr_call = Auth_Call (Register (Some '' bob@Mail.ru'') (Some ''secret12''))\<rparr> \<lparr>sys_accounts = [], sys_db = ((empty_db :: nat db)\<lparr>db_routes := [mk_route ''r1'' 1 60 (Some 1) None [] []]\<rparr>)\<rparr>))) (Some ''t'') = Inr (Some a) \<and>
       acc_id a = 1 \<and> acc_username a = ''bob@Mail.ru''"
proof -
  have a1: "sr_token \<lparr>sr_token = None, sr_now = 5, sr_client = \<lambda>_. None, sr_fresh = ''f'', sr_call = Auth_Call (Register (Some '' bob@Mail.ru'') (Some ''secret12''))\<rparr> = None" by simp
  have a2: "sr_call \<lparr>sr_token = None, sr_now = 5, sr_client = \<lambda>_. None, sr_fresh = ''f'', sr_call = Auth_Call (Register (Some '' bob@Mail.ru'') (Some ''secret12''))\<rparr> = Auth_Call (Register (Some '' bob@Mail.ru'') (Some ''secret12''))" by simp
  have r: "register_view \<lparr>ae_email_valid = \<lambda>_. True, ae_password_valid = \<lambda>s. 7 \<le> length s, ae_make_password = id, ae_check_password = (=), ae_token_subject = \<lambda>_. None\<rparr> (sr_now \<lparr>sr_token = None, sr_now = 5, sr_client = \<lambda>_. None, sr_fresh = ''f'', sr_call = Auth_Call (Register (Some '' bob@Mail.ru'') (Some ''secret12''))\<rparr>) (Some '' bob@Mail.ru'') (Some ''secret12'') (sys_accounts \<lparr>sys_accounts = [], sys_db = ((empty_db :: nat db)\<lparr>db_routes := [mk_route ''r1'' 1 60 (Some 1) None [] []]\<rparr>)\<rparr>) =
    ([\<lparr>acc_id = 1, acc_username = ''bob@Mail.ru'', acc_email = ''bob@mail.ru'', acc_password = ''secret12'',
       acc_is_active = True, acc_is_staff = False, acc_date_joined = 5\<rparr>], Inr 1)"
    by (simp add: register_view_def validate_password_method_def utf8_length_def char_field_def py_strip_def py_whitespace_def create_user_def next_user_id_def normalize_email_def rsplit_at_def ascii_lower_def)
  have a4: "(\<lambda>t. if t = ''t'' then Some 1 else None) ''t'' = Some 1" by simp
  from register_then_authenticate [where access = "(\<lambda>t. if t = ''t'' then Some 1 else None)" and tok = "''t''", OF a1 a2 r a4] show ?thesis by (auto simp: py_strip_def py_whitespace_def)
qed

end
