(* ===== verification/Urls.thy ===== *)
theory Urls
  imports Prelude
begin

text \<open>
  The URL modules of the three apps (\<open>src/apps/routes/urls.py\<close>,
  \<open>src/apps/core/urls.py\<close>, \<open>src/apps/users/urls.py\<close>) as data, with Django's
  resolution of a request path and \<open>reverse\<close> of a URL name. A route of \<open>path()\<close> is
  a list of literal pieces and converters; the only converter the code uses is
  \<open><str:name>\<close>, a non-empty piece without \<open>/\<close>. A leaf route must match the whole
  remaining path. The resolver tries the patterns in order and the first match wins;
  \<open>reverse\<close> takes the pattern of the given name and fills in its keyword
  arguments, which it checks against the converter. The prefixes under which the root
  URLconf includes the modules are in the project settings, outside \<open>src/\<close>; paths here
  are relative to them. Keyword arguments are listed in the order of the converters.
\<close>

datatype path_seg = Lit string | Str_Conv string

type_synonym url_pattern = "path_seg list \<times> string"

text \<open>
  Matching a route: a literal must be a prefix of the path; \<open><str:k>\<close> takes the longest
  non-empty piece without \<open>/\<close> (the regular expression \<open>[^/]+\<close>; every converter of
  the code is followed by \<open>/\<close> or ends the route, so no shorter piece can match).
\<close>

fun match_path :: "path_seg list \<Rightarrow> string \<Rightarrow> (string \<times> string) list option" where
  "match_path [] s = (if s = [] then Some [] else None)"
| "match_path (Lit l # ps) s = (if take (length l) s = l then match_path ps (drop (length l) s) else None)"
| "match_path (Str_Conv k # ps) s =
     (let v = takeWhile (\<lambda>c. c \<noteq> CHR ''/'') s in
      if v = [] then None else map_option (Cons (k, v)) (match_path ps (drop (length v) s)))"

fun resolve :: "url_pattern list \<Rightarrow> string \<Rightarrow> (string \<times> (string \<times> string) list) option" where
  "resolve [] s = None"
| "resolve ((ps, n) # pats) s = (case match_path ps s of Some kw \<Rightarrow> Some (n, kw) | None \<Rightarrow> resolve pats s)"

fun reverse_path :: "path_seg list \<Rightarrow> (string \<times> string) list \<Rightarrow> string option" where
  "reverse_path [] [] = Some []"
| "reverse_path [] (_ # _) = None"
| "reverse_path (Lit l # ps) kw = map_option ((@) l) (reverse_path ps kw)"
| "reverse_path (Str_Conv k # ps) [] = None"
| "reverse_path (Str_Conv k # ps) ((k', v) # kw) =
     (if k' = k \<and> v \<noteq> [] \<and> CHR ''/'' \<notin> set v then map_option ((@) v) (reverse_path ps kw) else None)"

text \<open>\<open>reverse(name, kwargs=...)\<close>; \<open>None\<close> is \<open>NoReverseMatch\<close>.\<close>

definition reverse :: "url_pattern list \<Rightarrow> string \<Rightarrow> (string \<times> string) list \<Rightarrow> string option" where
  "reverse pats n kw = (case find (\<lambda>(ps, m). m = n) pats of None \<Rightarrow> None | Some (ps, _) \<Rightarrow> reverse_path ps kw)"

section \<open>The URL modules\<close>

definition routes_urlpatterns :: "url_pattern list" where
  "routes_urlpatterns =
     [([Lit ''feedback/''], ''route-feedback''),
      ([Lit ''form/''], ''form-data-view''),
      ([Lit ''area/''], ''city-areas''),
      ([Lit ''generate/''], ''generate-route''),
      ([Lit ''edit-status/''], ''edit-route-status''),
      ([Lit ''cancel/''], ''cancel-route''),
      ([Lit ''show/'', Str_Conv ''id_route'', Lit ''/''], ''route-detail'')]"

definition core_urlpatterns :: "url_pattern list" where
  "core_urlpatterns =
     [([Lit ''embed-missing/''], ''embed-missing-points''),
      ([Lit ''embed-refresh/''], ''embed-refresh-points''),
      ([Lit ''embed-update/'', Str_Conv ''point_id'', Lit ''/''], ''embed-update-point'')]"

definition users_urlpatterns :: "url_pattern list" where
  "users_urlpatterns =
     [([Lit ''auth/register''], ''register''),
      ([Lit ''auth/login''], ''login''),
      ([Lit ''auth/refresh''], ''token_refresh''),
      ([Lit ''user''], ''user_info''),
      ([Lit ''user/list/''], ''user-routes-list''),
      ([Lit ''user/statistic/''], ''user-statistic'')]"

section \<open>Lemmas\<close>

lemma takeWhile_upto_sep [simp]:
  "x \<notin> set v \<Longrightarrow> takeWhile (\<lambda>c. c \<noteq> x) (v @ x # r) = v"
  by (induction v) auto

lemma reverse_path_Nil [simp]:
  "reverse_path [] kw = Some u \<longleftrightarrow> kw = [] \<and> u = []"
  by (cases kw) auto

lemma reverse_path_Lit [simp]:
  "reverse_path [Lit l] kw = Some u \<longleftrightarrow> kw = [] \<and> u = l"
  by (cases kw) auto

lemma reverse_path_conv [simp]:
  "reverse_path [Str_Conv k, Lit b] kw = Some u \<longleftrightarrow>
     (\<exists>v. kw = [(k, v)] \<and> v \<noteq> [] \<and> CHR ''/'' \<notin> set v \<and> u = v @ b)"
  by (cases kw) (auto split: if_splits)

lemma find_Some_in: "find P xs = Some x \<Longrightarrow> x \<in> set xs \<and> P x"
  by (induction xs) (auto split: if_splits)

lemma reverse_Some_name:
  assumes "reverse pats n kw = Some u"
  shows "n \<in> set (map snd pats)"
proof -
  from assms obtain ps m where f: "find (\<lambda>(ps, m). m = n) pats = Some (ps, m)"
    by (auto simp: reverse_def split: option.splits)
  then have "(ps, m) \<in> set pats" and "m = n"
    using find_Some_in by fastforce+
  then show ?thesis by force
qed

section \<open>Properties\<close>

text \<open>
  C10. Every URL name of the three app modules round-trips: whenever \<open>reverse\<close> builds
  a path from a name and keyword arguments, resolving that path reaches the view of the
  same name with the same arguments. So no pattern of a module shadows a later one, and
  a \<open><str:...>\<close> argument accepted by \<open>reverse\<close> comes back unchanged.
\<close>

theorem urls_reverse_resolve:
  "(reverse routes_urlpatterns n kw = Some u \<longrightarrow> resolve routes_urlpatterns u = Some (n, kw)) \<and>
   (reverse core_urlpatterns n kw = Some u \<longrightarrow> resolve core_urlpatterns u = Some (n, kw)) \<and>
   (reverse users_urlpatterns n kw = Some u \<longrightarrow> resolve users_urlpatterns u = Some (n, kw))"
proof (intro conjI impI)
  assume a: "reverse routes_urlpatterns n kw = Some u"
  show "resolve routes_urlpatterns u = Some (n, kw)"
  proof (cases "n = ''route-detail''")
    case True
    with a obtain v where "kw = [(''id_route'', v)]" "v \<noteq> []" "CHR ''/'' \<notin> set v" "u = ''show/'' @ v @ ''/''"
      by (auto simp: reverse_def routes_urlpatterns_def)
    with True show ?thesis by (simp add: routes_urlpatterns_def)
  next
    case False
    from reverse_Some_name [OF a] False
    have "n = ''route-feedback'' \<or> n = ''form-data-view'' \<or> n = ''city-areas'' \<or> n = ''generate-route'' \<or>
          n = ''edit-route-status'' \<or> n = ''cancel-route''"
      by (simp add: routes_urlpatterns_def)
    then show ?thesis using a by (elim disjE) (auto simp: reverse_def routes_urlpatterns_def)
  qed
next
  assume a: "reverse core_urlpatterns n kw = Some u"
  show "resolve core_urlpatterns u = Some (n, kw)"
  proof (cases "n = ''embed-update-point''")
    case True
    with a obtain v where "kw = [(''point_id'', v)]" "v \<noteq> []" "CHR ''/'' \<notin> set v" "u = ''embed-update/'' @ v @ ''/''"
      by (auto simp: reverse_def core_urlpatterns_def)
    with True show ?thesis by (simp add: core_urlpatterns_def)
  next
    case False
    from reverse_Some_name [OF a] False
    have "n = ''embed-missing-points'' \<or> n = ''embed-refresh-points''"
      by (simp add: core_urlpatterns_def)
    then show ?thesis using a by (elim disjE) (auto simp: reverse_def core_urlpatterns_def)
  qed
next
  assume a: "reverse users_urlpatterns n kw = Some u"
  from reverse_Some_name [OF a]
  have "n = ''register'' \<or> n = ''login'' \<or> n = ''token_refresh'' \<or> n = ''user_info'' \<or>
        n = ''user-routes-list'' \<or> n = ''user-statistic''"
    by (simp add: users_urlpatterns_def)
  then show "resolve users_urlpatterns u = Some (n, kw)"
    using a by (elim disjE) (auto simp: reverse_def users_urlpatterns_def)
qed

theorem urls_reverse_resolve_witness:
  "reverse routes_urlpatterns ''route-detail'' [(''id_route'', ''17'')] = Some ''show/17/'' \<and>
   resolve routes_urlpatterns ''show/17/'' = Some (''route-detail'', [(''id_route'', ''17'')]) \<and>
   reverse core_urlpatterns ''embed-update-point'' [(''point_id'', ''p9'')] = Some ''embed-update/p9/'' \<and>
   resolve core_urlpatterns ''embed-update/p9/'' = Some (''embed-update-point'', [(''point_id'', ''p9'')]) \<and>
   reverse users_urlpatterns ''user-routes-list'' [] = Some ''user/list/'' \<and>
   resolve users_urlpatterns ''user/list/'' = Some (''user-routes-list'', [])"
proof -
  have r: "reverse routes_urlpatterns ''route-detail'' [(''id_route'', ''17'')] = Some ''show/17/''"
    by (simp add: reverse_def routes_urlpatterns_def)
  have c: "reverse core_urlpatterns ''embed-update-point'' [(''point_id'', ''p9'')] = Some ''embed-update/p9/''"
    by (simp add: reverse_def core_urlpatterns_def)
  have u: "reverse users_urlpatterns ''user-routes-list'' [] = Some ''user/list/''"
    by (simp add: reverse_def users_urlpatterns_def)
  note w = urls_reverse_resolve [where n = "''route-detail''" and kw = "[(''id_route'', ''17'')]" and u = "''show/17/''"]
    urls_reverse_resolve [where n = "''embed-update-point''" and kw = "[(''point_id'', ''p9'')]" and u = "''embed-update/p9/''"]
    urls_reverse_resolve [where n = "''user-routes-list''" and kw = "[]" and u = "''user/list/''"]
  from r c u w show ?thesis by simp
qed

end
