(* ===== verification/Partners.thy ===== *)
theory Partners
  imports Prelude
begin

text \<open>
  The partner registry: the \<open>Partner\<close> model of \<open>src/apps/partners/models.py\<close> and the
  three bulk actions of \<open>PartnerAdmin\<close> in \<open>src/apps/partners/admin.py\<close>. An action
  receives the changelist's selection (the selected primary keys) and runs one
  \<open>queryset.update(...)\<close>, a single SQL \<open>UPDATE\<close> answering the number of matched rows;
  the count is the action's result (the message text around it is not modelled).
\<close>

section \<open>The Partner model\<close>

datatype partner_tier = Basic | Premium | Vip

datatype partner_status = Active | Paused | Suspended

fun partner_tier_value :: "partner_tier \<Rightarrow> string" where
  "partner_tier_value Basic = ''basic''"
| "partner_tier_value Premium = ''premium''"
| "partner_tier_value Vip = ''vip''"

fun partner_status_value :: "partner_status \<Rightarrow> string" where
  "partner_status_value Active = ''active''"
| "partner_status_value Paused = ''paused''"
| "partner_status_value Suspended = ''suspended''"

text \<open>\<open>monthly_fee\<close> is a decimal with two places, kept as an integer number of kopecks.\<close>

record partner =
  partner_id :: ident
  partner_name :: string
  partner_email :: "string option"
  partner_phone :: "string option"
  partner_tier :: partner_tier
  monthly_fee :: int
  partner_status :: partner_status
  total_impressions :: int
  impressions_this_month :: int
  last_impression_date :: "timestamp option"
  partner_created_at :: timestamp

definition mk_partner :: "ident \<Rightarrow> string \<Rightarrow> partner_tier \<Rightarrow> int \<Rightarrow> timestamp \<Rightarrow> partner" where
  "mk_partner pid name tier fee now =
     \<lparr>partner_id = pid, partner_name = name, partner_email = None, partner_phone = None,
      partner_tier = tier, monthly_fee = fee, partner_status = Active, total_impressions = 0,
      impressions_this_month = 0, last_impression_date = None, partner_created_at = now\<rparr>"

definition partner_str :: "partner \<Rightarrow> string" where
  "partner_str p = partner_name p @ '' ('' @ partner_tier_value (partner_tier p) @ '')''"

section \<open>PartnerAdmin\<close>

text \<open>\<open>conversion_rate\<close> is a placeholder column.\<close>

definition conversion_rate :: "partner \<Rightarrow> string" where
  "conversion_rate p = ''N/A''"

text \<open>
  \<open>queryset.update(**kw)\<close> over the selected keys: every selected row of the table gets
  the update, and the answer is the number of rows matched.
\<close>

definition queryset_update :: "ident list \<Rightarrow> (partner \<Rightarrow> partner) \<Rightarrow> partner list \<Rightarrow> partner list \<times> nat" where
  "queryset_update sel f ps =
     (update_where (\<lambda>p. partner_id p \<in> set sel) f ps,
      length (filter (\<lambda>p. partner_id p \<in> set sel) ps))"

definition activate_partners :: "ident list \<Rightarrow> partner list \<Rightarrow> partner list \<times> nat" where
  "activate_partners sel ps = queryset_update sel (\<lambda>p. p\<lparr>partner_status := Active\<rparr>) ps"

definition pause_partners :: "ident list \<Rightarrow> partner list \<Rightarrow> partner list \<times> nat" where
  "pause_partners sel ps = queryset_update sel (\<lambda>p. p\<lparr>partner_status := Paused\<rparr>) ps"

definition reset_monthly_stats :: "ident list \<Rightarrow> partner list \<Rightarrow> partner list \<times> nat" where
  "reset_monthly_stats sel ps = queryset_update sel (\<lambda>p. p\<lparr>impressions_this_month := 0\<rparr>) ps"

datatype partner_action = Activate_Partners | Pause_Partners | Reset_Monthly_Stats

fun run_partner_action :: "partner_action \<Rightarrow> ident list \<Rightarrow> partner list \<Rightarrow> partner list \<times> nat" where
  "run_partner_action Activate_Partners = activate_partners"
| "run_partner_action Pause_Partners = pause_partners"
| "run_partner_action Reset_Monthly_Stats = reset_monthly_stats"

section \<open>Abstraction and invariant\<close>

text \<open>The table seen as a map from primary key to row.\<close>

definition partner_map :: "partner list \<Rightarrow> ident \<rightharpoonup> partner" where
  "partner_map ps = map_of (map (\<lambda>p. (partner_id p, p)) ps)"

text \<open>
  The abstract action: the rows under the selected keys get the update, the others are
  kept; the count is the number of selected keys present.
\<close>

definition map_update_keys :: "ident set \<Rightarrow> (partner \<Rightarrow> partner) \<Rightarrow> (ident \<rightharpoonup> partner) \<Rightarrow> (ident \<rightharpoonup> partner)" where
  "map_update_keys S f m = (\<lambda>k. if k \<in> S then map_option f (m k) else m k)"

text \<open>
  Keys unique and the counters consistent: impressions are never negative and this
  month's never exceed the total.
\<close>

definition partners_wf :: "partner list \<Rightarrow> bool" where
  "partners_wf ps \<longleftrightarrow>
     distinct (map partner_id ps) \<and>
     (\<forall>p \<in> set ps. 0 \<le> impressions_this_month p \<and> impressions_this_month p \<le> total_impressions p)"

section \<open>Lemmas\<close>

lemma map_of_update_where_key:
  assumes "\<And>p. key (f p) = key p"
  shows "map_of (map (\<lambda>p. (key p, p)) (update_where (\<lambda>p. key p \<in> S) f ps)) =
         (\<lambda>k. if k \<in> S then map_option f (map_of (map (\<lambda>p. (key p, p)) ps) k)
              else map_of (map (\<lambda>p. (key p, p)) ps) k)"
proof
  fix k show "map_of (map (\<lambda>p. (key p, p)) (update_where (\<lambda>p. key p \<in> S) f ps)) k =
      (if k \<in> S then map_option f (map_of (map (\<lambda>p. (key p, p)) ps) k) else map_of (map (\<lambda>p. (key p, p)) ps) k)"
    by (induction ps) (auto simp: assms)
qed

lemma length_filter_distinct_keys:
  "distinct (map key ps) \<Longrightarrow> length (filter (\<lambda>p. key p \<in> S) ps) = card (S \<inter> set (map key ps))"
proof (induction ps)
  case Nil
  then show ?case by simp
next
  case (Cons p ps)
  then show ?case by (auto simp: Int_insert_right)
qed

lemma queryset_update_refines:
  assumes "\<And>p. partner_id (f p) = partner_id p"
  shows "partner_map (fst (queryset_update sel f ps)) = map_update_keys (set sel) f (partner_map ps)"
  using map_of_update_where_key [of partner_id f, OF assms]
  by (simp add: queryset_update_def partner_map_def map_update_keys_def)

lemma queryset_update_count:
  "distinct (map partner_id ps) \<Longrightarrow> snd (queryset_update sel f ps) = card (set sel \<inter> partner_id ` set ps)"
  by (simp add: queryset_update_def length_filter_distinct_keys)

lemma queryset_update_wf:
  assumes "partners_wf ps" and "\<And>p. partner_id (f p) = partner_id p"
    and "\<And>p. 0 \<le> impressions_this_month p \<and> impressions_this_month p \<le> total_impressions p \<Longrightarrow>
           0 \<le> impressions_this_month (f p) \<and> impressions_this_month (f p) \<le> total_impressions (f p)"
  shows "partners_wf (fst (queryset_update sel f ps))"
proof -
  have "map partner_id (update_where (\<lambda>p. partner_id p \<in> set sel) f ps) = map partner_id ps"
    by (rule map_update_where_keep) (simp add: assms(2))
  with assms show ?thesis by (auto simp: partners_wf_def queryset_update_def set_update_where)
qed

section \<open>Properties of the admin actions\<close>

text \<open>
  C23. Each bulk action refines a map update. Seen as a map from primary key to row,
  the table after the action is the old map with the selected keys' rows updated
  (status set to active, status set to paused, this month's impressions reset); every
  other key is untouched and no key is added or removed. When keys are unique, the
  count the action reports is the number of selected keys that name a partner: a key
  selected twice or absent from the table is not counted.
\<close>

theorem partner_actions_refine:
  "partner_map (fst (activate_partners sel ps)) =
     map_update_keys (set sel) (\<lambda>p. p\<lparr>partner_status := Active\<rparr>) (partner_map ps) \<and>
   partner_map (fst (pause_partners sel ps)) =
     map_update_keys (set sel) (\<lambda>p. p\<lparr>partner_status := Paused\<rparr>) (partner_map ps) \<and>
   partner_map (fst (reset_monthly_stats sel ps)) =
     map_update_keys (set sel) (\<lambda>p. p\<lparr>impressions_this_month := 0\<rparr>) (partner_map ps) \<and>
   (distinct (map partner_id ps) \<longrightarrow>
      snd (run_partner_action a sel ps) = card (set sel \<inter> partner_id ` set ps))"
  by (cases a) (simp_all add: activate_partners_def pause_partners_def reset_monthly_stats_def
      queryset_update_refines queryset_update_count)

theorem partner_actions_refine_witness:
  "distinct (map partner_id [mk_partner ''p1'' ''Cafe'' Basic 100000 1, (mk_partner ''p2'' ''Museum'' Vip 500000 2)\<lparr>partner_status := Paused, total_impressions := 7, impressions_this_month := 3\<rparr>]) \<and>
   snd (run_partner_action Pause_Partners [''p1'', ''p1'', ''p9''] [mk_partner ''p1'' ''Cafe'' Basic 100000 1, (mk_partner ''p2'' ''Museum'' Vip 500000 2)\<lparr>partner_status := Paused, total_impressions := 7, impressions_this_month := 3\<rparr>]) = 1"
proof -
  have d: "distinct (map partner_id [mk_partner ''p1'' ''Cafe'' Basic 100000 1, (mk_partner ''p2'' ''Museum'' Vip 500000 2)\<lparr>partner_status := Paused, total_impressions := 7, impressions_this_month := 3\<rparr>])" by (simp add: mk_partner_def)
  have "card (set [''p1'', ''p1'', ''p9''] \<inter> partner_id ` set [mk_partner ''p1'' ''Cafe'' Basic 100000 1, (mk_partner ''p2'' ''Museum'' Vip 500000 2)\<lparr>partner_status := Paused, total_impressions := 7, impressions_this_month := 3\<rparr>]) = 1"
    by (simp add: mk_partner_def)
  with partner_actions_refine [of _ "[mk_partner ''p1'' ''Cafe'' Basic 100000 1, (mk_partner ''p2'' ''Museum'' Vip 500000 2)\<lparr>partner_status := Paused, total_impressions := 7, impressions_this_month := 3\<rparr>]" Pause_Partners] d show ?thesis by simp
qed

text \<open>
  C25. Every admin action keeps the partner table well formed: keys stay unique, and
  this month's impressions stay between zero and the total.
\<close>

theorem partner_actions_wf:
  assumes "partners_wf ps"
  shows "partners_wf (fst (run_partner_action a sel ps))"
  using assms by (cases a) (simp_all add: activate_partners_def pause_partners_def
      reset_monthly_stats_def queryset_update_wf)

theorem partner_actions_wf_witness:
  "partners_wf [mk_partner ''p1'' ''Cafe'' Basic 100000 1, (mk_partner ''p2'' ''Museum'' Vip 500000 2)\<lparr>partner_status := Paused, total_impressions := 7, impressions_this_month := 3\<rparr>] \<and>
   fst (run_partner_action Reset_Monthly_Stats [''p2''] [mk_partner ''p1'' ''Cafe'' Basic 100000 1, (mk_partner ''p2'' ''Museum'' Vip 500000 2)\<lparr>partner_status := Paused, total_impressions := 7, impressions_this_month := 3\<rparr>]) = [mk_partner ''p1'' ''Cafe'' Basic 100000 1, ((mk_partner ''p2'' ''Museum'' Vip 500000 2)\<lparr>partner_status := Paused, total_impressions := 7, impressions_this_month := 3\<rparr>)\<lparr>impressions_this_month := 0\<rparr>] \<and>
   partners_wf [mk_partner ''p1'' ''Cafe'' Basic 100000 1, ((mk_partner ''p2'' ''Museum'' Vip 500000 2)\<lparr>partner_status := Paused, total_impressions := 7, impressions_this_month := 3\<rparr>)\<lparr>impressions_this_month := 0\<rparr>]"
proof -
  have w: "partners_wf [mk_partner ''p1'' ''Cafe'' Basic 100000 1, (mk_partner ''p2'' ''Museum'' Vip 500000 2)\<lparr>partner_status := Paused, total_impressions := 7, impressions_this_month := 3\<rparr>]" by (simp add: partners_wf_def mk_partner_def)
  have r: "fst (run_partner_action Reset_Monthly_Stats [''p2''] [mk_partner ''p1'' ''Cafe'' Basic 100000 1, (mk_partner ''p2'' ''Museum'' Vip 500000 2)\<lparr>partner_status := Paused, total_impressions := 7, impressions_this_month := 3\<rparr>]) = [mk_partner ''p1'' ''Cafe'' Basic 100000 1, ((mk_partner ''p2'' ''Museum'' Vip 500000 2)\<lparr>partner_status := Paused, total_impressions := 7, impressions_this_month := 3\<rparr>)\<lparr>impressions_this_month := 0\<rparr>]"
    by (simp add: reset_monthly_stats_def queryset_update_def mk_partner_def)
  from partner_actions_wf [OF w, of Reset_Monthly_Stats "[''p2'']"] r
  have "partners_wf [mk_partner ''p1'' ''Cafe'' Basic 100000 1, ((mk_partner ''p2'' ''Museum'' Vip 500000 2)\<lparr>partner_status := Paused, total_impressions := 7, impressions_this_month := 3\<rparr>)\<lparr>impressions_this_month := 0\<rparr>]" by simp
  with w r show ?thesis by simp
qed

end
