(* ===== verification/Articles.thy ===== *)
theory Articles
  imports Prelude
begin

text \<open>
  The \<open>Article\<close> model of \<open>src/apps/articles/models.py\<close> and its one method,
  \<open>get_seo_title\<close>: the SEO title when it is set and non-empty, the title otherwise
  (Python's \<open>or\<close> on a nullable string). Files are kept as their stored names.
\<close>

record article =
  article_id :: nat
  article_title :: string
  article_slug :: string
  article_content :: string
  article_cover :: "string option"
  seo_title :: "string option"
  seo_description :: "string option"
  seo_keywords :: "string option"
  article_created_at :: timestamp
  article_updated_at :: timestamp
  article_published_at :: "timestamp option"
  is_published :: bool

definition article_str :: "article \<Rightarrow> string" where
  "article_str a = article_title a"

definition get_seo_title :: "article \<Rightarrow> string" where
  "get_seo_title a = (case seo_title a of None \<Rightarrow> article_title a | Some s \<Rightarrow> if s = [] then article_title a else s)"

end
