(* ===== verification/Admin.thy ===== *)
theory Admin
  imports Models Partners Articles Accounts
begin

text \<open>
  The Django admin of the repository, declared in \<open>src/apps/routes/admin.py\<close>,
  \<open>src/apps/partners/admin.py\<close> and \<open>src/apps/articles/admin.py\<close>.
  \<^item> The \<open>__str__\<close> methods of the models, which the admin shows for a foreign key.
  \<^item> One changelist row per admin class (\<open>list_display\<close>). A cell is rendered the
    way \<open>display_for_field\<close> renders it: a choice by its label, a boolean as a flag,
    a null as the empty value, a foreign key by the related object's \<open>__str__\<close>.
  \<^item> The changelist search (\<open>search_fields\<close>, run by \<open>get_search_results\<close>).
  \<^item> The partner add and change forms, where \<open>readonly_fields\<close> take the counters
    out of the form.

  \<^item> The changelist filters (\<open>list_filter\<close>): each listed field's
    \<open>FieldListFilter\<close>, the query parameters it expects and how it converts them, and
    the changelist query of each admin class (filters, then search, then
    \<open>list_display\<close> rows).

  Not modelled here: the changelist's default \<open>-pk\<close> ordering (string keys sort by
  the database's collation), pagination, lookups in the URL that no filter expects,
  the filters' sidebar links, \<open>filter_horizontal\<close> widgets, quoted search terms, and
  the HTML of the cells.
\<close>

section \<open>The models' \<open>__str__\<close>\<close>

definition city_str :: "city \<Rightarrow> string" where
  "city_str c = city_name c"

text \<open>\<open>self.city.name\<close> follows the foreign key; \<open>None\<close> is a dangling key (\<open>DoesNotExist\<close>).\<close>

definition city_name_of :: "city list \<Rightarrow> ident \<Rightarrow> string option" where
  "city_name_of cs cid = map_option city_name (find (\<lambda>c. city_id c = cid) cs)"

definition area_str :: "city list \<Rightarrow> city_area \<Rightarrow> string option" where
  "area_str cs a = map_option (\<lambda>n. area_name a @ '' ('' @ n @ '')'') (city_name_of cs (area_city a))"

definition interest_str :: "interest \<Rightarrow> string" where
  "interest_str i = interest_label i"

definition mood_str :: "mood \<Rightarrow> string" where
  "mood_str m = mood_label m"

definition point_str :: "city list \<Rightarrow> point \<Rightarrow> string option" where
  "point_str cs p = map_option (\<lambda>n. point_name p @ '' ('' @ n @ '')'') (city_name_of cs (point_city p))"

text \<open>
  \<open>Route.__str__\<close>: the Russian word for route, the first eight characters of the
  id, and the duration followed by the abbreviation for minutes (UTF-8 bytes).
\<close>

definition route_str :: "route \<Rightarrow> string" where
  "route_str r = ([CHR 0xD0, CHR 0x9C, CHR 0xD0, CHR 0xB0, CHR 0xD1, CHR 0x80, CHR 0xD1, CHR 0x88, CHR 0xD1, CHR 0x80, CHR 0xD1, CHR 0x83, CHR 0xD1, CHR 0x82] @ '' '') @ take 8 (route_id r) @ '' ('' @ py_str_int (total_duration r) @ ('' '' @ [CHR 0xD0, CHR 0xBC, CHR 0xD0, CHR 0xB8, CHR 0xD0, CHR 0xBD] @ '')'')"

definition feedback_str :: "feedback \<Rightarrow> string" where
  "feedback_str f = ''Feedback '' @ feedback_id f @ '' for Route '' @ feedback_route f"

section \<open>Changelist rows\<close>

datatype cell = Text string | Number int | Flag bool | Time timestamp | Empty_Value

definition opt_number :: "int option \<Rightarrow> cell" where
  "opt_number x = (case x of None \<Rightarrow> Empty_Value | Some n \<Rightarrow> Number n)"

definition opt_text :: "string option \<Rightarrow> cell" where
  "opt_text x = (case x of None \<Rightarrow> Empty_Value | Some s \<Rightarrow> Text s)"

definition opt_time :: "timestamp option \<Rightarrow> cell" where
  "opt_time x = (case x of None \<Rightarrow> Empty_Value | Some t \<Rightarrow> Time t)"

text \<open>The labels of \<open>Route.WalkStatus\<close> and of the partner choices.\<close>

fun walk_status_label :: "walk_status \<Rightarrow> string" where
  "walk_status_label Going = [CHR 0xD0, CHR 0x98, CHR 0xD0, CHR 0xB4, CHR 0xD1, CHR 0x83] @ '' '' @ [CHR 0xD0, CHR 0xB3, CHR 0xD1, CHR 0x83, CHR 0xD0, CHR 0xBB, CHR 0xD1, CHR 0x8F, CHR 0xD1, CHR 0x82, CHR 0xD1, CHR 0x8C]"
| "walk_status_label Done = [CHR 0xD0, CHR 0x9F, CHR 0xD1, CHR 0x80, CHR 0xD0, CHR 0xBE, CHR 0xD1, CHR 0x88, CHR 0xD0, CHR 0xB5, CHR 0xD0, CHR 0xBB]"
| "walk_status_label Cancelled = [CHR 0xD0, CHR 0x9D, CHR 0xD0, CHR 0xB5] @ '' '' @ [CHR 0xD0, CHR 0xB8, CHR 0xD0, CHR 0xB4, CHR 0xD1, CHR 0x83]"

fun partner_tier_label :: "partner_tier \<Rightarrow> string" where
  "partner_tier_label Basic = ''Basic''"
| "partner_tier_label Premium = ''Premium''"
| "partner_tier_label Vip = ''VIP''"

fun partner_status_label :: "partner_status \<Rightarrow> string" where
  "partner_status_label Active = [CHR 0xD0, CHR 0x90, CHR 0xD0, CHR 0xBA, CHR 0xD1, CHR 0x82, CHR 0xD0, CHR 0xB8, CHR 0xD0, CHR 0xB2, CHR 0xD0, CHR 0xBD, CHR 0xD1, CHR 0x8B, CHR 0xD0, CHR 0xB9]"
| "partner_status_label Paused = [CHR 0xD0, CHR 0x9F, CHR 0xD1, CHR 0x80, CHR 0xD0, CHR 0xB8, CHR 0xD0, CHR 0xBE, CHR 0xD1, CHR 0x81, CHR 0xD1, CHR 0x82, CHR 0xD0, CHR 0xB0, CHR 0xD0, CHR 0xBD, CHR 0xD0, CHR 0xBE, CHR 0xD0, CHR 0xB2, CHR 0xD0, CHR 0xBB, CHR 0xD0, CHR 0xB5, CHR 0xD0, CHR 0xBD]"
| "partner_status_label Suspended = [CHR 0xD0, CHR 0x97, CHR 0xD0, CHR 0xB0, CHR 0xD0, CHR 0xB1, CHR 0xD0, CHR 0xBB, CHR 0xD0, CHR 0xBE, CHR 0xD0, CHR 0xBA, CHR 0xD0, CHR 0xB8, CHR 0xD1, CHR 0x80, CHR 0xD0, CHR 0xBE, CHR 0xD0, CHR 0xB2, CHR 0xD0, CHR 0xB0, CHR 0xD0, CHR 0xBD]"

definition city_admin_row :: "city \<Rightarrow> cell list" where
  "city_admin_row c =
     [Text (city_id c), Text (city_name c), opt_number (city_latitude c), opt_number (city_longitude c)]"

definition city_area_admin_row :: "city list \<Rightarrow> city_area \<Rightarrow> cell list" where
  "city_area_admin_row cs a =
     [Text (area_name a), opt_text (map_option city_str (find (\<lambda>c. city_id c = area_city a) cs)),
      opt_number (area_latitude a), opt_number (area_longitude a)]"

definition interest_admin_row :: "interest \<Rightarrow> cell list" where
  "interest_admin_row i = [Text (interest_id i), Text (interest_label i)]"

definition mood_admin_row :: "mood \<Rightarrow> cell list" where
  "mood_admin_row m = [Text (mood_id m), Text (mood_label m)]"

definition point_admin_row :: "city list \<Rightarrow> point \<Rightarrow> cell list" where
  "point_admin_row cs p =
     [Text (point_id p), Text (point_name p), opt_text (map_option city_str (find (\<lambda>c. city_id c = point_city p) cs)),
      Number (average_visit_duration p), opt_number (average_cost p), Flag (is_partner p)]"

definition point_embedding_admin_row :: "city list \<Rightarrow> point list \<Rightarrow> 'v point_embedding \<Rightarrow> cell list" where
  "point_embedding_admin_row cs ps e =
     [opt_text (case find (\<lambda>p. point_id p = pe_point e) ps of None \<Rightarrow> None | Some p \<Rightarrow> point_str cs p),
      Time (pe_updated_at e)]"

text \<open>\<open>user\<close> is shown by \<open>AbstractUser.__str__\<close>, the username.\<close>

definition route_admin_row :: "account list \<Rightarrow> route \<Rightarrow> cell list" where
  "route_admin_row accts r =
     [Text (route_id r),
      opt_text (case route_user r of None \<Rightarrow> None
                | Some u \<Rightarrow> map_option acc_username (find (\<lambda>a. acc_id a = u) accts)),
      Time (route_created_at r), Number (total_duration r), opt_number (total_cost r),
      Text (walk_status_label (route_status r))]"

definition feedback_admin_row :: "route list \<Rightarrow> feedback \<Rightarrow> cell list" where
  "feedback_admin_row rs f =
     [Text (feedback_id f), opt_text (map_option route_str (find (\<lambda>r. route_id r = feedback_route f) rs)),
      Flag (going f), Time (feedback_created_at f)]"

definition partner_admin_row :: "partner \<Rightarrow> cell list" where
  "partner_admin_row p =
     [Text (partner_name p), Text (partner_tier_label (partner_tier p)), Text (partner_status_label (partner_status p)),
      Number (monthly_fee p), Number (total_impressions p), Number (impressions_this_month p),
      Text (conversion_rate p), opt_time (last_impression_date p)]"

definition article_admin_row :: "article \<Rightarrow> cell list" where
  "article_admin_row a = [Number (int (article_id a)), Text (article_title a)]"

section \<open>Changelist search\<close>

text \<open>
  \<open>smart_split\<close> of the search box: words separated by whitespace. Quoted phrases
  are not modelled.
\<close>

fun split_ws :: "string \<Rightarrow> string \<Rightarrow> string list" where
  "split_ws cur [] = [rev cur]"
| "split_ws cur (c # cs) = (if c \<in> set py_whitespace then rev cur # split_ws [] cs else split_ws (c # cur) cs)"

definition search_terms :: "string \<Rightarrow> string list" where
  "search_terms q = filter (\<lambda>w. w \<noteq> []) (split_ws [] q)"

text \<open>\<open>field__icontains=bit\<close>: a case-insensitive substring test (ASCII case folding).\<close>

definition icontains :: "string \<Rightarrow> string \<Rightarrow> bool" where
  "icontains h n =
     (let h' = map ascii_lower h; n' = map ascii_lower n
      in list_ex (\<lambda>i. take (length n') (drop i h') = n') [0..<Suc (length h')])"

text \<open>The \<open>OR\<close> of the lookups of one term over the search fields; a null field matches nothing.\<close>

definition search_match :: "('a \<Rightarrow> string option list) \<Rightarrow> string \<Rightarrow> 'a \<Rightarrow> bool" where
  "search_match fs t r = list_ex (\<lambda>v. case v of None \<Rightarrow> False | Some s \<Rightarrow> icontains s t) (fs r)"

text \<open>
  \<open>ModelAdmin.get_search_results\<close>: for every term of the search box the queryset is
  filtered by the term's \<open>OR\<close> query.
\<close>

definition admin_search :: "('a \<Rightarrow> string option list) \<Rightarrow> string \<Rightarrow> 'a list \<Rightarrow> 'a list" where
  "admin_search fs q rows = foldl (\<lambda>rs t. filter (search_match fs t) rs) rows (search_terms q)"

definition city_search_fields :: "city \<Rightarrow> string option list" where
  "city_search_fields c = [Some (city_id c), Some (city_name c)]"

definition city_area_search_fields :: "city list \<Rightarrow> city_area \<Rightarrow> string option list" where
  "city_area_search_fields cs a = [Some (area_name a), city_name_of cs (area_city a)]"

definition interest_search_fields :: "interest \<Rightarrow> string option list" where
  "interest_search_fields i = [Some (interest_id i), Some (interest_label i)]"

definition mood_search_fields :: "mood \<Rightarrow> string option list" where
  "mood_search_fields m = [Some (mood_id m), Some (mood_label m)]"

definition point_search_fields :: "city list \<Rightarrow> point \<Rightarrow> string option list" where
  "point_search_fields cs p = [Some (point_id p), Some (point_name p), city_name_of cs (point_city p)]"

definition point_embedding_search_fields :: "point list \<Rightarrow> 'v point_embedding \<Rightarrow> string option list" where
  "point_embedding_search_fields ps e = [map_option point_name (find (\<lambda>p. point_id p = pe_point e) ps)]"

definition route_search_fields :: "account list \<Rightarrow> route \<Rightarrow> string option list" where
  "route_search_fields accts r =
     [Some (route_id r),
      (case route_user r of None \<Rightarrow> None | Some u \<Rightarrow> map_option acc_username (find (\<lambda>a. acc_id a = u) accts))]"

definition feedback_search_fields :: "feedback \<Rightarrow> string option list" where
  "feedback_search_fields f = [Some (feedback_id f), Some (feedback_route f)]"

definition partner_search_fields :: "partner \<Rightarrow> string option list" where
  "partner_search_fields p = [Some (partner_name p), partner_email p, partner_phone p]"

section \<open>Changelist filters\<close>

text \<open>
  \<open>list_filter\<close>: Django makes one \<open>FieldListFilter\<close> per listed field, by the field's
  kind. The code uses five kinds: \<open>AllValuesFieldListFilter\<close> (a plain field),
  \<open>RelatedFieldListFilter\<close> (a foreign key, to a string or to an integer key),
  \<open>BooleanFieldListFilter\<close>, \<open>ChoicesFieldListFilter\<close> (a field with choices) and
  \<open>DateFieldListFilter\<close>. A filter reads the values of the field it filters, as the
  constructor's function argument (\<open>None\<close> is SQL \<open>NULL\<close>). A related filter also
  carries whether it \<open>has_output\<close>.
\<close>

datatype 'a list_filter =
    All_Values_Filter string "'a \<Rightarrow> string option"
  | Related_Filter string bool "'a \<Rightarrow> string option"
  | Related_Int_Filter string bool "'a \<Rightarrow> int option"
  | Boolean_Filter string "'a \<Rightarrow> bool option"
  | Choices_Filter string "'a \<Rightarrow> string option"
  | Date_Filter string "'a \<Rightarrow> timestamp"

text \<open>\<open>expected_parameters()\<close>: the query parameters each filter pops from the request.\<close>

fun expected_parameters :: "'a list_filter \<Rightarrow> string list" where
  "expected_parameters (All_Values_Filter f _) = [f, f @ ''__isnull'']"
| "expected_parameters (Related_Filter f _ _) = [f @ ''__id__exact'', f @ ''__isnull'']"
| "expected_parameters (Related_Int_Filter f _ _) = [f @ ''__id__exact'', f @ ''__isnull'']"
| "expected_parameters (Boolean_Filter f _) = [f @ ''__exact'', f @ ''__isnull'']"
| "expected_parameters (Choices_Filter f _) = [f @ ''__exact'', f @ ''__isnull'']"
| "expected_parameters (Date_Filter f _) = [f @ ''__gte'', f @ ''__lt'']"

text \<open>
  \<open>has_output()\<close>: a related filter is shown only with more than one choice; the
  others always are. \<open>ChangeList.get_filters\<close> keeps only the filters with output,
  but every filter has already popped its parameters. So the parameters of a related
  filter without output are dropped.
\<close>

fun filter_has_output :: "'a list_filter \<Rightarrow> bool" where
  "filter_has_output (Related_Filter _ b _) = b"
| "filter_has_output (Related_Int_Filter _ b _) = b"
| "filter_has_output _ = True"

definition used_parameters :: "'a list_filter \<Rightarrow> (string \<times> string) list \<Rightarrow> (string \<times> string) list" where
  "used_parameters f ps =
     (if filter_has_output f then filter (\<lambda>(k, v). k \<in> set (expected_parameters f)) ps else [])"

text \<open>\<open>prepare_lookup_value\<close> of an \<open>__isnull\<close> parameter.\<close>

definition isnull_value :: "string \<Rightarrow> bool" where
  "isnull_value v \<longleftrightarrow> map ascii_lower v \<notin> set ['''', ''false'', ''0'']"

text \<open>\<open>BooleanField.to_python\<close> of a string; \<open>None\<close> is its \<open>ValidationError\<close>.\<close>

definition bool_to_python :: "string \<Rightarrow> bool option" where
  "bool_to_python v =
     (if v \<in> set [''t'', ''True'', ''1''] then Some True
      else if v \<in> set [''f'', ''False'', ''0''] then Some False else None)"

text \<open>
  One lookup \<open>queryset.filter(key=value)\<close> of a filter, as a row predicate. \<open>None\<close> is
  a \<open>ValueError\<close> or \<open>ValidationError\<close> raised while the value is converted to the
  field's type: \<open>int()\<close> of an integer key, \<open>to_python\<close> of a boolean, and the
  parsing of a date-time (the parameter \<open>pd\<close>; \<open>None\<close> when it does not parse).
  Strings are compared as they are.
\<close>

fun filter_lookup ::
  "(string \<Rightarrow> timestamp option) \<Rightarrow> 'a list_filter \<Rightarrow> string \<times> string \<Rightarrow> ('a \<Rightarrow> bool) option" where
  "filter_lookup pd (All_Values_Filter f g) (k, v) =
     (if k = f then Some (\<lambda>r. g r = Some v) else Some (\<lambda>r. (g r = None) = isnull_value v))"
| "filter_lookup pd (Related_Filter f _ g) (k, v) =
     (if k = f @ ''__id__exact'' then Some (\<lambda>r. g r = Some v) else Some (\<lambda>r. (g r = None) = isnull_value v))"
| "filter_lookup pd (Related_Int_Filter f _ g) (k, v) =
     (if k = f @ ''__id__exact''
      then (case py_int v of Inl _ \<Rightarrow> None | Inr n \<Rightarrow> Some (\<lambda>r. g r = Some n))
      else Some (\<lambda>r. (g r = None) = isnull_value v))"
| "filter_lookup pd (Boolean_Filter f g) (k, v) =
     (if k = f @ ''__exact'' then map_option (\<lambda>b r. g r = Some b) (bool_to_python v)
      else Some (\<lambda>r. (g r = None) = isnull_value v))"
| "filter_lookup pd (Choices_Filter f g) (k, v) =
     (if k = f @ ''__exact'' then Some (\<lambda>r. g r = Some v) else Some (\<lambda>r. (g r = None) = isnull_value v))"
| "filter_lookup pd (Date_Filter f g) (k, v) =
     (if k = f @ ''__gte'' then map_option (\<lambda>t r. t \<le> g r) (pd v) else map_option (\<lambda>t r. g r < t) (pd v))"

text \<open>
  \<open>FieldListFilter.queryset\<close>: \<open>queryset.filter(**used_parameters)\<close>. A conversion
  error becomes \<open>IncorrectLookupParameters\<close> (\<open>None\<close>).
\<close>

definition spec_queryset ::
  "(string \<Rightarrow> timestamp option) \<Rightarrow> 'a list_filter \<Rightarrow> (string \<times> string) list \<Rightarrow> 'a list \<Rightarrow> 'a list option" where
  "spec_queryset pd f ps rows =
     map_option (\<lambda>Ps. filter (\<lambda>r. list_all (\<lambda>P. P r) Ps) rows) (those (map (filter_lookup pd f) (used_parameters f ps)))"

text \<open>\<open>ChangeList.get_queryset\<close>: the filters of \<open>list_filter\<close> one after the other.\<close>

fun apply_list_filters ::
  "(string \<Rightarrow> timestamp option) \<Rightarrow> 'a list_filter list \<Rightarrow> (string \<times> string) list \<Rightarrow> 'a list \<Rightarrow> 'a list option" where
  "apply_list_filters pd [] ps rows = Some rows"
| "apply_list_filters pd (f # fs) ps rows =
     (case spec_queryset pd f ps rows of None \<Rightarrow> None | Some rows' \<Rightarrow> apply_list_filters pd fs ps rows')"

text \<open>
  The changelist query: the filters, then the search of \<open>get_search_results\<close>. \<open>None\<close>
  is \<open>IncorrectLookupParameters\<close>, which \<open>changelist_view\<close> answers with a redirect to
  \<open>?e=1\<close>. The parameters are the query string as a dictionary (one value per key)
  minus the search box \<open>q\<close>. Only the parameters the filters expect are modelled;
  other lookups typed into the URL are not. Rows are in table order.
\<close>

definition admin_changelist ::
  "(string \<Rightarrow> timestamp option) \<Rightarrow> 'a list_filter list \<Rightarrow> ('a \<Rightarrow> string option list) \<Rightarrow>
   (string \<times> string) list \<Rightarrow> string \<Rightarrow> 'a list \<Rightarrow> 'a list option" where
  "admin_changelist pd fs sf ps q rows = map_option (admin_search sf q) (apply_list_filters pd fs ps rows)"

text \<open>
  The \<open>list_filter\<close> of each admin class. A related filter's choices are all rows of
  the related table, plus the empty choice when the foreign key is nullable
  (\<open>Route.user\<close>).
\<close>

definition city_list_filter :: "city list_filter list" where
  "city_list_filter = [All_Values_Filter ''name'' (\<lambda>c. Some (city_name c))]"

definition city_area_list_filter :: "city list \<Rightarrow> city_area list_filter list" where
  "city_area_list_filter cs = [Related_Filter ''city'' (1 < length cs) (\<lambda>a. Some (area_city a))]"

definition point_list_filter :: "city list \<Rightarrow> point list_filter list" where
  "point_list_filter cs =
     [Related_Filter ''city'' (1 < length cs) (\<lambda>p. Some (point_city p)),
      Boolean_Filter ''is_partner'' (\<lambda>p. Some (is_partner p)),
      Choices_Filter ''partner_tier'' point.partner_tier]"

definition route_list_filter :: "account list \<Rightarrow> route list_filter list" where
  "route_list_filter accts =
     [Choices_Filter ''status'' (\<lambda>r. Some (walk_status_value (route_status r))),
      Date_Filter ''created_at'' route_created_at,
      Related_Int_Filter ''user'' (1 < length accts + 1) (\<lambda>r. map_option int (route_user r))]"

definition feedback_list_filter :: "feedback list_filter list" where
  "feedback_list_filter = [Boolean_Filter ''going'' (\<lambda>f. Some (going f)), Date_Filter ''created_at'' feedback_created_at]"

text \<open>
  The changelist of each admin class of \<open>src/apps/routes/admin.py\<close>: its filters, its
  search fields and its \<open>list_display\<close> rows. The admins without a date filter have no
  date-time parameter to parse.
\<close>

definition city_changelist :: "(string \<times> string) list \<Rightarrow> string \<Rightarrow> 'v db \<Rightarrow> cell list list option" where
  "city_changelist ps q d =
     map_option (map city_admin_row) (admin_changelist (\<lambda>_. None) city_list_filter city_search_fields ps q (db_cities d))"

definition city_area_changelist :: "(string \<times> string) list \<Rightarrow> string \<Rightarrow> 'v db \<Rightarrow> cell list list option" where
  "city_area_changelist ps q d =
     map_option (map (city_area_admin_row (db_cities d)))
       (admin_changelist (\<lambda>_. None) (city_area_list_filter (db_cities d)) (city_area_search_fields (db_cities d)) ps q (db_areas d))"

definition interest_changelist :: "(string \<times> string) list \<Rightarrow> string \<Rightarrow> 'v db \<Rightarrow> cell list list option" where
  "interest_changelist ps q d =
     map_option (map interest_admin_row) (admin_changelist (\<lambda>_. None) [] interest_search_fields ps q (db_interests d))"

definition mood_changelist :: "(string \<times> string) list \<Rightarrow> string \<Rightarrow> 'v db \<Rightarrow> cell list list option" where
  "mood_changelist ps q d =
     map_option (map mood_admin_row) (admin_changelist (\<lambda>_. None) [] mood_search_fields ps q (db_moods d))"

definition point_changelist :: "(string \<times> string) list \<Rightarrow> string \<Rightarrow> 'v db \<Rightarrow> cell list list option" where
  "point_changelist ps q d =
     map_option (map (point_admin_row (db_cities d)))
       (admin_changelist (\<lambda>_. None) (point_list_filter (db_cities d)) (point_search_fields (db_cities d)) ps q (db_points d))"

definition point_embedding_changelist :: "(string \<times> string) list \<Rightarrow> string \<Rightarrow> 'v db \<Rightarrow> cell list list option" where
  "point_embedding_changelist ps q d =
     map_option (map (point_embedding_admin_row (db_cities d) (db_points d)))
       (admin_changelist (\<lambda>_. None) [] (point_embedding_search_fields (db_points d)) ps q (db_embeddings d))"

definition route_changelist ::
  "(string \<Rightarrow> timestamp option) \<Rightarrow> account list \<Rightarrow> (string \<times> string) list \<Rightarrow> string \<Rightarrow> 'v db \<Rightarrow> cell list list option" where
  "route_changelist pd accts ps q d =
     map_option (map (route_admin_row accts))
       (admin_changelist pd (route_list_filter accts) (route_search_fields accts) ps q (db_routes d))"

definition feedback_changelist ::
  "(string \<Rightarrow> timestamp option) \<Rightarrow> (string \<times> string) list \<Rightarrow> string \<Rightarrow> 'v db \<Rightarrow> cell list list option" where
  "feedback_changelist pd ps q d =
     map_option (map (feedback_admin_row (db_routes d)))
       (admin_changelist pd feedback_list_filter feedback_search_fields ps q (db_feedbacks d))"

text \<open>
  \<open>PartnerAdmin\<close> (\<open>src/apps/partners/admin.py\<close>) filters on its two choice fields and
  its creation time. \<open>ArticleAdmin\<close> (\<open>src/apps/articles/admin.py\<close>) declares only
  \<open>list_display\<close>: with no \<open>search_fields\<close>, \<open>get_search_results\<close> leaves the
  queryset as it is, so its changelist is every article's row.
\<close>

definition partner_list_filter :: "partner list_filter list" where
  "partner_list_filter =
     [Choices_Filter ''tier'' (\<lambda>p. Some (partner_tier_value (partner_tier p))),
      Choices_Filter ''status'' (\<lambda>p. Some (partner_status_value (partner_status p))),
      Date_Filter ''created_at'' partner_created_at]"

definition partner_changelist ::
  "(string \<Rightarrow> timestamp option) \<Rightarrow> (string \<times> string) list \<Rightarrow> string \<Rightarrow> partner list \<Rightarrow> cell list list option" where
  "partner_changelist pd ps q partners =
     map_option (map partner_admin_row) (admin_changelist pd partner_list_filter partner_search_fields ps q partners)"

definition article_changelist :: "article list \<Rightarrow> cell list list" where
  "article_changelist articles = map article_admin_row articles"

text \<open>A row passes one lookup of a filter (a lookup whose value does not convert passes no row).\<close>

definition lookup_holds :: "(string \<Rightarrow> timestamp option) \<Rightarrow> 'a list_filter \<Rightarrow> string \<times> string \<Rightarrow> 'a \<Rightarrow> bool" where
  "lookup_holds pd f kv r = (case filter_lookup pd f kv of None \<Rightarrow> False | Some P \<Rightarrow> P r)"

section \<open>The partner add and change forms\<close>

text \<open>
  The form holds the fields of the fieldsets minus \<open>readonly_fields\<close>: name, email,
  phone, tier, monthly fee (in kopecks) and status. The statistics counters and
  \<open>created_at\<close> are read only. Text inputs are trimmed. An empty optional input is
  stored as null, the \<open>empty_value\<close> of a nullable field.
\<close>

record partner_form =
  pf_name :: string
  pf_email :: string
  pf_phone :: string
  pf_tier :: string
  pf_monthly_fee :: int
  pf_status :: string

record partner_fields =
  cf_name :: string
  cf_email :: "string option"
  cf_phone :: "string option"
  cf_tier :: partner_tier
  cf_monthly_fee :: int
  cf_status :: partner_status

definition parse_partner_tier :: "string \<Rightarrow> partner_tier option" where
  "parse_partner_tier s = find (\<lambda>t. partner_tier_value t = s) [Basic, Premium, Vip]"

definition parse_partner_status :: "string \<Rightarrow> partner_status option" where
  "parse_partner_status s = find (\<lambda>t. partner_status_value t = s) [Active, Paused, Suspended]"

text \<open>
  The form's validation: \<open>max_length\<close> counts characters; \<open>DecimalField(max_digits=8,
  decimal_places=2)\<close> allows at most six integer digits, so fewer than \<open>10^8\<close> kopecks.
\<close>

definition clean_partner_form :: "(string \<Rightarrow> bool) \<Rightarrow> partner_form \<Rightarrow> error + partner_fields" where
  "clean_partner_form email_valid f =
     (let name = py_strip (pf_name f); email = py_strip (pf_email f); phone = py_strip (pf_phone f);
          errs = (if name = [] \<or> 200 < utf8_length name then [''name''] else []) @
                 (if email \<noteq> [] \<and> (254 < utf8_length email \<or> \<not> email_valid email) then [''email''] else []) @
                 (if 20 < utf8_length phone then [''phone''] else []) @
                 (if parse_partner_tier (pf_tier f) = None then [''tier''] else []) @
                 (if 10 ^ 8 \<le> \<bar>pf_monthly_fee f\<bar> then [''monthly_fee''] else []) @
                 (if parse_partner_status (pf_status f) = None then [''status''] else [])
      in if errs \<noteq> [] then Inl (Validation_Error errs)
         else case (parse_partner_tier (pf_tier f), parse_partner_status (pf_status f)) of
           (Some t, Some st) \<Rightarrow>
             Inr \<lparr>cf_name = name, cf_email = (if email = [] then None else Some email),
                  cf_phone = (if phone = [] then None else Some phone), cf_tier = t,
                  cf_monthly_fee = pf_monthly_fee f, cf_status = st\<rparr>
         | _ \<Rightarrow> Inl (Validation_Error [''tier'', ''status'']))"

definition apply_partner_fields :: "partner_fields \<Rightarrow> partner \<Rightarrow> partner" where
  "apply_partner_fields cf p =
     p\<lparr>partner_name := cf_name cf, partner_email := cf_email cf, partner_phone := cf_phone cf,
       partner_tier := cf_tier cf, monthly_fee := cf_monthly_fee cf, partner_status := cf_status cf\<rparr>"

text \<open>The change view: the partner by key, then the form saved over its editable fields.\<close>

definition partner_admin_change ::
  "(string \<Rightarrow> bool) \<Rightarrow> partner_form \<Rightarrow> ident \<Rightarrow> partner list \<Rightarrow> error + partner list" where
  "partner_admin_change email_valid f pid ps =
     (case find (\<lambda>p. partner_id p = pid) ps of
        None \<Rightarrow> Inl (Object_Not_Found ''Partner'')
      | Some _ \<Rightarrow> (case clean_partner_form email_valid f of
                     Inl e \<Rightarrow> Inl e
                   | Inr cf \<Rightarrow> Inr (update_where (\<lambda>p. partner_id p = pid) (apply_partner_fields cf) ps)))"

text \<open>
  The add view: a new partner with the model's defaults (the key from \<open>uuid4\<close>,
  here a parameter), counters at zero, created now, and the form's fields.
\<close>

definition partner_admin_add ::
  "(string \<Rightarrow> bool) \<Rightarrow> partner_form \<Rightarrow> ident \<Rightarrow> timestamp \<Rightarrow> partner list \<Rightarrow> error + partner list" where
  "partner_admin_add email_valid f pid now ps =
     (case clean_partner_form email_valid f of
        Inl e \<Rightarrow> Inl e
      | Inr cf \<Rightarrow> if pid \<in> set (map partner_id ps) then Inl Integrity_Error
                 else Inr (ps @ [apply_partner_fields cf (mk_partner pid (cf_name cf) (cf_tier cf) (cf_monthly_fee cf) now)]))"

text \<open>The bounds the form enforces on a stored partner.\<close>

definition partner_fields_bounded :: "partner \<Rightarrow> bool" where
  "partner_fields_bounded p \<longleftrightarrow>
     partner_name p \<noteq> [] \<and> utf8_length (partner_name p) \<le> 200 \<and>
     (case partner_email p of None \<Rightarrow> True | Some e \<Rightarrow> utf8_length e \<le> 254) \<and>
     (case partner_phone p of None \<Rightarrow> True | Some ph \<Rightarrow> utf8_length ph \<le> 20) \<and>
     \<bar>monthly_fee p\<bar> < 10 ^ 8"

text \<open>The read-only part of a partner row: its key, its counters and its creation time.\<close>

definition partner_counters :: "partner \<Rightarrow> ident \<times> int \<times> int \<times> timestamp option \<times> timestamp" where
  "partner_counters p =
     (partner_id p, total_impressions p, impressions_this_month p, last_impression_date p, partner_created_at p)"

section \<open>Lemmas\<close>

lemma foldl_filter_conj:
  "foldl (\<lambda>rs t. filter (P t) rs) rows ts = filter (\<lambda>r. \<forall>t \<in> set ts. P t r) rows"
proof (induction ts arbitrary: rows)
  case Nil
  then show ?case by simp
next
  case (Cons t ts)
  then show ?case by (simp add: conj_commute)
qed

lemma those_map_None [simp]:
  "those (map g xs) = None \<longleftrightarrow> (\<exists>x \<in> set xs. g x = None)"
  by (induction xs) (auto split: option.splits)

lemma those_map_Some_all:
  "those (map g xs) = Some ys \<Longrightarrow>
     list_all (\<lambda>P. P r) ys \<longleftrightarrow> (\<forall>x \<in> set xs. case g x of None \<Rightarrow> False | Some P \<Rightarrow> P r)"
proof (induction xs arbitrary: ys)
  case Nil
  then show ?case by simp
next
  case (Cons x xs)
  then obtain P Ps where "g x = Some P" "those (map g xs) = Some Ps" "ys = P # Ps"
    by (auto split: option.splits)
  with Cons.IH show ?case by simp
qed

lemma spec_queryset_conj:
  "spec_queryset pd f ps rows =
     (if \<exists>kv \<in> set (used_parameters f ps). filter_lookup pd f kv = None then None
      else Some (filter (\<lambda>r. \<forall>kv \<in> set (used_parameters f ps). lookup_holds pd f kv r) rows))"
proof (cases "those (map (filter_lookup pd f) (used_parameters f ps))")
  case None
  then show ?thesis by (simp add: spec_queryset_def)
next
  case (Some Ps)
  then have "\<not> (\<exists>kv \<in> set (used_parameters f ps). filter_lookup pd f kv = None)"
    using those_map_None [of "filter_lookup pd f" "used_parameters f ps"] by auto
  with Some show ?thesis
    by (simp add: spec_queryset_def those_map_Some_all [OF Some] lookup_holds_def)
qed

lemma apply_list_filters_conj:
  "apply_list_filters pd fs ps rows =
     (if \<exists>f \<in> set fs. \<exists>kv \<in> set (used_parameters f ps). filter_lookup pd f kv = None then None
      else Some (filter (\<lambda>r. \<forall>f \<in> set fs. \<forall>kv \<in> set (used_parameters f ps). lookup_holds pd f kv r) rows))"
proof (induction fs arbitrary: rows)
  case Nil
  then show ?case by simp
next
  case (Cons f fs)
  then show ?case by (auto simp: spec_queryset_conj filter_filter conj_commute)
qed

lemma clean_partner_form_Inr:
  assumes "clean_partner_form ev f = Inr cf"
  shows "cf_name cf \<noteq> [] \<and> utf8_length (cf_name cf) \<le> 200 \<and>
         (case cf_email cf of None \<Rightarrow> True | Some e \<Rightarrow> utf8_length e \<le> 254) \<and>
         (case cf_phone cf of None \<Rightarrow> True | Some ph \<Rightarrow> utf8_length ph \<le> 20) \<and>
         \<bar>cf_monthly_fee cf\<bar> < 10 ^ 8"
  using assms
  by (auto simp: clean_partner_form_def Let_def split: if_splits option.splits prod.splits)

lemma apply_partner_fields_bounded:
  "clean_partner_form ev f = Inr cf \<Longrightarrow> partner_fields_bounded (apply_partner_fields cf p)"
  using clean_partner_form_Inr [of ev f cf]
  by (simp add: partner_fields_bounded_def apply_partner_fields_def)

lemma partner_counters_apply [simp]:
  "partner_counters (apply_partner_fields cf p) = partner_counters p"
  by (simp add: partner_counters_def apply_partner_fields_def)

lemma partner_id_apply [simp]: "partner_id (apply_partner_fields cf p) = partner_id p"
  by (simp add: apply_partner_fields_def)

lemma impressions_apply [simp]:
  "impressions_this_month (apply_partner_fields cf p) = impressions_this_month p"
  "total_impressions (apply_partner_fields cf p) = total_impressions p"
  by (simp_all add: apply_partner_fields_def)

lemma partner_admin_change_Inr:
  "partner_admin_change ev f pid ps = Inr ps' \<Longrightarrow>
     \<exists>cf. clean_partner_form ev f = Inr cf \<and> ps' = update_where (\<lambda>p. partner_id p = pid) (apply_partner_fields cf) ps"
  by (auto simp: partner_admin_change_def split: option.splits sum.splits)

lemma partner_admin_add_Inr:
  "partner_admin_add ev f pid now ps = Inr ps' \<Longrightarrow>
     \<exists>cf. clean_partner_form ev f = Inr cf \<and> pid \<notin> set (map partner_id ps) \<and>
          ps' = ps @ [apply_partner_fields cf (mk_partner pid (cf_name cf) (cf_tier cf) (cf_monthly_fee cf) now)]"
  by (auto simp: partner_admin_add_def split: sum.splits if_splits)

section \<open>Properties of the admin\<close>

text \<open>
  C32. The changelist filters convert their parameters as Django's field list filters
  do, on the code's own admin classes. In \<open>RouteAdmin\<close> a status, a creation-time
  range and a user selected together keep exactly the routes with that status, created
  in the range, of the user whose id \<open>int()\<close> reads from the parameter, before the
  search. If a date does not parse or the user id is not an integer, the answer is the
  \<open>IncorrectLookupParameters\<close> redirect. In \<open>FeedbackAdmin\<close> \<open>going__exact\<close> accepts
  exactly \<open>t\<close>, \<open>True\<close>, \<open>1\<close> (true) and \<open>f\<close>, \<open>False\<close>, \<open>0\<close> (false), as
  \<open>BooleanField.to_python\<close> does; any other value is the redirect. In \<open>PointAdmin\<close>
  the city filter has no output with at most one city, and its parameter is then dropped;
  with more cities it keeps the points of the selected city.
\<close>

theorem admin_changelist_filters:
  "(accts \<noteq> [] \<longrightarrow>
     route_changelist pd accts
       [(''status__exact'', s), (''created_at__gte'', a), (''created_at__lt'', b), (''user__id__exact'', u)] q d =
     (case (pd a, pd b, py_int u) of
        (Some ta, Some tb, Inr n) \<Rightarrow>
          Some (map (route_admin_row accts) (admin_search (route_search_fields accts) q
            (filter (\<lambda>r. walk_status_value (route_status r) = s \<and> ta \<le> route_created_at r \<and>
                        route_created_at r < tb \<and> (\<exists>uid. route_user r = Some uid \<and> int uid = n))
              (db_routes d))))
      | _ \<Rightarrow> None)) \<and>
   feedback_changelist pd [(''going__exact'', v)] q d =
     (if v \<in> set [''t'', ''True'', ''1'', ''f'', ''False'', ''0''] then
        Some (map (feedback_admin_row (db_routes d)) (admin_search feedback_search_fields q
          (filter (\<lambda>f. going f = (v \<in> set [''t'', ''True'', ''1''])) (db_feedbacks d))))
      else None) \<and>
   (length (db_cities d) \<le> 1 \<longrightarrow> point_changelist [(''city__id__exact'', c)] q d = point_changelist [] q d) \<and>
   (1 < length (db_cities d) \<longrightarrow>
      point_changelist [(''city__id__exact'', c)] q d =
      Some (map (point_admin_row (db_cities d)) (admin_search (point_search_fields (db_cities d)) q
        (filter (\<lambda>p. point_city p = c) (db_points d)))))"
proof (intro conjI impI)
  assume "accts \<noteq> []"
  then show "route_changelist pd accts
       [(''status__exact'', s), (''created_at__gte'', a), (''created_at__lt'', b), (''user__id__exact'', u)] q d =
     (case (pd a, pd b, py_int u) of
        (Some ta, Some tb, Inr n) \<Rightarrow>
          Some (map (route_admin_row accts) (admin_search (route_search_fields accts) q
            (filter (\<lambda>r. walk_status_value (route_status r) = s \<and> ta \<le> route_created_at r \<and>
                        route_created_at r < tb \<and> (\<exists>uid. route_user r = Some uid \<and> int uid = n))
              (db_routes d))))
      | _ \<Rightarrow> None)"
    by (auto simp: route_changelist_def admin_changelist_def apply_list_filters_conj route_list_filter_def
        used_parameters_def lookup_holds_def all_conj_distrib split: option.splits sum.splits intro!: filter_cong)
next
  show "feedback_changelist pd [(''going__exact'', v)] q d =
     (if v \<in> set [''t'', ''True'', ''1'', ''f'', ''False'', ''0''] then
        Some (map (feedback_admin_row (db_routes d)) (admin_search feedback_search_fields q
          (filter (\<lambda>f. going f = (v \<in> set [''t'', ''True'', ''1''])) (db_feedbacks d))))
      else None)"
    by (auto simp: feedback_changelist_def admin_changelist_def apply_list_filters_conj feedback_list_filter_def
        used_parameters_def lookup_holds_def bool_to_python_def intro!: filter_cong)
next
  assume "length (db_cities d) \<le> 1"
  then show "point_changelist [(''city__id__exact'', c)] q d = point_changelist [] q d"
    by (simp add: point_changelist_def admin_changelist_def apply_list_filters_conj point_list_filter_def
        used_parameters_def)
next
  assume "1 < length (db_cities d)"
  then show "point_changelist [(''city__id__exact'', c)] q d =
      Some (map (point_admin_row (db_cities d)) (admin_search (point_search_fields (db_cities d)) q
        (filter (\<lambda>p. point_city p = c) (db_points d))))"
    by (simp add: point_changelist_def admin_changelist_def apply_list_filters_conj point_list_filter_def
        used_parameters_def lookup_holds_def)
qed


theorem admin_changelist_filters_witness:
  "route_changelist (\<lambda>s. if s = ''bad'' then None else Some (length s))
     [\<lparr>acc_id = 1, acc_username = ''ann'', acc_email = ''ann'', acc_password = ''x'', acc_is_active = True, acc_is_staff = False, acc_date_joined = 0\<rparr>]
     [(''status__exact'', ''done''), (''created_at__gte'', ''x''), (''created_at__lt'', ''xxxxxxxxx''), (''user__id__exact'', ''1'')] ''''
     ((empty_db :: nat db)\<lparr>db_routes := [(mk_route ''r1'' 5 60 (Some 1) None [] [])\<lparr>route_status := Done\<rparr>, mk_route ''r2'' 5 60 (Some 1) None [] []]\<rparr>) =
   Some [route_admin_row [\<lparr>acc_id = 1, acc_username = ''ann'', acc_email = ''ann'', acc_password = ''x'', acc_is_active = True, acc_is_staff = False, acc_date_joined = 0\<rparr>]
           ((mk_route ''r1'' 5 60 (Some 1) None [] [])\<lparr>route_status := Done\<rparr>)] \<and>
   route_changelist (\<lambda>s. if s = ''bad'' then None else Some (length s))
     [\<lparr>acc_id = 1, acc_username = ''ann'', acc_email = ''ann'', acc_password = ''x'', acc_is_active = True, acc_is_staff = False, acc_date_joined = 0\<rparr>]
     [(''status__exact'', ''done''), (''created_at__gte'', ''x''), (''created_at__lt'', ''xxxxxxxxx''), (''user__id__exact'', ''one'')] ''''
     ((empty_db :: nat db)\<lparr>db_routes := [(mk_route ''r1'' 5 60 (Some 1) None [] [])\<lparr>route_status := Done\<rparr>, mk_route ''r2'' 5 60 (Some 1) None [] []]\<rparr>) = None \<and>
   feedback_changelist (\<lambda>_. None) [(''going__exact'', ''yes'')] '''' (empty_db :: nat db) = None"
proof -
  note R = admin_changelist_filters [where pd = "\<lambda>s. if s = ''bad'' then None else Some (length s)"
      and accts = "[\<lparr>acc_id = 1, acc_username = ''ann'', acc_email = ''ann'', acc_password = ''x'', acc_is_active = True, acc_is_staff = False, acc_date_joined = 0\<rparr>]"
      and s = "''done''" and a = "''x''" and b = "''xxxxxxxxx''" and q = "''''"
      and d = "(empty_db :: nat db)\<lparr>db_routes := [(mk_route ''r1'' 5 60 (Some 1) None [] [])\<lparr>route_status := Done\<rparr>, mk_route ''r2'' 5 60 (Some 1) None [] []]\<rparr>"]
  have p1: "py_int ''1'' = Inr 1" and p2: "\<exists>e. py_int ''one'' = Inl e"
    by (simp_all add: py_int_eval)
  have s0: "search_terms '''' = []" by (simp add: search_terms_def)
  from conjunct1 [OF R [where u = "''1''"]] p1 s0
  have w1: "route_changelist (\<lambda>s. if s = ''bad'' then None else Some (length s))
     [\<lparr>acc_id = 1, acc_username = ''ann'', acc_email = ''ann'', acc_password = ''x'', acc_is_active = True, acc_is_staff = False, acc_date_joined = 0\<rparr>]
     [(''status__exact'', ''done''), (''created_at__gte'', ''x''), (''created_at__lt'', ''xxxxxxxxx''), (''user__id__exact'', ''1'')] ''''
     ((empty_db :: nat db)\<lparr>db_routes := [(mk_route ''r1'' 5 60 (Some 1) None [] [])\<lparr>route_status := Done\<rparr>, mk_route ''r2'' 5 60 (Some 1) None [] []]\<rparr>) =
   Some [route_admin_row [\<lparr>acc_id = 1, acc_username = ''ann'', acc_email = ''ann'', acc_password = ''x'', acc_is_active = True, acc_is_staff = False, acc_date_joined = 0\<rparr>]
           ((mk_route ''r1'' 5 60 (Some 1) None [] [])\<lparr>route_status := Done\<rparr>)]"
    by (simp add: admin_search_def mk_route_def)
  from p2 obtain e where e: "py_int ''one'' = Inl e" ..
  from conjunct1 [OF R [where u = "''one''"]] e
  have w2: "route_changelist (\<lambda>s. if s = ''bad'' then None else Some (length s))
     [\<lparr>acc_id = 1, acc_username = ''ann'', acc_email = ''ann'', acc_password = ''x'', acc_is_active = True, acc_is_staff = False, acc_date_joined = 0\<rparr>]
     [(''status__exact'', ''done''), (''created_at__gte'', ''x''), (''created_at__lt'', ''xxxxxxxxx''), (''user__id__exact'', ''one'')] ''''
     ((empty_db :: nat db)\<lparr>db_routes := [(mk_route ''r1'' 5 60 (Some 1) None [] [])\<lparr>route_status := Done\<rparr>, mk_route ''r2'' 5 60 (Some 1) None [] []]\<rparr>) = None"
    by simp
  from conjunct1 [OF conjunct2 [OF admin_changelist_filters [where pd = "\<lambda>_. None" and v = "''yes''" and q = "''''" and d = "empty_db :: nat db"]]]
  have w3: "feedback_changelist (\<lambda>_. None) [(''going__exact'', ''yes'')] '''' (empty_db :: nat db) = None"
    by simp
  from w1 w2 w3 show ?thesis by blast
qed

text \<open>
  C33. The partner forms never touch what \<open>readonly_fields\<close> protects: saving the
  change form keeps every partner's key, counters and creation time. The add form
  appends one partner with zero counters, created now. Both keep the partner table
  well formed.
\<close>

theorem partner_admin_forms_keep_counters:
  assumes "partners_wf ps"
  shows "(partner_admin_change ev f pid ps = Inr ps' \<longrightarrow>
            partners_wf ps' \<and> map partner_counters ps' = map partner_counters ps) \<and>
         (partner_admin_add ev f pid now ps = Inr ps'' \<longrightarrow>
            partners_wf ps'' \<and> map partner_counters ps'' = map partner_counters ps @ [(pid, 0, 0, None, now)])"
proof (rule conjI; rule impI)
  assume "partner_admin_change ev f pid ps = Inr ps'"
  then obtain cf where ps': "ps' = update_where (\<lambda>p. partner_id p = pid) (apply_partner_fields cf) ps"
    by (auto dest: partner_admin_change_Inr)
  have "map partner_counters ps' = map partner_counters ps"
    by (simp add: ps' map_update_where_keep)
  moreover have "map partner_id ps' = map partner_id ps"
    by (simp add: ps' map_update_where_keep)
  ultimately show "partners_wf ps' \<and> map partner_counters ps' = map partner_counters ps"
    using assms by (auto simp: partners_wf_def ps' set_update_where)
next
  assume "partner_admin_add ev f pid now ps = Inr ps''"
  then obtain cf where fresh: "pid \<notin> set (map partner_id ps)"
    and ps'': "ps'' = ps @ [apply_partner_fields cf (mk_partner pid (cf_name cf) (cf_tier cf) (cf_monthly_fee cf) now)]"
    by (auto dest: partner_admin_add_Inr)
  show "partners_wf ps'' \<and> map partner_counters ps'' = map partner_counters ps @ [(pid, 0, 0, None, now)]"
    using assms fresh
    by (auto simp: partners_wf_def ps'' partner_counters_def mk_partner_def apply_partner_fields_def)
qed

theorem partner_admin_forms_keep_counters_witness:
  "partner_admin_change (\<lambda>e. CHR ''@'' \<in> set e) \<lparr>pf_name = ''Cafe Arbat'', pf_email = '''', pf_phone = '' +7 495 '', pf_tier = ''vip'', pf_monthly_fee = 1500000, pf_status = ''paused''\<rparr> ''p1'' [mk_partner ''p1'' ''Cafe'' Basic 100000 1] = Inr [apply_partner_fields
      \<lparr>cf_name = ''Cafe Arbat'', cf_email = None, cf_phone = Some ''+7 495'', cf_tier = Vip,
       cf_monthly_fee = 1500000, cf_status = Paused\<rparr> (mk_partner ''p1'' ''Cafe'' Basic 100000 1)] \<and>
   map partner_counters [apply_partner_fields
      \<lparr>cf_name = ''Cafe Arbat'', cf_email = None, cf_phone = Some ''+7 495'', cf_tier = Vip,
       cf_monthly_fee = 1500000, cf_status = Paused\<rparr> (mk_partner ''p1'' ''Cafe'' Basic 100000 1)] = [(''p1'', 0, 0, None, 1)]"
proof -
  let ?cf = "\<lparr>cf_name = ''Cafe Arbat'', cf_email = None, cf_phone = Some ''+7 495'', cf_tier = Vip,
       cf_monthly_fee = 1500000, cf_status = Paused\<rparr>"
  have wf: "partners_wf [mk_partner ''p1'' ''Cafe'' Basic 100000 1]" by (simp add: partners_wf_def mk_partner_def)
  have c: "clean_partner_form (\<lambda>e. CHR ''@'' \<in> set e) \<lparr>pf_name = ''Cafe Arbat'', pf_email = '''', pf_phone = '' +7 495 '', pf_tier = ''vip'', pf_monthly_fee = 1500000, pf_status = ''paused''\<rparr> = Inr ?cf"
    by (simp add: clean_partner_form_def py_strip_def py_whitespace_def utf8_length_def
        parse_partner_tier_def parse_partner_status_def)
  have r: "partner_admin_change (\<lambda>e. CHR ''@'' \<in> set e) \<lparr>pf_name = ''Cafe Arbat'', pf_email = '''', pf_phone = '' +7 495 '', pf_tier = ''vip'', pf_monthly_fee = 1500000, pf_status = ''paused''\<rparr> ''p1'' [mk_partner ''p1'' ''Cafe'' Basic 100000 1] = Inr [apply_partner_fields ?cf (mk_partner ''p1'' ''Cafe'' Basic 100000 1)]"
    by (simp add: partner_admin_change_def c mk_partner_def)
  from partner_admin_forms_keep_counters [OF wf, of "(\<lambda>e. CHR ''@'' \<in> set e)" "\<lparr>pf_name = ''Cafe Arbat'', pf_email = '''', pf_phone = '' +7 495 '', pf_tier = ''vip'', pf_monthly_fee = 1500000, pf_status = ''paused''\<rparr>" "''p1''" "[apply_partner_fields ?cf (mk_partner ''p1'' ''Cafe'' Basic 100000 1)]"] r
  have "map partner_counters [apply_partner_fields ?cf (mk_partner ''p1'' ''Cafe'' Basic 100000 1)] = map partner_counters [mk_partner ''p1'' ''Cafe'' Basic 100000 1]" by simp
  with r show ?thesis by (simp add: partner_counters_def mk_partner_def)
qed

text \<open>
  C34. The partner forms enforce the column bounds: when every stored partner satisfies
  them, so does every partner after a successful add or change. The bounds are a
  non-empty name of at most 200 characters, an email of at most 254, a phone of at
  most 20, and a monthly fee under one million roubles (\<open>10^8\<close> kopecks).
\<close>

theorem partner_admin_forms_bounded:
  assumes "\<forall>p \<in> set ps. partner_fields_bounded p"
  shows "(partner_admin_change ev f pid ps = Inr ps' \<longrightarrow> (\<forall>p \<in> set ps'. partner_fields_bounded p)) \<and>
         (partner_admin_add ev f pid now ps = Inr ps'' \<longrightarrow> (\<forall>p \<in> set ps''. partner_fields_bounded p))"
proof (rule conjI; rule impI)
  assume "partner_admin_change ev f pid ps = Inr ps'"
  then obtain cf where c: "clean_partner_form ev f = Inr cf"
    and ps': "ps' = update_where (\<lambda>p. partner_id p = pid) (apply_partner_fields cf) ps"
    by (auto dest: partner_admin_change_Inr)
  show "\<forall>p \<in> set ps'. partner_fields_bounded p"
    using assms apply_partner_fields_bounded [OF c] by (auto simp: ps' set_update_where)
next
  assume "partner_admin_add ev f pid now ps = Inr ps''"
  then obtain cf where c: "clean_partner_form ev f = Inr cf"
    and ps'': "ps'' = ps @ [apply_partner_fields cf (mk_partner pid (cf_name cf) (cf_tier cf) (cf_monthly_fee cf) now)]"
    by (auto dest: partner_admin_add_Inr)
  show "\<forall>p \<in> set ps''. partner_fields_bounded p"
    using assms apply_partner_fields_bounded [OF c] by (auto simp: ps'')
qed

theorem partner_admin_forms_bounded_witness:
  "partner_fields_bounded (mk_partner ''p1'' ''Cafe'' Basic 100000 1) \<and>
   partner_admin_add (\<lambda>e. CHR ''@'' \<in> set e) \<lparr>pf_name = ''Cafe Arbat'', pf_email = '''', pf_phone = '' +7 495 '', pf_tier = ''vip'', pf_monthly_fee = 1500000, pf_status = ''paused''\<rparr> ''p2'' 5 [mk_partner ''p1'' ''Cafe'' Basic 100000 1] =
     Inr [mk_partner ''p1'' ''Cafe'' Basic 100000 1, apply_partner_fields
      \<lparr>cf_name = ''Cafe Arbat'', cf_email = None, cf_phone = Some ''+7 495'', cf_tier = Vip,
       cf_monthly_fee = 1500000, cf_status = Paused\<rparr> (mk_partner ''p2'' ''Cafe Arbat'' Vip 1500000 5)] \<and>
   partner_fields_bounded (apply_partner_fields
      \<lparr>cf_name = ''Cafe Arbat'', cf_email = None, cf_phone = Some ''+7 495'', cf_tier = Vip,
       cf_monthly_fee = 1500000, cf_status = Paused\<rparr> (mk_partner ''p2'' ''Cafe Arbat'' Vip 1500000 5))"
proof -
  let ?cf = "\<lparr>cf_name = ''Cafe Arbat'', cf_email = None, cf_phone = Some ''+7 495'', cf_tier = Vip,
       cf_monthly_fee = 1500000, cf_status = Paused\<rparr>"
  let ?new = "apply_partner_fields ?cf (mk_partner ''p2'' ''Cafe Arbat'' Vip 1500000 5)"
  have b: "partner_fields_bounded (mk_partner ''p1'' ''Cafe'' Basic 100000 1)" by (simp add: partner_fields_bounded_def mk_partner_def utf8_length_def)
  have c: "clean_partner_form (\<lambda>e. CHR ''@'' \<in> set e) \<lparr>pf_name = ''Cafe Arbat'', pf_email = '''', pf_phone = '' +7 495 '', pf_tier = ''vip'', pf_monthly_fee = 1500000, pf_status = ''paused''\<rparr> = Inr ?cf"
    by (simp add: clean_partner_form_def py_strip_def py_whitespace_def utf8_length_def
        parse_partner_tier_def parse_partner_status_def)
  have r: "partner_admin_add (\<lambda>e. CHR ''@'' \<in> set e) \<lparr>pf_name = ''Cafe Arbat'', pf_email = '''', pf_phone = '' +7 495 '', pf_tier = ''vip'', pf_monthly_fee = 1500000, pf_status = ''paused''\<rparr> ''p2'' 5 [mk_partner ''p1'' ''Cafe'' Basic 100000 1] = Inr [mk_partner ''p1'' ''Cafe'' Basic 100000 1, ?new]"
    by (simp add: partner_admin_add_def c mk_partner_def)
  from partner_admin_forms_bounded [of "[mk_partner ''p1'' ''Cafe'' Basic 100000 1]" "(\<lambda>e. CHR ''@'' \<in> set e)" "\<lparr>pf_name = ''Cafe Arbat'', pf_email = '''', pf_phone = '' +7 495 '', pf_tier = ''vip'', pf_monthly_fee = 1500000, pf_status = ''paused''\<rparr>" "''p2''" _ 5 "[mk_partner ''p1'' ''Cafe'' Basic 100000 1, ?new]"] b r
  have "partner_fields_bounded ?new" by simp
  with b r show ?thesis by simp
qed

end
