(* ===== verification/Spec2Isabelle.thy ===== *)
theory Spec2Isabelle
  imports Gateway Urls Partners Articles Admin
begin

text \<open>
  \<^bold>\<open>A model of the Tropka route service.\<close>
  The repository is a Django REST service (\<open>src/apps\<close>). Users fill in a form
  (cities, interests, moods), ask for a walking route, then walk it and change its
  status (going, done, cancelled), leave feedback, and read their route list and
  statistics. Administrators compute embedding vectors for the points of interest
  through an external client, and manage partners and articles in the Django admin.

  \<^bold>\<open>Theories and the code they model.\<close>
  \<^item> \<open>Prelude\<close>: the error datatype and its HTTP status codes (one constructor per
    400/404 answer and per uncaught exception), Python truthiness of request
    parameters, \<open>str.join\<close> and \<open>str.split\<close>, and \<open>update_where\<close>, the SQL
    \<open>UPDATE ... WHERE\<close> over a table kept as a list, with its lemmas.
  \<^item> \<open>PyText\<close>: the Python builtins the views call on text: \<open>str.strip\<close>,
    \<open>str(i)\<close> and \<open>int(s)\<close>, with the round trip \<open>int(str(i)) = i\<close>, and
    \<open>int(x)\<close> of a value decoded from a JSON request body.
  \<^item> \<open>Models\<close>: \<open>src/apps/routes/models.py\<close>. One record per model class,
    \<open>WalkStatus\<close> as a datatype, many-to-many relations as key lists, and the
    database as the record \<open>db\<close> of tables in primary-key insertion order.
    \<open>db_wf\<close> is the invariant: unique keys, at most one embedding per existing point,
    every route's \<open>point_sequence\<close> inside its point set, and every feedback row on an
    existing route with a rating in 1..5.
  \<^item> \<open>TextComposer\<close>: \<open>build_point_text\<close> of \<open>src/apps/core/services.py\<close>, with
    Django's field resolution for \<open>values_list\<close>.
  \<^item> \<open>EmbeddingStore\<close>: the three views of \<open>src/apps/core/views.py\<close>. They are loops
    over the point table with the commit discipline of the code: rows created before a
    failure stay in \<open>EmbedMissingPointsView\<close>, and \<open>transaction.atomic\<close> rolls back
    \<open>EmbedRefreshPointsView\<close>.
  \<^item> \<open>Urls\<close>: the \<open>urlpatterns\<close> of \<open>src/apps/routes/urls.py\<close>,
    \<open>src/apps/core/urls.py\<close> and \<open>src/apps/users/urls.py\<close> as data, with
    Django's \<open>path()\<close> matching (literals and the \<open>str\<close> converter), first-match
    resolution, and \<open>reverse()\<close>.
  \<^item> \<open>RouteLifecycle\<close>: the route views of \<open>src/apps/routes/views.py\<close>: edit status,
    cancel, detail, feedback (with \<open>int()\<close> of the rating as sent), and generation
    through the stub of
    \<open>src/apps/routes/generator/generator.py\<close>.
  \<^item> \<open>Statistics\<close>: \<open>UserStatisticsView\<close> and \<open>UserRoutesListView\<close> of
    \<open>src/apps/users/views.py\<close>, the latter with the \<open>int()\<close> parsing of its
    \<open>limit\<close> and \<open>offset\<close> query parameters.
  \<^item> \<open>Catalog\<close>: \<open>FormDataView\<close>, \<open>CityAreaView\<close> and the serializers of
    \<open>src/apps/routes/serializers.py\<close>.
  \<^item> \<open>Partners\<close>: the \<open>Partner\<close> model and the bulk actions of \<open>PartnerAdmin\<close>.
  \<^item> \<open>Articles\<close>: the \<open>Article\<close> model and \<open>get_seo_title\<close>.
  \<^item> \<open>Accounts\<close>: registration, login and token refresh of
    \<open>src/apps/users/views.py\<close> and \<open>src/apps/users/serializers.py\<close>, over a user table of
    its own. DRF's field validation, \<open>create_user\<close> with \<open>normalize_email\<close>, and
    \<open>ModelBackend.authenticate\<close> are written out. The validators, the password
    hasher and the JWT library are the parameters of \<open>auth_env\<close>. \<open>auth_step\<close>
    dispatches the four authentication URLs of \<open>src/apps/users/urls.py\<close>
    (\<open>UserView\<close> answers \<open>Not_Authenticated\<close>, a 401, without a user). These
    views never touch the route database, and the route views never touch the user table.
  \<^item> \<open>Admin\<close>: the Django admin. It covers the models' \<open>__str__\<close>, the
    changelist rows (\<open>list_display\<close>) and search (\<open>search_fields\<close>) of
    \<open>src/apps/routes/admin.py\<close>, \<open>src/apps/partners/admin.py\<close> and
    \<open>src/apps/articles/admin.py\<close>, the changelist filters (\<open>list_filter\<close>: one
    \<open>FieldListFilter\<close> per field, its query parameters and their conversion), the
    changelist query of each admin class, and the
    partner add and change forms with their \<open>readonly_fields\<close>.
  \<^item> \<open>Api\<close>: the route endpoints as a datatype of calls, \<open>api_step\<close> (the URL
    dispatch of \<open>src/apps/routes/urls.py\<close>, \<open>src/apps/core/urls.py\<close> and the route
    part of \<open>src/apps/users/urls.py\<close>), \<open>api_run\<close> over a sequence of requests, and
    the \<open>reachable\<close> databases.
  \<^item> \<open>Gateway\<close>: DRF's request pipeline in front of every view. A bearer token is
    authenticated (\<open>jwt_user\<close>: simplejwt's user lookup and \<open>is_active\<close> check),
    the view's \<open>permission_classes\<close> are checked (\<open>api_permission\<close>,
    \<open>auth_permission\<close>, \<open>check_permission\<close>), and the request runs as
    \<open>request.user\<close> on the service state \<open>system\<close> (user table and route
    database) through \<open>sys_step\<close>. \<open>sys_reachable\<close> is the states any request
    sequence reaches.
  \<^item> This theory: the properties that span the route views, the statistics and the
    dispatch.

  Every view is a function of its request parameters, the authenticated user, the
  server clock, a fresh identifier and the database. It returns the new database
  together with \<open>error + response\<close>: \<open>Inl\<close> is each early return and each
  exception of the code, and \<open>Inr\<close> is the success answer.

  \<^bold>\<open>What is proved.\<close>
  \<^item> Route ownership: a user's answers depend only on that user's routes.
  \<^item> Functional behaviour and error order of every route view. The detail view
    expands exactly the route's stored point set, each point once, beside the stored
    \<open>point_sequence\<close>.
  \<^item> The embedding views, for any composer and client: completeness and idempotence
    of \<open>EmbedMissing\<close>; on its failure, exactly the rows created before the failing
    point stay committed; the all-or-nothing behaviour of \<open>EmbedRefresh\<close>; and the
    404, failure and upsert cases of \<open>EmbedUpdatePointView\<close>. With the composer of the
    code, every view fails with \<open>FieldError\<close> as soon as it has a point to embed.
  \<^item> The URL modules: \<open>reverse()\<close> of every name, with arguments it accepts, builds a
    path that resolves back to that name and those arguments.
  \<^item> The statistics and the paging of the route list, with the \<open>ValueError\<close> of a
    paging parameter that is not an integer; the area lookups.
  \<^item> A refinement of each partner action into a map update, with the count it reports.
  \<^item> The admin changelist filters on the code's admin classes: the route admin's
    status, date-range and user filters, the boolean conversion of the feedback admin,
    and the point admin's city filter, which is dropped when there is only one city;
    an unconvertible parameter gives the \<open>IncorrectLookupParameters\<close> redirect.
  \<^item> The partner forms: they keep the read-only counters, and they bound the stored
    fields (a bounds lemma).
  \<^item> Accounts: a register/login round trip, the lockout of an email with a
    mixed-case domain, the 500 answers of registration, and the 500 on login when
    two accounts share an email. Every user table the authentication endpoints build
    from an empty one is well formed and well typed (a rule induction over
    \<open>auth_reachable\<close>).
  \<^item> \<open>db_wf\<close> holds in every database \<open>reachable\<close> from a well-formed start.
    \<open>reachable d0\<close> is an inductive relation over \<open>api_step\<close>, shown equal to the
    runs of \<open>api_run\<close> from \<open>d0\<close>, with the invariant proved by rule induction. The
    start is arbitrary rather than empty because no endpoint creates routes or points
    (they come from the admin), so from the empty database the runs would be trivial.
  \<^item> The gateway (\<open>Gateway\<close>). Only an authenticated, active account changes the
    route database, and the view then runs as that account. Both tables stay well formed
    over any request sequence. Bad tokens are refused with 401 everywhere,
    public endpoints included, anonymous calls of protected views with 401, and
    non-staff calls of admin views with 403. A user who has just registered
    authenticates as the new account.
  \<^item> A frame preserved by every run: append-only feedback, read-only points, and
    routes changed only in their status.

  \<^bold>\<open>Bounds, fuel and order.\<close>
  Every loop of the code iterates a finite table, so every operation is total by
  structural recursion. The one exception is \<open>py_digits\<close> (\<open>str\<close> of an int),
  which recurses on \<open>n div 10\<close>; the function package proves it terminates. There is
  no fuel and no partial function. Two orders that the database leaves open are fixed:
  \<^item> \<open>order_by("-created_at")\<close> is a stable sort, so ties keep table order;
  \<^item> the favourite city among equally frequent ones is the first seen.
  Decimal fields are integers in hundredths. Strings are UTF-8 byte lists, and
  \<open>max_length\<close> is checked on their character count (\<open>utf8_length\<close>). Vectors are an arbitrary type \<open>'v\<close>. The
  embedding client is a parameter \<open>string \<Rightarrow> 'v option\<close>, where \<open>None\<close> means it raised.

  \<^bold>\<open>Not modelled.\<close>
  \<^item> Inside authentication: password hashing and JWT encoding (library calls, as
    parameters), and non-ASCII whitespace and case in emails.
  \<^item> The project settings are not under \<open>src/\<close>. The gateway assumes JWT
    authentication only (no session authentication or CSRF), no throttling, public
    defaults for the views that declare no permission classes, and a root URLconf
    that includes the three app url modules. Paths in \<open>Urls\<close> are relative to the
    prefixes of that URLconf. It takes a malformed \<open>Authorization\<close>
    header to be no header.
  \<^item> In the admin: the filters' sidebar links, \<open>filter_horizontal\<close> widgets, the
    changelist's default \<open>-pk\<close> ordering (string keys sort by the database's
    collation) and pagination, URL lookups that no filter expects, quoted search terms,
    and the generic add, change and delete forms of the route models (only the partner
    forms, which have read-only fields, are modelled). The parsing of a date-time
    filter value is a parameter.
  \<^item> Column lengths enforced by the database. An email of 151 to 254 characters
    passes the serializer and becomes a username longer than the 150 characters of
    \<open>AbstractUser.username\<close>: PostgreSQL rejects it with \<open>DataError\<close>, SQLite
    stores it. The engine is chosen in the settings, so \<open>create_user\<close> stores it.
  \<^item> The message text of the partner actions.
  \<^item> JSON floats, arrays and objects as request values: the feedback \<open>rating\<close> is
    an integer, a string or a boolean (\<open>json_value\<close>), on which the code's
    \<open>int()\<close> is modelled. The JSON rendering of responses.
\<close>

section \<open>Properties across components\<close>

text \<open>
  C12. Every database the service can reach by API calls, with any client answers,
  from a well-formed database is well formed. Keys are unique, there is at most one
  embedding per existing point, every route's sequence lies inside its point set, and
  every feedback row is on an existing route with a rating in 1..5.
\<close>

theorem reachable_db_wf:
  assumes "db_wf d0" and "reachable d0 d"
  shows "db_wf d"
  using assms(2)
proof (induction rule: reachable.induct)
  case reachable_start
  from assms(1) show ?case .
next
  case (reachable_step d rq)
  from reachable_step.IH show ?case by (rule db_wf_api_step)
qed

theorem reachable_db_wf_witness:
  "db_wf ((empty_db :: nat db)\<lparr>db_routes := [(mk_route ''r1'' 1 60 (Some 7) None [] [])]\<rparr>) \<and> reachable ((empty_db :: nat db)\<lparr>db_routes := [(mk_route ''r1'' 1 60 (Some 7) None [] [])]\<rparr>) (api_step \<lparr>rq_client = \<lambda>s. Some (length s), rq_now = 2, rq_fresh = ''f1'', rq_call = Give_Feedback 7 (Some ''r1'') (Some (J_Int 5)) (Some ''nice'')\<rparr> ((empty_db :: nat db)\<lparr>db_routes := [(mk_route ''r1'' 1 60 (Some 7) None [] [])]\<rparr>)) \<and> db_wf (api_step \<lparr>rq_client = \<lambda>s. Some (length s), rq_now = 2, rq_fresh = ''f1'', rq_call = Give_Feedback 7 (Some ''r1'') (Some (J_Int 5)) (Some ''nice'')\<rparr> ((empty_db :: nat db)\<lparr>db_routes := [(mk_route ''r1'' 1 60 (Some 7) None [] [])]\<rparr>)) \<and>
   length (db_feedbacks (api_step \<lparr>rq_client = \<lambda>s. Some (length s), rq_now = 2, rq_fresh = ''f1'', rq_call = Give_Feedback 7 (Some ''r1'') (Some (J_Int 5)) (Some ''nice'')\<rparr> ((empty_db :: nat db)\<lparr>db_routes := [(mk_route ''r1'' 1 60 (Some 7) None [] [])]\<rparr>))) = 1"
proof -
  have w: "db_wf ((empty_db :: nat db)\<lparr>db_routes := [(mk_route ''r1'' 1 60 (Some 7) None [] [])]\<rparr>)" by (simp add: db_wf_def emb_wf_def route_consistent_def mk_route_def empty_db_def)
  have r: "reachable ((empty_db :: nat db)\<lparr>db_routes := [(mk_route ''r1'' 1 60 (Some 7) None [] [])]\<rparr>) (api_step \<lparr>rq_client = \<lambda>s. Some (length s), rq_now = 2, rq_fresh = ''f1'', rq_call = Give_Feedback 7 (Some ''r1'') (Some (J_Int 5)) (Some ''nice'')\<rparr> ((empty_db :: nat db)\<lparr>db_routes := [(mk_route ''r1'' 1 60 (Some 7) None [] [])]\<rparr>))" by (intro reachable_step reachable_start)
  have l: "length (db_feedbacks (api_step \<lparr>rq_client = \<lambda>s. Some (length s), rq_now = 2, rq_fresh = ''f1'', rq_call = Give_Feedback 7 (Some ''r1'') (Some (J_Int 5)) (Some ''nice'')\<rparr> ((empty_db :: nat db)\<lparr>db_routes := [(mk_route ''r1'' 1 60 (Some 7) None [] [])]\<rparr>))) = 1"
    by (simp add: feedback_view_def parse_rating_def py_int_json_def get_owned_route_def mk_route_def empty_db_def Let_def)
  from reachable_db_wf [OF w r] w r l show ?thesis by simp
qed

text \<open>
  C13. Over any sequence of API calls the feedback table is an append-only ledger (earlier
  rows are never changed or removed), the point table is never written, and no route
  changes in any field but its status.
\<close>

theorem api_run_frame:
  "(\<exists>new. db_feedbacks (api_run rqs d) = db_feedbacks d @ new) \<and>
   db_points (api_run rqs d) = db_points d \<and>
   routes_but_status (db_routes (api_run rqs d)) = routes_but_status (db_routes d)"
proof (induction rqs arbitrary: d)
  case Nil
  then show ?case by simp
next
  case (Cons rq rqs)
  from Cons.IH [of "api_step rq d"] api_step_frame [of rq d] show ?case by auto
qed

lemma cancel_route_user_views:
  "user_statistics_view v (fst (cancel_route u rid reason fid now d)) = user_statistics_view v d \<and>
   user_routes_list_view v sf l k (fst (cancel_route u rid reason fid now d)) = user_routes_list_view v sf l k d"
proof -
  have r: "db_routes (fst (cancel_route u rid reason fid now d)) = db_routes d"
    by (simp add: cancel_route_def Let_def split: option.splits)
  then show ?thesis
    using user_routes_list_view_routes_cong [OF r]
    by (simp add: cancel_route_def Let_def user_statistics_view_def split: option.splits)
qed

text \<open>
  C26. What the status views do to the statistics. Marking a going route done through
  the status view moves it, in the owner's statistics, from the active to the completed
  routes, the total unchanged. Cancelling a route changes nobody's statistics or route
  list: the cancelled route keeps counting as active, since the view never saves it.
\<close>

theorem status_views_statistics:
  assumes "db_wf d" and "rid \<noteq> []"
    and "get_owned_route (db_routes d) u rid = Some r" and "route_status r = Going"
  shows "st_completed_routes (user_statistics_view u (fst (edit_route_status u (Some rid) (Some ''done'') now d))) =
           st_completed_routes (user_statistics_view u d) + 1 \<and>
         st_active_routes (user_statistics_view u (fst (edit_route_status u (Some rid) (Some ''done'') now d))) + 1 =
           st_active_routes (user_statistics_view u d) \<and>
         st_total_routes (user_statistics_view u (fst (edit_route_status u (Some rid) (Some ''done'') now d))) =
           st_total_routes (user_statistics_view u d) \<and>
         user_statistics_view v (fst (cancel_route w rid' reason fid now' d)) = user_statistics_view v d \<and>
         user_routes_list_view v sf l k (fst (cancel_route w rid' reason fid now' d)) = user_routes_list_view v sf l k d"
proof -
  let ?rs = "user_routes u (db_routes d)"
  let ?f = "\<lambda>r. r\<lparr>route_status := Done\<rparr>"
  from get_owned_route_Some [OF assms(3)] have r: "r \<in> set ?rs" "route_id r = rid"
    by (auto simp: user_routes_def)
  from assms(1) have dist: "distinct (map route_id ?rs)"
    by (simp add: db_wf_def user_routes_def distinct_map_filter)
  have e: "fst (edit_route_status u (Some rid) (Some ''done'') now d) =
             d\<lparr>db_routes := save_route_status (route_id r) Done (db_routes d)\<rparr>"
    using edit_route_status_owned [OF assms(2,3), of Done] by simp
  have u: "user_routes u (save_route_status (route_id r) Done (db_routes d)) =
             update_where (\<lambda>y. route_id y = route_id r) ?f ?rs"
    by (rule user_routes_save_status)
  have cd: "length (filter (\<lambda>y. route_status y = Done) (update_where (\<lambda>y. route_id y = route_id r) ?f ?rs)) =
              length (filter (\<lambda>y. route_status y = Done) ?rs) + 1"
    using length_filter_update_where_unique [OF dist r(1), of "\<lambda>y. route_status y = Done" ?f] assms(4) by simp
  have cg: "length (filter (\<lambda>y. route_status y = Going) (update_where (\<lambda>y. route_id y = route_id r) ?f ?rs)) + 1 =
              length (filter (\<lambda>y. route_status y = Going) ?rs)"
    using length_filter_update_where_unique [OF dist r(1), of "\<lambda>y. route_status y = Going" ?f] assms(4) by simp
  show ?thesis using cd cg cancel_route_user_views [of v w rid' reason fid now' d sf l k]
    by (simp add: e u user_statistics_view_def Let_def)
qed

theorem status_views_statistics_witness:
  "st_completed_routes (user_statistics_view 7 (fst (edit_route_status 7 (Some ''r1'') (Some ''done'') 2 ((empty_db :: nat db)\<lparr>db_routes := [mk_route ''r1'' 1 60 (Some 7) None [] []]\<rparr>)))) = 1 \<and>
   st_active_routes (user_statistics_view 7 (fst (edit_route_status 7 (Some ''r1'') (Some ''done'') 2 ((empty_db :: nat db)\<lparr>db_routes := [mk_route ''r1'' 1 60 (Some 7) None [] []]\<rparr>)))) = 0"
proof -
  have wf: "db_wf ((empty_db :: nat db)\<lparr>db_routes := [mk_route ''r1'' 1 60 (Some 7) None [] []]\<rparr>)" by (simp add: db_wf_def emb_wf_def route_consistent_def mk_route_def empty_db_def)
  have own: "get_owned_route (db_routes ((empty_db :: nat db)\<lparr>db_routes := [mk_route ''r1'' 1 60 (Some 7) None [] []]\<rparr>)) 7 ''r1'' = Some (mk_route ''r1'' 1 60 (Some 7) None [] [])"
    by (simp add: get_owned_route_def mk_route_def empty_db_def)
  have st: "route_status (mk_route ''r1'' 1 60 (Some 7) None [] []) = Going" by (simp add: mk_route_def)
  have s0: "st_completed_routes (user_statistics_view 7 ((empty_db :: nat db)\<lparr>db_routes := [mk_route ''r1'' 1 60 (Some 7) None [] []]\<rparr>)) = 0 \<and> st_active_routes (user_statistics_view 7 ((empty_db :: nat db)\<lparr>db_routes := [mk_route ''r1'' 1 60 (Some 7) None [] []]\<rparr>)) = 1"
    by (simp add: user_statistics_view_def Let_def user_routes_def mk_route_def empty_db_def)
  from status_views_statistics [OF wf _ own st, of 2] s0 show ?thesis by simp
qed

end
